theory Spec2Isabelle
  imports Complex_Main "HOL-Library.Sublist"
begin

section \<open>Values of the host language\<close>

text \<open>
  A JavaScript string is modelled by its UTF-8 bytes (\<^typ>\<open>string\<close>). The white space that
  \<^verbatim>\<open>String.prototype.trim\<close> removes is the ECMAScript WhiteSpace and LineTerminator set,
  listed here by the UTF-8 encoding of each code point.
\<close>

definition js_ws_tokens :: "string list" where
  "js_ws_tokens =
     [[CHR 0x09], [CHR 0x0A], [CHR 0x0B], [CHR 0x0C], [CHR 0x0D], [CHR 0x20],
      [CHR 0xC2, CHR 0xA0], [CHR 0xE1, CHR 0x9A, CHR 0x80]]
     @ map (\<lambda>b. [CHR 0xE2, CHR 0x80, b])
         [CHR 0x80, CHR 0x81, CHR 0x82, CHR 0x83, CHR 0x84, CHR 0x85, CHR 0x86, CHR 0x87,
          CHR 0x88, CHR 0x89, CHR 0x8A, CHR 0xA8, CHR 0xA9, CHR 0xAF]
     @ [[CHR 0xE2, CHR 0x81, CHR 0x9F], [CHR 0xE3, CHR 0x80, CHR 0x80],
        [CHR 0xEF, CHR 0xBB, CHR 0xBF]]"

definition strip_token :: "string list \<Rightarrow> string \<Rightarrow> string option" where
  "strip_token toks s =
     (case List.find (\<lambda>w. w \<noteq> [] \<and> prefix w s) toks of
        None \<Rightarrow> None
      | Some w \<Rightarrow> Some (drop (length w) s))"

lemma strip_token_shorter: "strip_token toks s = Some r \<Longrightarrow> length r < length s"
  by (auto simp: strip_token_def find_Some_iff prefix_def split: option.splits)

function trim_front :: "string list \<Rightarrow> string \<Rightarrow> string" where
  "trim_front toks s =
     (case strip_token toks s of None \<Rightarrow> s | Some r \<Rightarrow> trim_front toks r)"
  by pat_completeness auto
termination
  by (relation "measure (\<lambda>(toks, s). length s)") (auto dest: strip_token_shorter)

definition trimStart :: "string \<Rightarrow> string" where
  "trimStart s = trim_front js_ws_tokens s"

definition trimEnd :: "string \<Rightarrow> string" where
  "trimEnd s = rev (trim_front (map rev js_ws_tokens) (rev s))"

definition trim :: "string \<Rightarrow> string" where
  "trim s = trimEnd (trimStart s)"

text \<open>A string that is nothing but white space: a sequence of the tokens above.\<close>

function whitespace_only :: "string \<Rightarrow> bool" where
  "whitespace_only s =
     (s = [] \<or> (case strip_token js_ws_tokens s of None \<Rightarrow> False | Some r \<Rightarrow> whitespace_only r))"
  by pat_completeness auto
termination
  by (relation "measure length") (auto dest: strip_token_shorter)

text \<open>\<^verbatim>\<open>startsWith\<close>, \<^verbatim>\<open>includes\<close> and \<^verbatim>\<open>toLowerCase\<close> (on the ASCII letters).\<close>

definition startsWith :: "string \<Rightarrow> string \<Rightarrow> bool" where
  "startsWith s p = prefix p s"

fun js_includes :: "string \<Rightarrow> string \<Rightarrow> bool" where
  "js_includes [] sub = (sub = [])"
| "js_includes (c # cs) sub = (prefix sub (c # cs) \<or> js_includes cs sub)"

definition lower_char :: "char \<Rightarrow> char" where
  "lower_char c =
     (case map_of (zip ''ABCDEFGHIJKLMNOPQRSTUVWXYZ'' ''abcdefghijklmnopqrstuvwxyz'') c of
        Some l \<Rightarrow> l
      | None \<Rightarrow> c)"

definition toLowerCase :: "string \<Rightarrow> string" where
  "toLowerCase s = map lower_char s"

text \<open>
  A number is an IEEE double: a finite value, NaN or an infinity. The program compares
  numbers, rounds them and subtracts rounded values; none of this depends on the binary
  representation, so a finite double is modelled by the real number it denotes.
\<close>

datatype jsnum = Fin real | NaN | PosInf | NegInf

text \<open>A value decoded from JSON; its option type adds \<^verbatim>\<open>undefined\<close> as \<^const>\<open>None\<close>.\<close>

datatype json =
    JNull
  | JBool bool
  | JNum jsnum
  | JStr string
  | JArr "json list"
  | JObj "(string \<times> json) list"

text \<open>
  Property access with optional chaining (\<^verbatim>\<open>v?.k\<close>) for the keys the program reads
  (\<^verbatim>\<open>tool_calls\<close>, \<^verbatim>\<open>function\<close>, \<^verbatim>\<open>name\<close>, \<^verbatim>\<open>arguments\<close>, \<^verbatim>\<open>response\<close>, ...): only an
  object has them.
\<close>

fun get_prop :: "json option \<Rightarrow> string \<Rightarrow> json option" where
  "get_prop (Some (JObj kvs)) k = map_of kvs k"
| "get_prop _ k = None"

text \<open>A thrown value: an \<^verbatim>\<open>Error\<close> with its name and message.\<close>

record js_error =
  err_name :: string
  err_message :: string

text \<open>\<^verbatim>\<open>String(e)\<close> of an error: \<^verbatim>\<open>Error.prototype.toString\<close>.\<close>

definition error_toString :: "js_error \<Rightarrow> string" where
  "error_toString e =
     (if err_name e = [] then err_message e
      else if err_message e = [] then err_name e
      else err_name e @ '': '' @ err_message e)"

section \<open>Session state (worker/agent.ts)\<close>

datatype role = System | User | Assistant | Tool

record ChatMessage =
  role :: role
  content :: string

record Msg = ChatMessage +
  ts :: int

record State =
  model :: "string option"
  messages :: "Msg list"
  createdAt :: int
  expiresAt :: int

definition DAY :: int where
  "DAY = 86400000"

definition DEFAULT_MODEL :: string where
  "DEFAULT_MODEL = ''@cf/meta/llama-4-scout-17b-16e-instruct''"

text \<open>\<^verbatim>\<open>this.state.model || DEFAULT_MODEL\<close>: an absent or empty model id is falsy.\<close>

definition model_or_default :: "State \<Rightarrow> string" where
  "model_or_default st =
     (case model st of None \<Rightarrow> DEFAULT_MODEL
      | Some m \<Rightarrow> if m = [] then DEFAULT_MODEL else m)"

definition isRecord :: "json option \<Rightarrow> bool" where
  "isRecord v = (case v of Some (JObj kvs) \<Rightarrow> True | _ \<Rightarrow> False)"

definition isUserOrAssistant :: "Msg \<Rightarrow> bool" where
  "isUserOrAssistant m = (role m = User \<or> role m = Assistant)"

section \<open>The language-model binding\<close>

text \<open>
  \<^verbatim>\<open>env.AI.run(model, input)\<close> is an external service: it resolves to a decoded value (a string
  among them) or to a byte stream, or it rejects. A stream is given by the text that
  \<^verbatim>\<open>decoder.decode(value, { stream: true })\<close> returns for each chunk read, in order, and by
  the error that ends it when reading fails.
\<close>

record ai_request =
  req_messages :: "ChatMessage list"
  req_stream :: bool
  req_tools :: "string list"
  req_temperature :: "real option"
  req_max_tokens :: "nat option"

datatype ai_output =
    AiValue json
  | AiStream "string list" "js_error option"

type_synonym ai_binding = "string \<Rightarrow> ai_request \<Rightarrow> js_error + ai_output"

section \<open>Planner (worker/agent.ts, tryPlanTool and parseToolArgs)\<close>

text \<open>\<^verbatim>\<open>JSON.parse\<close> is a parameter: \<^const>\<open>None\<close> is a SyntaxError.\<close>

type_synonym json_parser = "string \<Rightarrow> json option"

definition parseToolArgs :: "json_parser \<Rightarrow> json option \<Rightarrow> json" where
  "parseToolArgs parse raw =
     (if isRecord raw then the raw
      else case raw of
        Some (JStr s) \<Rightarrow>
          (case parse s of
             Some j \<Rightarrow> if isRecord (Some j) then j else JObj []
           | None \<Rightarrow> JObj [])
      | _ \<Rightarrow> JObj [])"

definition planner_instructions :: string where
  "planner_instructions =
     [CHR 0x0A, CHR 0x0A] @
     ''Planner instructions: Return a tool call ONLY when the user explicitly requests a weather forecast with a concrete location/timeframe. '' @
     ''Otherwise, do not return any tool call.''"

definition plannerInput :: "string \<Rightarrow> ChatMessage list \<Rightarrow> string \<Rightarrow> ai_request" where
  "plannerInput system_behavior history userText =
     \<lparr>req_messages =
        \<lparr>role = System, content = system_behavior @ planner_instructions\<rparr>
          # history @ [\<lparr>role = User, content = userText\<rparr>],
      req_stream = False,
      req_tools = [''getWeather''],
      req_temperature = Some (2 / 10),
      req_max_tokens = Some 200\<rparr>"

text \<open>
  The result is the arguments of the planned \<^verbatim>\<open>getWeather\<close> call, or \<^const>\<open>None\<close> for
  \<^verbatim>\<open>null\<close>. A stream or a string returned by the binding has no \<^verbatim>\<open>tool_calls\<close>.
\<close>

definition tryPlanTool ::
  "ai_binding \<Rightarrow> json_parser \<Rightarrow> string \<Rightarrow> State \<Rightarrow> ChatMessage list \<Rightarrow> string \<Rightarrow> json option" where
  "tryPlanTool AI parse system_behavior st history userText =
     (case AI (model_or_default st) (plannerInput system_behavior history userText) of
        Inl e \<Rightarrow> None
      | Inr out \<Rightarrow>
          (let obj = (case out of AiValue j \<Rightarrow> if isRecord (Some j) then Some j else None
                      | _ \<Rightarrow> None);
               calls = get_prop obj ''tool_calls''
           in case calls of
                Some (JArr (call # rest)) \<Rightarrow>
                  (let fn = get_prop (get_prop (Some call) ''function'') ''name''
                   in if fn \<noteq> Some (JStr ''getWeather'') then None
                      else Some (parseToolArgs parse
                                   (get_prop (get_prop (Some call) ''function'') ''arguments'')))
              | _ \<Rightarrow> None))"

section \<open>Forecast tool (worker/tools/getWeather.ts)\<close>

function nat_toString :: "nat \<Rightarrow> string" where
  "nat_toString n =
     (if n < 10 then [''0123456789'' ! n]
      else nat_toString (n div 10) @ [''0123456789'' ! (n mod 10)])"
  by pat_completeness auto
termination
  by (relation "measure id") auto

declare nat_toString.simps [simp del]

datatype units_pref = Auto | Metric | Imperial

record WeatherArgs =
  location :: "string option"
  latitude :: "jsnum option"
  longitude :: "jsnum option"
  startDate :: "string option"
  endDate :: "string option"
  days :: "jsnum option"
  units :: "units_pref option"

record WeatherDay =
  date :: string
  code :: jsnum
  tMax :: jsnum
  tMin :: jsnum
  precipMm :: jsnum
  pop :: jsnum

record geo =
  lat :: jsnum
  lon :: jsnum
  name :: string
  region :: "string option"
  country :: "string option"

record place = geo +
  timezone :: string

datatype temp_unit = Celsius | Fahrenheit

datatype precip_unit = Millimetres | Inches

record weather_ok =
  w_place :: place
  w_units :: "temp_unit \<times> precip_unit"
  daily :: "WeatherDay list"
  w_notes :: "string option"

text \<open>\<^verbatim>\<open>WeatherResult\<close>: the success variant or \<^verbatim>\<open>{ ok: false, error }\<close>; the failure of
  this tool carries no code.\<close>

datatype WeatherResult = WeatherOk weather_ok | WeatherFail string

text \<open>The Open-Meteo responses, by their declared types. A missing or non-array field is
  \<^const>\<open>None\<close>; so is a \<^verbatim>\<open>null\<close> element of an array.\<close>

record OMGeoResult =
  g_latitude :: jsnum
  g_longitude :: jsnum
  g_name :: string
  g_admin1 :: "string option"
  g_country :: "string option"

record OMGeoResponse =
  results :: "OMGeoResult list option"

record OMForecastDaily =
  time :: "string list option"
  temperature_2m_max :: "jsnum option list option"
  temperature_2m_min :: "jsnum option list option"
  precipitation_probability_max :: "jsnum option list option"
  precipitation_sum :: "jsnum option list option"
  weathercode :: "jsnum option list option"

record OMForecastResponse =
  om_timezone :: "string option"
  om_daily :: "OMForecastDaily option"

text \<open>A response of \<^verbatim>\<open>fetch\<close>: \<^verbatim>\<open>ok\<close>, \<^verbatim>\<open>status\<close>, and what \<^verbatim>\<open>json()\<close> resolves to (a
  rejection, or the decoded body, \<^const>\<open>None\<close> for \<^verbatim>\<open>null\<close>).\<close>

record 'j response =
  resp_ok :: bool
  resp_status :: nat
  resp_json :: "js_error + 'j option"

text \<open>The request for a forecast, as \<^verbatim>\<open>buildForecastUrl\<close> fills the search parameters.\<close>

record forecast_query =
  q_latitude :: jsnum
  q_longitude :: jsnum
  q_range :: "(string \<times> string) + jsnum"
  q_imperial :: bool

record weather_env =
  fetch_geocode :: "string \<Rightarrow> js_error + OMGeoResponse response"
  fetch_forecast :: "forecast_query \<Rightarrow> js_error + OMForecastResponse response"

definition clamp :: "jsnum \<Rightarrow> real \<Rightarrow> real \<Rightarrow> jsnum" where
  "clamp v lo hi =
     (case v of Fin x \<Rightarrow> Fin (min hi (max lo x)) | NaN \<Rightarrow> NaN | PosInf \<Rightarrow> Fin hi
      | NegInf \<Rightarrow> Fin (min hi lo))"

definition apos :: string where
  "apos = [CHR 0x27]"

definition type_error :: "string \<Rightarrow> js_error" where
  "type_error msg = \<lparr>err_name = ''TypeError'', err_message = msg\<rparr>"

definition geocodeIfNeeded :: "weather_env \<Rightarrow> WeatherArgs \<Rightarrow> js_error + geo option" where
  "geocodeIfNeeded env args =
     (case (latitude args, longitude args) of
        (Some la, Some lo) \<Rightarrow>
          Inr (Some \<lparr>lat = la, lon = lo,
                     name = (case location args of None \<Rightarrow> ''location'' | Some l \<Rightarrow> l),
                     region = None, country = None\<rparr>)
      | _ \<Rightarrow>
          (let q = trim (case location args of None \<Rightarrow> [] | Some l \<Rightarrow> l) in
           if q = [] then Inr None
           else case fetch_geocode env q of
             Inl e \<Rightarrow> Inl e
           | Inr r \<Rightarrow>
               if \<not> resp_ok r then Inr None
               else case resp_json r of
                 Inl e \<Rightarrow> Inl e
               | Inr None \<Rightarrow> Inl (type_error (''Cannot read properties of null (reading '' @ apos
                                        @ ''results'' @ apos @ '')''))
               | Inr (Some j) \<Rightarrow>
                   (case results j of
                      Some (hit # rest) \<Rightarrow>
                        Inr (Some \<lparr>lat = g_latitude hit, lon = g_longitude hit, name = g_name hit,
                                   region = g_admin1 hit, country = g_country hit\<rparr>)
                    | _ \<Rightarrow> Inr None)))"

definition truthy_string :: "string option \<Rightarrow> bool" where
  "truthy_string s = (case s of None \<Rightarrow> False | Some t \<Rightarrow> t \<noteq> [])"

definition buildForecastUrl ::
  "jsnum \<Rightarrow> jsnum \<Rightarrow> jsnum option \<Rightarrow> string option \<Rightarrow> string option \<Rightarrow> units_pref option \<Rightarrow>
     forecast_query" where
  "buildForecastUrl p_lat p_lon p_days p_start p_end p_units =
     \<lparr>q_latitude = p_lat, q_longitude = p_lon,
      q_range = (if truthy_string p_start \<and> truthy_string p_end
                 then Inl (the p_start, the p_end)
                 else Inr (clamp (case p_days of None \<Rightarrow> Fin 7 | Some d \<Rightarrow> d) 1 16)),
      q_imperial = (p_units = Some Imperial)\<rparr>"

definition is_digit :: "char \<Rightarrow> bool" where
  "is_digit c = (c \<in> set ''0123456789'')"

text \<open>\<^verbatim>\<open>/^\d{4}-\d{2}-\d{2}$/\<close>\<close>

definition iso_date_shape :: "string \<Rightarrow> bool" where
  "iso_date_shape s =
     (case s of
        [y1, y2, y3, y4, h1, m1, m2, h2, d1, d2] \<Rightarrow>
          is_digit y1 \<and> is_digit y2 \<and> is_digit y3 \<and> is_digit y4 \<and> h1 = CHR ''-'' \<and>
          is_digit m1 \<and> is_digit m2 \<and> h2 = CHR ''-'' \<and> is_digit d1 \<and> is_digit d2
      | _ \<Rightarrow> False)"

definition asISODate :: "string option \<Rightarrow> string option" where
  "asISODate s =
     (case s of
        None \<Rightarrow> None
      | Some t \<Rightarrow> if t = [] then None else if iso_date_shape t then Some t else None)"

definition unitLabels :: "units_pref \<Rightarrow> temp_unit \<times> precip_unit" where
  "unitLabels u = (if u = Imperial then (Fahrenheit, Inches) else (Celsius, Millimetres))"

text \<open>\<^verbatim>\<open>Number(xs[i] ?? d)\<close> for an array of numbers: the default for an index out of range
  and for \<^verbatim>\<open>null\<close>.\<close>

definition num_at :: "jsnum option list \<Rightarrow> nat \<Rightarrow> jsnum \<Rightarrow> jsnum" where
  "num_at xs i d = (if i < length xs then (case xs ! i of None \<Rightarrow> d | Some v \<Rightarrow> v) else d)"

definition daily_field ::
  "OMForecastResponse option \<Rightarrow> (OMForecastDaily \<Rightarrow> 'a list option) \<Rightarrow> 'a list" where
  "daily_field j f =
     (case j of
        None \<Rightarrow> []
      | Some r \<Rightarrow> (case om_daily r of None \<Rightarrow> [] | Some d \<Rightarrow> (case f d of None \<Rightarrow> [] | Some xs \<Rightarrow> xs)))"

definition daily_rows :: "OMForecastResponse option \<Rightarrow> WeatherDay list" where
  "daily_rows j =
     (let dates = daily_field j time;
          tMaxs = daily_field j temperature_2m_max;
          tMins = daily_field j temperature_2m_min;
          pops = daily_field j precipitation_probability_max;
          precs = daily_field j precipitation_sum;
          codes = daily_field j weathercode
      in map (\<lambda>i. \<lparr>date = dates ! i, code = num_at codes i (Fin 0), tMax = num_at tMaxs i NaN,
                    tMin = num_at tMins i NaN, precipMm = num_at precs i (Fin 0),
                    pop = num_at pops i (Fin 0)\<rparr>)
           [0 ..< length dates])"

definition rarrow :: string where
  "rarrow = [CHR 0xE2, CHR 0x86, CHR 0x92]"

text \<open>The body of \<^verbatim>\<open>getWeather\<close> inside \<^verbatim>\<open>try\<close>: the value returned there or the exception
  thrown there.\<close>

definition getWeather_try :: "weather_env \<Rightarrow> WeatherArgs \<Rightarrow> js_error + WeatherResult" where
  "getWeather_try env args =
     (case geocodeIfNeeded env args of
        Inl e \<Rightarrow> Inl e
      | Inr None \<Rightarrow> Inr (WeatherFail ''Please provide a city/location I can find.'')
      | Inr (Some pl) \<Rightarrow>
          (let start = asISODate (startDate args);
               stop = asISODate (endDate args);
               query = buildForecastUrl (lat pl) (lon pl) (days args) start stop (units args)
           in case fetch_forecast env query of
                Inl e \<Rightarrow> Inl e
              | Inr r \<Rightarrow>
                  if \<not> resp_ok r
                  then Inr (WeatherFail (''Weather API error ('' @ nat_toString (resp_status r) @ '')''))
                  else case resp_json r of
                    Inl e \<Rightarrow> Inl e
                  | Inr j \<Rightarrow>
                      (let rows = daily_rows j in
                       Inr (WeatherOk
                         \<lparr>w_place = \<lparr>lat = lat pl, lon = lon pl, name = name pl, region = region pl,
                                     country = country pl,
                                     timezone = (case j of None \<Rightarrow> ''auto''
                                                 | Some b \<Rightarrow> (case om_timezone b of
                                                                None \<Rightarrow> ''auto'' | Some z \<Rightarrow> z))\<rparr>,
                          w_units = unitLabels (case units args of None \<Rightarrow> Auto | Some u \<Rightarrow> u),
                          daily = rows,
                          w_notes = Some (if truthy_string start \<and> truthy_string stop
                                        then ''Forecast '' @ the start @ '' '' @ rarrow @ '' '' @ the stop
                                        else ''Forecast next '' @ nat_toString (length rows)
                                               @ '' day(s)'')\<rparr>))))"

text \<open>\<^verbatim>\<open>getWeather\<close>: \<^const>\<open>Inr\<close> is the value the promise resolves to, \<^const>\<open>Inl\<close> would be
  an exception leaving the function.\<close>

definition getWeather :: "weather_env \<Rightarrow> WeatherArgs \<Rightarrow> js_error + WeatherResult" where
  "getWeather env args =
     (case getWeather_try env args of
        Inr r \<Rightarrow> Inr r
      | Inl e \<Rightarrow> Inr (WeatherFail (if err_message e \<noteq> [] then err_message e else ''Unknown error'')))"

section \<open>Deterministic forecast summary (worker/agent.ts, streamSummary)\<close>

definition isFinite :: "jsnum \<Rightarrow> bool" where
  "isFinite v = (case v of Fin x \<Rightarrow> True | _ \<Rightarrow> False)"

text \<open>\<^verbatim>\<open>a > b\<close> on numbers: false whenever an operand is NaN.\<close>

fun js_gt :: "jsnum \<Rightarrow> jsnum \<Rightarrow> bool" where
  "js_gt NaN b = False"
| "js_gt a NaN = False"
| "js_gt (Fin x) (Fin y) = (y < x)"
| "js_gt (Fin x) NegInf = True"
| "js_gt (Fin x) PosInf = False"
| "js_gt PosInf PosInf = False"
| "js_gt PosInf b = True"
| "js_gt NegInf b = False"

text \<open>\<^verbatim>\<open>Math.round\<close> of a finite number: the nearest integer, a half rounded up.\<close>

definition js_round :: "real \<Rightarrow> int" where
  "js_round x = \<lfloor>x + 1 / 2\<rfloor>"

text \<open>
  The accumulators of the loop over the days. \<^verbatim>\<open>maxPop\<close> starts at \<^verbatim>\<open>-1\<close> and is only
  ever assigned a value that passed \<^verbatim>\<open>Number.isFinite\<close>, so it is kept as a real.
\<close>

record week_acc =
  weeklyHigh :: jsnum
  weeklyLow :: jsnum
  maxPop :: real
  wetIdx :: int

fun scan_days :: "WeatherDay list \<Rightarrow> nat \<Rightarrow> week_acc \<Rightarrow> week_acc" where
  "scan_days [] i a = a"
| "scan_days (d # ds) i a =
     scan_days ds (Suc i)
       \<lparr>weeklyHigh = (if isFinite (tMax d) \<and> js_gt (tMax d) (weeklyHigh a)
                      then tMax d else weeklyHigh a),
        weeklyLow = (if isFinite (tMin d) \<and> js_gt (weeklyLow a) (tMin d)
                     then tMin d else weeklyLow a),
        maxPop = (case pop d of Fin x \<Rightarrow> if maxPop a < x then x else maxPop a
                  | _ \<Rightarrow> maxPop a),
        wetIdx = (case pop d of Fin x \<Rightarrow> if maxPop a < x then int i else wetIdx a
                  | _ \<Rightarrow> wetIdx a)\<rparr>"

definition week_start :: week_acc where
  "week_start = \<lparr>weeklyHigh = NegInf, weeklyLow = PosInf, maxPop = - 1, wetIdx = - 1\<rparr>"

text \<open>
  The platform's formatting is a parameter: the decimal text of an integer-valued number
  (\<^verbatim>\<open>${hi}\<close>), and \<^verbatim>\<open>toLocaleDateString("en-US", ...)\<close> of the date built from an ISO day.
\<close>

record summary_env =
  number_text :: "int \<Rightarrow> string"
  toLocaleDateString :: "string \<Rightarrow> string"

fun join :: "string \<Rightarrow> string list \<Rightarrow> string" where
  "join sep [] = []"
| "join sep [x] = x"
| "join sep (x # y # ys) = x @ sep @ join sep (y # ys)"

definition placeName :: "place \<Rightarrow> string" where
  "placeName p =
     join '', ''
       (filter (\<lambda>s. s \<noteq> [])
          [name p, (case region p of None \<Rightarrow> [] | Some s \<Rightarrow> s),
           (case country p of None \<Rightarrow> [] | Some s \<Rightarrow> s)])"

definition temp_label :: "temp_unit \<Rightarrow> string" where
  "temp_label u = [CHR 0xC2, CHR 0xB0] @ (case u of Celsius \<Rightarrow> ''C'' | Fahrenheit \<Rightarrow> ''F'')"

text \<open>Line 1: overall temperatures.\<close>

definition line_temps :: "summary_env \<Rightarrow> string \<Rightarrow> string \<Rightarrow> int option \<Rightarrow> int option \<Rightarrow> string" where
  "line_temps env pn unitT hi lo =
     (case (hi, lo) of
        (Some h, Some l) \<Rightarrow>
          ''Next week in '' @ pn @ '', expect highs around '' @ number_text env h @ unitT
            @ '' and lows near '' @ number_text env l @ unitT @ ''.''
      | (Some h, None) \<Rightarrow>
          ''Next week in '' @ pn @ '', expect highs around '' @ number_text env h @ unitT @ ''.''
      | (None, Some l) \<Rightarrow>
          ''Next week in '' @ pn @ '', expect lows near '' @ number_text env l @ unitT @ ''.''
      | (None, None) \<Rightarrow>
          ''Next week in '' @ pn @ '', temperatures vary through the week.'')"

text \<open>Line 2: precipitation and the wettest day.\<close>

definition line_precip :: "summary_env \<Rightarrow> int option \<Rightarrow> string option \<Rightarrow> string" where
  "line_precip env p wetPretty =
     (case p of
        Some v \<Rightarrow>
          if 0 < v then
            (case wetPretty of
               Some w \<Rightarrow> ''Peak chance of precipitation is about '' @ number_text env v @ ''% on ''
                          @ w @ ''.''
             | None \<Rightarrow> ''Peak chance of precipitation is about '' @ number_text env v @ ''%.'')
          else ''Rain risk looks low overall.''
      | None \<Rightarrow> ''Rain risk looks low overall.'')"

text \<open>Line 3: the packing note.\<close>

definition umbrella_advice :: string where
  "umbrella_advice = ''Pack layers and bring a small umbrella or rain jacket just in case.''"

definition layering_advice :: string where
  "layering_advice = ''Pack layers (mornings/evenings cooler than afternoons).''"

definition light_advice :: string where
  "light_advice = ''Light layers should be fine for most of the week.''"

definition flexible_advice :: string where
  "flexible_advice = ''Pack flexible layers to handle changes through the week.''"

definition line_packing :: "int option \<Rightarrow> int option \<Rightarrow> int option \<Rightarrow> string" where
  "line_packing hi lo p =
     (case (hi, lo) of
        (Some h, Some l) \<Rightarrow>
          if (case p of Some v \<Rightarrow> 40 \<le> v | None \<Rightarrow> False) then umbrella_advice
          else if 10 \<le> h - l then layering_advice
          else light_advice
      | _ \<Rightarrow> flexible_advice)"

text \<open>
  The three parts for a result with the non-empty list \<^verbatim>\<open>days\<close> (the first seven days at
  most). Reading \<^verbatim>\<open>days[wetIdx].date\<close> out of range would be a TypeError.
\<close>

definition summary_parts ::
  "summary_env \<Rightarrow> weather_ok \<Rightarrow> WeatherDay list \<Rightarrow> js_error + string list" where
  "summary_parts env r ds =
     (let a = scan_days ds 0 week_start;
          hi = (case weeklyHigh a of Fin x \<Rightarrow> Some (js_round x) | _ \<Rightarrow> None);
          lo = (case weeklyLow a of Fin x \<Rightarrow> Some (js_round x) | _ \<Rightarrow> None);
          p = (if 0 \<le> maxPop a then Some (js_round (maxPop a)) else None);
          unitT = temp_label (fst (w_units r));
          pn = placeName (w_place r)
      in if 0 \<le> wetIdx a \<and> \<not> nat (wetIdx a) < length ds
         then Inl (type_error (''Cannot read properties of undefined (reading '' @ apos @ ''date''
                             @ apos @ '')''))
         else
           (let wetISO = (if 0 \<le> wetIdx a then date (ds ! nat (wetIdx a)) else []);
                wetPretty = (if wetISO \<noteq> [] then Some (toLocaleDateString env wetISO) else None)
            in Inr [line_temps env pn unitT hi lo, line_precip env p wetPretty,
                    line_packing hi lo p]))"

text \<open>\<^verbatim>\<open>result.daily.slice(0, Math.min(7, result.daily.length))\<close>\<close>

definition summary_days :: "weather_ok \<Rightarrow> WeatherDay list" where
  "summary_days r = take (min 7 (length (daily r))) (daily r)"

subsection \<open>The quantities of the summary, stated on the list of days\<close>

definition finite_vals :: "jsnum list \<Rightarrow> real list" where
  "finite_vals xs = List.map_filter (\<lambda>v. case v of Fin x \<Rightarrow> Some x | _ \<Rightarrow> None) xs"

text \<open>The weekly high, the weekly low and the peak probability: the greatest (least) finite
  value of the days, if there is one.\<close>

definition weekly_high :: "WeatherDay list \<Rightarrow> real option" where
  "weekly_high ds =
     (let xs = finite_vals (map tMax ds) in if xs = [] then None else Some (Max (set xs)))"

definition weekly_low :: "WeatherDay list \<Rightarrow> real option" where
  "weekly_low ds =
     (let xs = finite_vals (map tMin ds) in if xs = [] then None else Some (Min (set xs)))"

definition peak_pop :: "WeatherDay list \<Rightarrow> real option" where
  "peak_pop ds =
     (let xs = finite_vals (map pop ds) in if xs = [] then None else Some (Max (set xs)))"

text \<open>The first day that reaches the peak probability.\<close>

definition peak_day :: "WeatherDay list \<Rightarrow> WeatherDay option" where
  "peak_day ds =
     (case peak_pop ds of None \<Rightarrow> None | Some m \<Rightarrow> List.find (\<lambda>d. pop d = Fin m) ds)"

definition summary_high :: "WeatherDay list \<Rightarrow> int option" where
  "summary_high ds = map_option js_round (weekly_high ds)"

definition summary_low :: "WeatherDay list \<Rightarrow> int option" where
  "summary_low ds = map_option js_round (weekly_low ds)"

text \<open>The rounded peak probability, when the peak is not negative.\<close>

definition summary_pop :: "WeatherDay list \<Rightarrow> int option" where
  "summary_pop ds =
     (case peak_pop ds of None \<Rightarrow> None
      | Some m \<Rightarrow> if 0 \<le> m then Some (js_round m) else None)"

text \<open>The formatted date of the peak day, when its date text is not empty.\<close>

definition summary_wet :: "summary_env \<Rightarrow> WeatherDay list \<Rightarrow> string option" where
  "summary_wet env ds =
     (case peak_day ds of None \<Rightarrow> None
      | Some d \<Rightarrow> if date d = [] then None else Some (toLocaleDateString env (date d)))"

fun first_index :: "('a \<Rightarrow> bool) \<Rightarrow> 'a list \<Rightarrow> nat" where
  "first_index P [] = 0"
| "first_index P (x # xs) = (if P x then 0 else Suc (first_index P xs))"

section \<open>Browser tools (worker/tools: captureScreenshot and convertToPdf)\<close>

text \<open>
  \<^verbatim>\<open>new URL(s)\<close> and the \<^verbatim>\<open>hostname\<close> setter belong to the platform and are parameters:
  the parser gives \<^const>\<open>None\<close> where the constructor throws a TypeError. Of a parsed URL
  the program reads \<^verbatim>\<open>protocol\<close>, \<^verbatim>\<open>hostname\<close> and \<^verbatim>\<open>toString()\<close>.
\<close>

record URL =
  protocol :: string
  hostname :: string
  href :: string

type_synonym url_parser = "string \<Rightarrow> URL option"

text \<open>
  \<^verbatim>\<open>normalizeUrl\<close>, \<^verbatim>\<open>withWww\<close> and \<^verbatim>\<open>tryGo\<close> are written twice in the source, once in each
  tool, with the same text; one definition stands for both copies.
\<close>

definition normalizeUrl :: "url_parser \<Rightarrow> string \<Rightarrow> URL option" where
  "normalizeUrl newURL input =
     (let raw = trim input in
      if raw = [] then None
      else
        (case (case newURL raw of
                 None \<Rightarrow> Inl ()
               | Some u \<Rightarrow>
                   if protocol u = [] then Inl ()
                   else if protocol u \<noteq> ''http:'' \<and> protocol u \<noteq> ''https:'' then Inr None
                   else Inr (Some u)) of
           Inr r \<Rightarrow> r
         | Inl _ \<Rightarrow>
             (case newURL (''https://'' @ raw) of
                None \<Rightarrow> None
              | Some u \<Rightarrow> if protocol u \<noteq> ''https:'' then None else Some u)))"

definition withWww :: "url_parser \<Rightarrow> (URL \<Rightarrow> string \<Rightarrow> URL) \<Rightarrow> URL \<Rightarrow> URL option" where
  "withWww newURL set_hostname u =
     (if \<not> startsWith (hostname u) ''www.''
      then (case newURL (href u) of
              None \<Rightarrow> None
            | Some copy \<Rightarrow> Some (set_hostname copy (''www.'' @ hostname u)))
      else None)"

datatype wait = Load | DomContentLoaded | NetworkIdle0 | NetworkIdle2

definition wait_name :: "wait \<Rightarrow> string" where
  "wait_name w =
     (case w of Load \<Rightarrow> ''load'' | DomContentLoaded \<Rightarrow> ''domcontentloaded''
      | NetworkIdle0 \<Rightarrow> ''networkidle0'' | NetworkIdle2 \<Rightarrow> ''networkidle2'')"

datatype ToolErrorCode = BAD_URL | NAV_TIMEOUT | NAV_FAIL | CAPTURE_FAIL | UPLOAD_FAIL

definition code_name :: "ToolErrorCode \<Rightarrow> string" where
  "code_name c =
     (case c of BAD_URL \<Rightarrow> ''BAD_URL'' | NAV_TIMEOUT \<Rightarrow> ''NAV_TIMEOUT'' | NAV_FAIL \<Rightarrow> ''NAV_FAIL''
      | CAPTURE_FAIL \<Rightarrow> ''CAPTURE_FAIL'' | UPLOAD_FAIL \<Rightarrow> ''UPLOAD_FAIL'')"

text \<open>The result of a tool: the success variant or \<^verbatim>\<open>{ ok: false, error, code }\<close>.\<close>

datatype 'a tool_result = ToolOk 'a | ToolFail string ToolErrorCode

record viewport =
  vp_width :: nat
  vp_height :: nat

record CaptureArgs =
  url :: string
  viewport :: "viewport option"
  waitUntil :: "wait option"
  timeoutMs :: "real option"

record ScreenshotArgs = CaptureArgs +
  fullPage :: "bool option"

datatype pdf_format = A4 | Letter | Legal | Tabloid | A3 | A5

record pdf_args =
  format :: "pdf_format option"
  landscape :: "bool option"
  scale :: "real option"

record pdf_options =
  o_format :: pdf_format
  o_landscape :: bool
  o_scale :: real
  o_printBackground :: bool

record PdfArgs = CaptureArgs +
  pdf :: "pdf_args option"

record artifact =
  r_url :: string
  r_r2Key :: string
  r_contentType :: string
  r_bytes :: nat
  r_sourceUrl :: string

record screenshot_ok = artifact +
  r_width :: nat
  r_height :: nat
  r_viewport :: viewport

type_synonym ScreenshotResult = "screenshot_ok tool_result"
type_synonym PdfResult = "artifact tool_result"

text \<open>
  \<^verbatim>\<open>page.url()\<close> is read in two places: by \<^verbatim>\<open>tryGo\<close>, for its log line after a
  \<^verbatim>\<open>page.goto\<close> that resolved (told apart by the number of entries \<^verbatim>\<open>navAttempts\<close> had
  when that \<^verbatim>\<open>tryGo\<close> began), and once after the settling pause.
\<close>

datatype url_call = AfterGoto nat | AfterSettle

text \<open>
  The browser, the page and the object store are external. One call of a tool meets:
  the outcome of \<^verbatim>\<open>puppeteer.launch\<close>; of the page set-up (\<^verbatim>\<open>newPage\<close> to \<^verbatim>\<open>page.on\<close>, the
  first error among them); of each \<^verbatim>\<open>page.goto\<close>, by the number of entries \<^verbatim>\<open>navAttempts\<close>
  had before it, the destination, the wait condition and the timeout; of each
  \<^verbatim>\<open>page.url()\<close>; of the capture; the fresh UUID; the outcome of the upload (key, body,
  content type); and of \<^verbatim>\<open>browser.close\<close>. \<^const>\<open>None\<close> of an error option is success.
  The progress callback \<^verbatim>\<open>emit\<close> is taken not to throw; what it received is recorded in
  order.
\<close>

record cap_env =
  URL_new :: url_parser
  URL_set_hostname :: "URL \<Rightarrow> string \<Rightarrow> URL"
  browser_launch :: "js_error option"
  page_setup :: "js_error option"
  page_goto :: "nat \<Rightarrow> string \<Rightarrow> wait \<Rightarrow> real \<Rightarrow> js_error option"
  page_url :: "url_call \<Rightarrow> js_error + string"
  page_screenshot :: "bool \<Rightarrow> js_error + string"
  page_pdf :: "pdf_options \<Rightarrow> real \<Rightarrow> js_error + string"
  randomUUID :: string
  r2_put :: "string \<Rightarrow> string \<Rightarrow> string \<Rightarrow> js_error option"
  browser_close :: "js_error option"

datatype nav_outcome = NavOk | NavTimeout | NavFail

text \<open>
  An entry of \<^verbatim>\<open>navAttempts\<close>: the destination (logged by \<^verbatim>\<open>tryGo\<close>), and the wait
  condition and outcome the entry holds (the elapsed time is left out).
\<close>

record nav_attempt =
  na_dest :: string
  na_waitUntil :: wait
  na_outcome :: nav_outcome

text \<open>
  The \<^verbatim>\<open>catch\<close> clause of \<^verbatim>\<open>tryGo\<close>: the outcome is read off the error's message, an entry
  with it is pushed, and it is returned.
\<close>

definition tryGo_catch ::
  "js_error \<Rightarrow> nav_attempt list \<Rightarrow> URL \<Rightarrow> wait \<Rightarrow> nav_outcome \<times> nav_attempt list" where
  "tryGo_catch e tr dest wait =
     (let msg = (if err_message e \<noteq> [] then err_message e else error_toString e);
          outcome = (if js_includes (toLowerCase msg) ''timeout'' then NavTimeout else NavFail)
      in (outcome, tr @ [\<lparr>na_dest = href dest, na_waitUntil = wait, na_outcome = outcome\<rparr>]))"

text \<open>
  \<^verbatim>\<open>tryGo\<close>. Inside its \<^verbatim>\<open>try\<close>, after \<^verbatim>\<open>page.goto\<close> has resolved, the entry \<^verbatim>\<open>ok\<close> is pushed
  and the log line reads \<^verbatim>\<open>page.url()\<close>; an exception of that call is caught by the same
  \<^verbatim>\<open>catch\<close>, which pushes a second entry and returns its outcome.
\<close>

definition tryGo ::
  "cap_env \<Rightarrow> real \<Rightarrow> nav_attempt list \<Rightarrow> URL \<Rightarrow> wait \<Rightarrow> nav_outcome \<times> nav_attempt list" where
  "tryGo env timeout tr dest wait =
     (case page_goto env (length tr) (href dest) wait timeout of
        Some e \<Rightarrow> tryGo_catch e tr dest wait
      | None \<Rightarrow>
          (let tr1 = tr @ [\<lparr>na_dest = href dest, na_waitUntil = wait, na_outcome = NavOk\<rparr>]
           in case page_url env (AfterGoto (length tr)) of
                Inl e \<Rightarrow> tryGo_catch e tr1 dest wait
              | Inr finalUrl \<Rightarrow> (NavOk, tr1)))"

text \<open>
  The navigation of both tools (\<^verbatim>\<open>let ok = await tryGo(page, url, wantWait); ...\<close>): the last
  outcome, the attempts made, and whether \<^verbatim>\<open>Retrying with www\<close> was emitted.
\<close>

definition navigate ::
  "cap_env \<Rightarrow> real \<Rightarrow> URL \<Rightarrow> wait \<Rightarrow> nav_outcome \<times> nav_attempt list \<times> bool" where
  "navigate env timeout url0 wantWait =
     (let (ok, tr) = tryGo env timeout [] url0 wantWait in
      if ok = NavOk then (ok, tr, False)
      else
        (let (ok, tr) = (if ok = NavTimeout then tryGo env timeout tr url0 Load else (ok, tr));
             (ok, tr) = (if ok \<noteq> NavOk then tryGo env timeout tr url0 DomContentLoaded
                         else (ok, tr))
         in if ok \<noteq> NavOk then
              (case withWww (URL_new env) (URL_set_hostname env) url0 of
                 Some ww \<Rightarrow>
                   (let (ok, tr) = tryGo env timeout tr ww wantWait;
                        (ok, tr) = (if ok \<noteq> NavOk then tryGo env timeout tr ww Load else (ok, tr));
                        (ok, tr) = (if ok \<noteq> NavOk then tryGo env timeout tr ww DomContentLoaded
                                    else (ok, tr))
                    in (ok, tr, True))
               | None \<Rightarrow> (ok, tr, False))
            else (ok, tr, False)))"

definition hellip :: string where
  "hellip = [CHR 0xE2, CHR 0x80, CHR 0xA6]"

definition clamp_timeout :: "real option \<Rightarrow> real" where
  "clamp_timeout t = max 1000 (min 60000 (case t of None \<Rightarrow> 20000 | Some v \<Rightarrow> v))"

definition default_viewport :: viewport where
  "default_viewport = \<lparr>vp_width = 1280, vp_height = 800\<rparr>"

text \<open>What one call of a tool did: the value returned, or the exception that left the
  function; the progress messages; the navigation attempts; whether a browser was
  launched and closed; what was stored.\<close>

record 'r capture_run =
  returned :: "js_error + 'r tool_result"
  emitted :: "string list"
  navAttempts :: "nav_attempt list"
  launched :: bool
  closed :: bool
  uploaded :: "(string \<times> string \<times> string) list"

text \<open>The navigation failure both tools return when \<^verbatim>\<open>ok !== true\<close>.\<close>

definition nav_code :: "nav_outcome \<Rightarrow> ToolErrorCode" where
  "nav_code ok = (if ok = NavTimeout then NAV_TIMEOUT else NAV_FAIL)"

definition nav_failure :: "nav_outcome \<Rightarrow> 'a tool_result" where
  "nav_failure ok =
     ToolFail (if nav_code ok = NAV_TIMEOUT then ''Navigation timed out'' else ''Navigation failed'')
       (nav_code ok)"

text \<open>The \<^verbatim>\<open>catch\<close> clause around the body of both tools.\<close>

definition capture_catch :: "js_error \<Rightarrow> 'a tool_result" where
  "capture_catch e =
     (let msg = (if err_message e \<noteq> [] then err_message e else ''Capture error'');
          code = (if js_includes (toLowerCase msg) ''nav'' then NAV_FAIL else CAPTURE_FAIL)
      in ToolFail (if code = NAV_FAIL then ''Navigation failed'' else ''Capture failed'') code)"

definition nav_emits :: "wait \<Rightarrow> bool \<Rightarrow> string list" where
  "nav_emits wantWait www =
     (''Navigating ('' @ wait_name wantWait @ '')'' @ hellip)
       # (if www then [''Retrying with www'' @ hellip] else [])"

text \<open>The end of the body of \<^verbatim>\<open>captureScreenshot\<close>, after the settling pause: the
  value returned or the exception thrown, the messages emitted and the upload.\<close>

definition screenshot_capture ::
  "cap_env \<Rightarrow> string \<Rightarrow> viewport \<Rightarrow> bool \<Rightarrow>
     (js_error + ScreenshotResult) \<times> string list \<times> (string \<times> string \<times> string) list" where
  "screenshot_capture env sid vp full =
     (case page_url env AfterSettle of
        Inl e \<Rightarrow> (Inl e, [], [])
      | Inr finalUrl \<Rightarrow>
          (case page_screenshot env full of
             Inl e \<Rightarrow> (Inl e, [''Capturing screenshot'' @ hellip], [])
           | Inr ab \<Rightarrow>
               (let key = ''files/'' @ sid @ ''/'' @ randomUUID env @ ''.png'';
                    em = [''Capturing screenshot'' @ hellip, ''Uploading'' @ hellip]
                in case r2_put env key ab ''image/png'' of
                     Some e \<Rightarrow> (Inr (ToolFail ''Upload failed'' UPLOAD_FAIL), em, [])
                   | None \<Rightarrow>
                       (Inr (ToolOk
                          \<lparr>r_url = ''/'' @ key, r_r2Key = key, r_contentType = ''image/png'',
                           r_bytes = length ab, r_sourceUrl = finalUrl,
                           r_width = vp_width vp, r_height = vp_height vp, r_viewport = vp\<rparr>),
                        em, [(key, ab, ''image/png'')]))))"

text \<open>The body of \<^verbatim>\<open>captureScreenshot\<close> inside \<^verbatim>\<open>try\<close>: the value returned or the
  exception thrown there, with the messages emitted, the attempts and the upload.\<close>

definition screenshot_try ::
  "cap_env \<Rightarrow> string \<Rightarrow> URL \<Rightarrow> ScreenshotArgs \<Rightarrow>
     (js_error + ScreenshotResult) \<times> string list \<times> nav_attempt list \<times> (string \<times> string \<times> string) list" where
  "screenshot_try env sid url0 args =
     (let full = (case fullPage args of None \<Rightarrow> True | Some b \<Rightarrow> b);
          wantWait = (case waitUntil args of None \<Rightarrow> NetworkIdle0 | Some w \<Rightarrow> w);
          timeout = clamp_timeout (timeoutMs args);
          vp = (case viewport args of None \<Rightarrow> default_viewport | Some v \<Rightarrow> v)
      in case page_setup env of
           Some e \<Rightarrow> (Inl e, [], [], [])
         | None \<Rightarrow>
             (case navigate env timeout url0 wantWait of
                (ok, tr, www) \<Rightarrow>
                  if ok \<noteq> NavOk
                  then (Inr (nav_failure ok),
                        nav_emits wantWait www
                          @ [''Navigation failed ('' @ code_name (nav_code ok) @ '')''], tr, [])
                  else (case screenshot_capture env sid vp full of
                          (r, em, up) \<Rightarrow>
                            (r, nav_emits wantWait www @ [''Settling'' @ hellip] @ em, tr, up))))"

definition captureScreenshot :: "cap_env \<Rightarrow> string \<Rightarrow> ScreenshotArgs \<Rightarrow> screenshot_ok capture_run" where
  "captureScreenshot env sid args =
     (case normalizeUrl (URL_new env) (url args) of
        None \<Rightarrow>
          \<lparr>returned = Inr (ToolFail ''Invalid URL'' BAD_URL), emitted = [], navAttempts = [],
           launched = False, closed = False, uploaded = []\<rparr>
      | Some url0 \<Rightarrow>
          (case browser_launch env of
             Some e \<Rightarrow>
               \<lparr>returned = Inl e, emitted = [''Launching browser'' @ hellip], navAttempts = [],
                launched = False, closed = False, uploaded = []\<rparr>
           | None \<Rightarrow>
               (case screenshot_try env sid url0 args of (r, em, tr, up) \<Rightarrow>
                \<lparr>returned = Inr (case r of Inr res \<Rightarrow> res | Inl e \<Rightarrow> capture_catch e),
                 emitted = (''Launching browser'' @ hellip) # em, navAttempts = tr,
                 launched = True, closed = True, uploaded = up\<rparr>)))"

text \<open>The same for \<^verbatim>\<open>convertToPdf\<close>.\<close>

definition pdfOpts :: "PdfArgs \<Rightarrow> pdf_options" where
  "pdfOpts args =
     \<lparr>o_format = (case pdf args of None \<Rightarrow> A4
                   | Some p \<Rightarrow> (case format p of None \<Rightarrow> A4 | Some f \<Rightarrow> f)),
      o_landscape = (case pdf args of None \<Rightarrow> False
                      | Some p \<Rightarrow> (case landscape p of None \<Rightarrow> False | Some b \<Rightarrow> b)),
      o_scale = (case pdf args of None \<Rightarrow> 1
                  | Some p \<Rightarrow> (case scale p of None \<Rightarrow> 1 | Some s \<Rightarrow> s)),
      o_printBackground = True\<rparr>"

definition pdf_capture ::
  "cap_env \<Rightarrow> string \<Rightarrow> pdf_options \<Rightarrow> real \<Rightarrow>
     (js_error + PdfResult) \<times> string list \<times> (string \<times> string \<times> string) list" where
  "pdf_capture env sid opts timeout =
     (case page_url env AfterSettle of
        Inl e \<Rightarrow> (Inl e, [], [])
      | Inr finalUrl \<Rightarrow>
          (case page_pdf env opts timeout of
             Inl e \<Rightarrow> (Inl e, [''Rendering PDF'' @ hellip], [])
           | Inr pdfBuf \<Rightarrow>
               (let key = ''files/'' @ sid @ ''/'' @ randomUUID env @ ''.pdf'';
                    em = [''Rendering PDF'' @ hellip, ''Uploading'' @ hellip]
                in case r2_put env key pdfBuf ''application/pdf'' of
                     Some e \<Rightarrow> (Inr (ToolFail ''Upload failed'' UPLOAD_FAIL), em, [])
                   | None \<Rightarrow>
                       (Inr (ToolOk
                          \<lparr>r_url = ''/'' @ key, r_r2Key = key,
                           r_contentType = ''application/pdf'', r_bytes = length pdfBuf,
                           r_sourceUrl = finalUrl\<rparr>),
                        em, [(key, pdfBuf, ''application/pdf'')]))))"

definition pdf_try ::
  "cap_env \<Rightarrow> string \<Rightarrow> URL \<Rightarrow> PdfArgs \<Rightarrow>
     (js_error + PdfResult) \<times> string list \<times> nav_attempt list \<times> (string \<times> string \<times> string) list" where
  "pdf_try env sid url0 args =
     (let wantWait = (case waitUntil args of None \<Rightarrow> NetworkIdle0 | Some w \<Rightarrow> w);
          timeout = clamp_timeout (timeoutMs args)
      in case page_setup env of
           Some e \<Rightarrow> (Inl e, [], [], [])
         | None \<Rightarrow>
             (case navigate env timeout url0 wantWait of
                (ok, tr, www) \<Rightarrow>
                  if ok \<noteq> NavOk
                  then (Inr (nav_failure ok),
                        nav_emits wantWait www
                          @ [''Navigation failed ('' @ code_name (nav_code ok) @ '')''], tr, [])
                  else (case pdf_capture env sid (pdfOpts args) timeout of
                          (r, em, up) \<Rightarrow>
                            (r, nav_emits wantWait www @ [''Settling'' @ hellip] @ em, tr, up))))"

definition convertToPdf :: "cap_env \<Rightarrow> string \<Rightarrow> PdfArgs \<Rightarrow> artifact capture_run" where
  "convertToPdf env sid args =
     (case normalizeUrl (URL_new env) (url args) of
        None \<Rightarrow>
          \<lparr>returned = Inr (ToolFail ''Invalid URL'' BAD_URL), emitted = [], navAttempts = [],
           launched = False, closed = False, uploaded = []\<rparr>
      | Some url0 \<Rightarrow>
          (case browser_launch env of
             Some e \<Rightarrow>
               \<lparr>returned = Inl e, emitted = [''Launching browser'' @ hellip], navAttempts = [],
                launched = False, closed = False, uploaded = []\<rparr>
           | None \<Rightarrow>
               (case pdf_try env sid url0 args of (r, em, tr, up) \<Rightarrow>
                \<lparr>returned = Inr (case r of Inr res \<Rightarrow> res | Inl e \<Rightarrow> capture_catch e),
                 emitted = (''Launching browser'' @ hellip) # em, navAttempts = tr,
                 launched = True, closed = True, uploaded = up\<rparr>)))"

text \<open>What holds of the attempts of one navigation: there is at least one, the outcome
  reported is that of the last one, and every earlier one failed.\<close>

definition attempts_ok :: "nav_outcome \<times> nav_attempt list \<Rightarrow> bool" where
  "attempts_ok p =
     (case p of (ok, tr) \<Rightarrow>
        tr \<noteq> [] \<and> na_outcome (last tr) = ok \<and> (\<forall>a \<in> set (butlast tr). na_outcome a \<noteq> NavOk))"

definition wantWait_of :: "'a CaptureArgs_scheme \<Rightarrow> wait" where
  "wantWait_of args = (case waitUntil args of None \<Rightarrow> NetworkIdle0 | Some w \<Rightarrow> w)"

definition bad_url_run :: "'r capture_run" where
  "bad_url_run =
     \<lparr>returned = Inr (ToolFail ''Invalid URL'' BAD_URL), emitted = [], navAttempts = [],
      launched = False, closed = False, uploaded = []\<rparr>"

section \<open>Streaming response relay (worker/agent.ts, streamAssistant)\<close>

text \<open>\<^verbatim>\<open>buffer.indexOf("\n\n")\<close>: the frame before the first blank line and the buffer
  after it.\<close>

fun split_frame :: "string \<Rightarrow> (string \<times> string) option" where
  "split_frame (a # b # rest) =
     (if a = CHR 0x0A \<and> b = CHR 0x0A then Some ([], rest)
      else map_option (\<lambda>(f, r). (a # f, r)) (split_frame (b # rest)))"
| "split_frame s = None"

lemma split_frame_shorter: "split_frame s = Some (f, r) \<Longrightarrow> length r < length s"
proof (induction s arbitrary: f r rule: split_frame.induct)
  case (1 a b rest)
  show ?case
  proof (cases "a = CHR 0x0A \<and> b = CHR 0x0A")
    case True
    with "1.prems" show ?thesis by auto
  next
    case False
    with "1.prems" obtain f' where "split_frame (b # rest) = Some (f', r)" by auto
    with False "1.IH" have "length r < length (b # rest)" by blast
    then show ?thesis by simp
  qed
qed simp_all

text \<open>\<^verbatim>\<open>frame.replace(/\r\n/g, "\n")\<close> and \<^verbatim>\<open>split("\n")\<close>.\<close>

fun replace_crlf :: "string \<Rightarrow> string" where
  "replace_crlf (a # b # rest) =
     (if a = CHR 0x0D \<and> b = CHR 0x0A then CHR 0x0A # replace_crlf rest
      else a # replace_crlf (b # rest))"
| "replace_crlf s = s"

fun split_lines :: "string \<Rightarrow> string list" where
  "split_lines [] = [[]]"
| "split_lines (c # cs) =
     (if c = CHR 0x0A then [] # split_lines cs
      else (case split_lines cs of l # ls \<Rightarrow> (c # l) # ls | [] \<Rightarrow> [[c]]))"

text \<open>What one line of a frame adds to the text and sends as a delta, if anything.\<close>

definition line_delta :: "json_parser \<Rightarrow> string \<Rightarrow> string option" where
  "line_delta parse line =
     (if \<not> startsWith line ''data:'' then None
      else
        (let payload = trimStart (drop 5 line) in
         if payload = [] \<or> payload = ''[DONE]'' then None
         else case parse payload of
           None \<Rightarrow> Some payload
         | Some j \<Rightarrow>
             (case get_prop (Some j) ''response'' of
                Some (JStr piece) \<Rightarrow> if piece \<noteq> [] then Some piece else None
              | _ \<Rightarrow> None)))"

definition frame_deltas :: "json_parser \<Rightarrow> string \<Rightarrow> string list" where
  "frame_deltas parse frame =
     List.map_filter (line_delta parse) (split_lines (replace_crlf frame))"

text \<open>The inner loop: the deltas of the complete frames in the buffer, and what is left
  of the buffer.\<close>

function drain :: "json_parser \<Rightarrow> string \<Rightarrow> string list \<times> string" where
  "drain parse buffer =
     (case split_frame buffer of
        None \<Rightarrow> ([], buffer)
      | Some (frame, rest) \<Rightarrow>
          (case drain parse rest of (ds, b) \<Rightarrow> (frame_deltas parse frame @ ds, b)))"
  by pat_completeness auto
termination
  by (relation "measure (\<lambda>(parse, buffer). length buffer)") (auto dest: split_frame_shorter)

declare drain.simps [simp del]

text \<open>The outer loop over the chunks read from the stream.\<close>

fun consume :: "json_parser \<Rightarrow> string list \<Rightarrow> string \<Rightarrow> string list" where
  "consume parse [] buffer = []"
| "consume parse (chunk # chunks) buffer =
     (case drain parse (buffer @ chunk) of (ds, b) \<Rightarrow> ds @ consume parse chunks b)"

section \<open>Intent patterns (worker/agent.ts)\<close>

text \<open>
  The three regular expressions of the controller, as syntax trees, and a backtracking
  matcher for the constructs they use. The matcher works on the code points of the text
  (each kept as its UTF-8 bytes), tries alternatives and greedy repetitions in the order
  the platform does, and returns the end positions of all matches from a position, best
  first. A repetition needs no more iterations than there are code points, which bounds
  the recursion.
\<close>

definition utf8_len :: "char \<Rightarrow> nat" where
  "utf8_len c =
     (let n = (of_char c :: nat) in
      if n < 0xC0 then 1 else if n < 0xE0 then 2 else if n < 0xF0 then 3 else 4)"

function code_points :: "string \<Rightarrow> string list" where
  "code_points [] = []"
| "code_points (c # cs) =
     take (utf8_len c) (c # cs) # code_points (drop (utf8_len c) (c # cs))"
  by pat_completeness auto
termination
  by (relation "measure length") (auto simp: utf8_len_def Let_def)

declare code_points.simps [simp del]

datatype rx =
    Chr char
  | AnyChar
  | WordChar
  | WordOrDash
  | NonSpace
  | WordB
  | Eps
  | Seq rx rx
  | Alt rx rx
  | Star rx

definition Opt :: "rx \<Rightarrow> rx" where
  "Opt r = Alt r Eps"

definition Plus :: "rx \<Rightarrow> rx" where
  "Plus r = Seq r (Star r)"

definition lit :: "string \<Rightarrow> rx" where
  "lit s = foldr (\<lambda>c r. Seq (Chr c) r) s Eps"

definition is_word :: "string \<Rightarrow> bool" where
  "is_word cp =
     (case cp of
        [c] \<Rightarrow> c \<in> set ''ABCDEFGHIJKLMNOPQRSTUVWXYZabcdefghijklmnopqrstuvwxyz0123456789_''
      | _ \<Rightarrow> False)"

definition is_space :: "string \<Rightarrow> bool" where
  "is_space cp = (cp \<in> set js_ws_tokens)"

definition is_line_end :: "string \<Rightarrow> bool" where
  "is_line_end cp =
     (cp \<in> {[CHR 0x0A], [CHR 0x0D], [CHR 0xE2, CHR 0x80, CHR 0xA8], [CHR 0xE2, CHR 0x80, CHR 0xA9]})"

text \<open>A position: the code point before it, if any, and the code points after it.\<close>

type_synonym pos = "string option \<times> string list"

definition at_word :: "string option \<Rightarrow> bool" where
  "at_word c = (case c of None \<Rightarrow> False | Some cp \<Rightarrow> is_word cp)"

definition step_if :: "(string \<Rightarrow> bool) \<Rightarrow> pos \<Rightarrow> pos list" where
  "step_if ok p = (case snd p of [] \<Rightarrow> [] | x # xs \<Rightarrow> if ok x then [(Some x, xs)] else [])"

fun matches :: "nat \<Rightarrow> rx \<Rightarrow> pos \<Rightarrow> pos list" where
  "matches n (Chr c) p = step_if (\<lambda>x. toLowerCase x = toLowerCase [c]) p"
| "matches n AnyChar p = step_if (\<lambda>x. \<not> is_line_end x) p"
| "matches n WordChar p = step_if is_word p"
| "matches n WordOrDash p = step_if (\<lambda>x. is_word x \<or> x = ''-'') p"
| "matches n NonSpace p = step_if (\<lambda>x. \<not> is_space x) p"
| "matches n WordB p =
     (if at_word (fst p) \<noteq> at_word (case snd p of [] \<Rightarrow> None | x # xs \<Rightarrow> Some x) then [p] else [])"
| "matches n Eps p = [p]"
| "matches n (Seq a b) p = concat (map (matches n b) (matches n a p))"
| "matches n (Alt a b) p = matches n a p @ matches n b p"
| "matches 0 (Star r) p = [p]"
| "matches (Suc n) (Star r) p =
     concat (map (\<lambda>q. if length (snd q) < length (snd p) then matches n (Star r) q else [])
                 (matches (Suc n) r p))
     @ [p]"

text \<open>The leftmost match from some position on: the matched text (\<^verbatim>\<open>m[0]\<close>).\<close>

fun search :: "rx \<Rightarrow> pos \<Rightarrow> string option" where
  "search r (prev, []) =
     (case matches 0 r (prev, []) of [] \<Rightarrow> None | q # qs \<Rightarrow> Some [])"
| "search r (prev, x # xs) =
     (case matches (Suc (length xs)) r (prev, x # xs) of
        q # qs \<Rightarrow> Some (concat (take (Suc (length xs) - length (snd q)) (x # xs)))
      | [] \<Rightarrow> search r (Some x, xs))"

text \<open>\<^verbatim>\<open>text.match(re)\<close> with the \<^verbatim>\<open>i\<close> flag, and \<^verbatim>\<open>re.test(text)\<close>.\<close>

definition regex_match :: "rx \<Rightarrow> string \<Rightarrow> string option" where
  "regex_match r s = search r (None, code_points s)"

definition regex_test :: "rx \<Rightarrow> string \<Rightarrow> bool" where
  "regex_test r s = (regex_match r s \<noteq> None)"

text \<open>\<^verbatim>\<open>/\b(screenshot|capture\b.*(page|site|screen)|image of)\b/i\<close>\<close>

definition screenshot_rx :: rx where
  "screenshot_rx =
     Seq WordB
       (Seq (Alt (lit ''screenshot'')
              (Alt (Seq (lit ''capture'')
                     (Seq WordB
                        (Seq (Star AnyChar)
                           (Alt (lit ''page'') (Alt (lit ''site'') (lit ''screen''))))))
                   (lit ''image of'')))
            WordB)"

text \<open>\<^verbatim>\<open>/\b(pdf|export to pdf|save as pdf|render .* pdf)\b/i\<close>\<close>

definition pdf_rx :: rx where
  "pdf_rx =
     Seq WordB
       (Seq (Alt (lit ''pdf'')
              (Alt (lit ''export to pdf'')
                 (Alt (lit ''save as pdf'')
                    (Seq (lit ''render '') (Seq (Star AnyChar) (lit '' pdf''))))))
            WordB)"

text \<open>\<^verbatim>\<open>/\bhttps?:\/\/\S+|(?:\b[\w-]+\.)+\w{2,}(?:\/\S*)?/i\<close>\<close>

definition url_rx :: rx where
  "url_rx =
     Alt (Seq WordB
            (Seq (lit ''http'') (Seq (Opt (Chr CHR ''s'')) (Seq (lit ''://'') (Plus NonSpace)))))
         (Seq (Plus (Seq WordB (Seq (Plus WordOrDash) (Chr CHR ''.''))))
            (Seq WordChar
               (Seq WordChar
                  (Seq (Star WordChar) (Opt (Seq (Chr CHR ''/'') (Star NonSpace)))))))"

section \<open>Session controller (worker/agent.ts, class AIAgent)\<close>

datatype tool_status = Started | Step | Finished | Failed

datatype tool_payload =
    WeatherPayload WeatherResult
  | ScreenshotPayload ScreenshotResult
  | PdfPayload PdfResult

text \<open>The events sent to the client: \<^verbatim>\<open>ready\<close>, \<^verbatim>\<open>delta\<close>, \<^verbatim>\<open>done\<close>, \<^verbatim>\<open>cleared\<close> and
  \<^verbatim>\<open>tool\<close> (tool name, status, message, result).\<close>

datatype event =
    Ready State
  | Delta string
  | Done
  | Cleared
  | ToolEvent string tool_status "string option" "tool_payload option"

text \<open>
  One agent: its name (the session id), the state mirrored to clients, the rows of the
  durable \<^verbatim>\<open>messages\<close> table in insertion order, the events sent so far, and the number of
  times the clock was read.
\<close>

record agent =
  agent_name :: string
  state :: State
  rows :: "Msg list"
  sent :: "event list"
  ticks :: nat

text \<open>The decoded frame of the client, by its declared type.\<close>

record event_data =
  d_type :: "string option"
  d_text :: "string option"
  d_model :: "string option"

datatype ws_message = Text string | Binary

text \<open>
  What the controller reaches outside itself: the clock (\<^verbatim>\<open>Date.now()\<close>, by the number of
  earlier readings), the language model, \<^verbatim>\<open>JSON.parse\<close> (of model output, and of a client
  frame by its declared type, \<^const>\<open>None\<close> for a SyntaxError or \<^verbatim>\<open>null\<close>),
  \<^verbatim>\<open>JSON.stringify\<close> of a tool result and of its stored envelope, the shared system prompt,
  and the environments of the three tools and of the summary.
\<close>

record controller_env =
  now :: "nat \<Rightarrow> int"
  AI_run :: ai_binding
  JSON_parse :: json_parser
  decode_frame :: "string \<Rightarrow> event_data option"
  stringify_result :: "tool_payload \<Rightarrow> string"
  stringify_envelope :: "string \<Rightarrow> tool_payload \<Rightarrow> string"
  SYSTEM_BEHAVIOR :: string
  browser :: cap_env
  weather :: weather_env
  intl :: summary_env

definition Date_now :: "controller_env \<Rightarrow> agent \<Rightarrow> int \<times> agent" where
  "Date_now env a = (now env (ticks a), a\<lparr>ticks := Suc (ticks a)\<rparr>)"

definition send :: "event \<Rightarrow> agent \<Rightarrow> agent" where
  "send ev a = a\<lparr>sent := sent a @ [ev]\<rparr>"

text \<open>\<^verbatim>\<open>INSERT INTO messages\<close> followed by \<^verbatim>\<open>setState\<close> with the message appended and the
  expiry moved: the pattern of every persisted message.\<close>

definition persist :: "controller_env \<Rightarrow> role \<Rightarrow> string \<Rightarrow> agent \<Rightarrow> agent" where
  "persist env r text a =
     (case Date_now env a of (t, a1) \<Rightarrow>
        (let m = \<lparr>role = r, content = text, ts = t\<rparr>;
             a2 = a1\<lparr>rows := rows a1 @ [m]\<rparr>
         in case Date_now env a2 of (t', a3) \<Rightarrow>
              a3\<lparr>state := (state a3)\<lparr>messages := messages (state a3) @ [m],
                                      expiresAt := t' + DAY\<rparr>\<rparr>))"

definition saveAssistant :: "controller_env \<Rightarrow> string \<Rightarrow> agent \<Rightarrow> agent" where
  "saveAssistant env text a = persist env Assistant text a"

text \<open>\<^verbatim>\<open>onConnect\<close>: load the rows when the mirrored list is empty, then send \<^verbatim>\<open>ready\<close>.\<close>

definition onConnect :: "controller_env \<Rightarrow> agent \<Rightarrow> agent" where
  "onConnect env a =
     (let a1 = (if messages (state a) = []
                then (case Date_now env a of (t, a') \<Rightarrow>
                        a'\<lparr>state := (state a')\<lparr>messages := sort_key ts (rows a'),
                                               expiresAt := t + DAY\<rparr>\<rparr>)
                else a)
      in send (Ready (state a1)) a1)"

definition mdash :: string where "mdash = [CHR 0xE2, CHR 0x80, CHR 0x94]"
definition rsquo :: string where "rsquo = [CHR 0xE2, CHR 0x80, CHR 0x99]"
definition ldquo :: string where "ldquo = [CHR 0xE2, CHR 0x80, CHR 0x9C]"
definition rdquo :: string where "rdquo = [CHR 0xE2, CHR 0x80, CHR 0x9D]"
definition ndash :: string where "ndash = [CHR 0xE2, CHR 0x80, CHR 0x93]"
definition times_sign :: string where "times_sign = [CHR 0xC3, CHR 0x97]"

subsection \<open>Forecast branch\<close>

text \<open>\<^verbatim>\<open>streamSummary\<close>: the summary as one delta, \<^verbatim>\<open>done\<close>, and the persisted message. The
  second component is an exception that leaves the method.\<close>

definition streamSummary ::
  "controller_env \<Rightarrow> WeatherResult \<Rightarrow> agent \<Rightarrow> agent \<times> js_error option" where
  "streamSummary env res a =
     (case res of
        WeatherFail err \<Rightarrow> (saveAssistant env (''I couldn't summarize the weather: '' @ err) a, None)
      | WeatherOk r \<Rightarrow>
          (let ds = summary_days r in
           if ds = []
           then (saveAssistant env ''I couldn't find a daily forecast for that range.'' a, None)
           else case summary_parts (intl env) r ds of
             Inl e \<Rightarrow> (a, Some e)
           | Inr parts \<Rightarrow>
               (let summary = join '' '' parts in
                (saveAssistant env summary (send Done (send (Delta summary) a)), None))))"

text \<open>
  The planner's arguments are used as \<^verbatim>\<open>Partial<WeatherArgs>\<close> without a check. The model
  covers arguments whose fields have their declared types: it reads each field at that
  type. A field of another type, which the code would use as it is, is read as absent
  here and is outside what this model describes.
\<close>

definition as_WeatherArgs :: "json \<Rightarrow> WeatherArgs" where
  "as_WeatherArgs j =
     (let str = (\<lambda>k. case get_prop (Some j) k of Some (JStr s) \<Rightarrow> Some s | _ \<Rightarrow> None);
          num = (\<lambda>k. case get_prop (Some j) k of Some (JNum n) \<Rightarrow> Some n | _ \<Rightarrow> None)
      in \<lparr>location = str ''location'', latitude = num ''latitude'', longitude = num ''longitude'',
          startDate = str ''startDate'', endDate = str ''endDate'', days = num ''days'',
          units = (case str ''units'' of
                     Some u \<Rightarrow> if u = ''imperial'' then Some Imperial
                               else if u = ''metric'' then Some Metric
                               else if u = ''auto'' then Some Auto else None
                   | None \<Rightarrow> None)\<rparr>)"

definition store_tool_row :: "controller_env \<Rightarrow> string \<Rightarrow> tool_payload \<Rightarrow> agent \<Rightarrow> agent" where
  "store_tool_row env tool res a = persist env Tool (stringify_envelope env tool res) a"

definition weather_turn :: "controller_env \<Rightarrow> json \<Rightarrow> agent \<Rightarrow> agent \<times> js_error option" where
  "weather_turn env planned a =
     (let args = as_WeatherArgs planned;
          pre = ''Sure '' @ mdash @ '' I'' @ rsquo @ ''ll check the forecast for ''
                @ (case location args of None \<Rightarrow> ''that location'' | Some l \<Rightarrow> l)
                @ '' using getWeather'' @ hellip;
          a1 = saveAssistant env pre (send Done (send (Delta pre) a));
          a2 = send (ToolEvent ''getWeather'' Step (Some (''Fetching forecast from Open-Meteo'' @ hellip)) None)
                 (send (ToolEvent ''getWeather'' Started (Some (''Planning weather lookup'' @ hellip)) None) a1)
      in case getWeather (weather env) args of
           Inl e \<Rightarrow> (a2, Some e)
         | Inr (WeatherFail err) \<Rightarrow>
             (saveAssistant env (''I couldn't fetch the weather: '' @ err)
                (send (ToolEvent ''getWeather'' Failed (Some err) None) a2), None)
         | Inr (WeatherOk r) \<Rightarrow>
             streamSummary env (WeatherOk r)
               (store_tool_row env ''getWeather'' (WeatherPayload (WeatherOk r))
                  (send (ToolEvent ''getWeather'' Finished (Some ''Forecast ready'')
                           (Some (WeatherPayload (WeatherOk r)))) a2)))"

subsection \<open>Outcome summary of the browser tools\<close>

definition truthy :: "json option \<Rightarrow> bool" where
  "truthy v =
     (case v of
        None \<Rightarrow> False
      | Some JNull \<Rightarrow> False
      | Some (JBool b) \<Rightarrow> b
      | Some (JNum n) \<Rightarrow> (case n of Fin x \<Rightarrow> x \<noteq> 0 | NaN \<Rightarrow> False | _ \<Rightarrow> True)
      | Some (JStr s) \<Rightarrow> s \<noteq> []
      | Some _ \<Rightarrow> True)"

text \<open>The deterministic text of \<^verbatim>\<open>summarizeToolOutcome\<close>; an exception inside (the source
  URL does not parse) ends in \<^verbatim>\<open>Done.\<close>\<close>

definition fallback_title :: "url_parser \<Rightarrow> string \<Rightarrow> string option" where
  "fallback_title newURL sourceUrl =
     (if sourceUrl \<noteq> [] then map_option hostname (newURL sourceUrl) else Some ''page'')"

definition fallback_summary :: "url_parser \<Rightarrow> string \<Rightarrow> tool_payload \<Rightarrow> string" where
  "fallback_summary newURL tool res =
     (let failed = (\<lambda>c. ''The '' @ (if tool = ''screenshot'' then ''screenshot'' else ''PDF'')
                      @ '' step failed ('' @ code_name c @ ''). You can retry with a longer timeout or a different URL.'')
      in case res of
        ScreenshotPayload (ToolOk r) \<Rightarrow>
          (case fallback_title newURL (r_sourceUrl r) of
             None \<Rightarrow> ''Done.''
           | Some title \<Rightarrow>
               ''Captured '' @ ldquo @ title @ rdquo
               @ (if r_width r \<noteq> 0 \<and> r_height r \<noteq> 0
                  then '' ('' @ nat_toString (r_width r) @ times_sign @ nat_toString (r_height r) @ '')''
                  else [])
               @ ''. Use the link above to open or download.'')
      | PdfPayload (ToolOk r) \<Rightarrow>
          (case fallback_title newURL (r_sourceUrl r) of
             None \<Rightarrow> ''Done.''
           | Some title \<Rightarrow>
               ''Rendered '' @ ldquo @ title @ rdquo
               @ '' to PDF. Use the link above to open or download.'')
      | ScreenshotPayload (ToolFail err c) \<Rightarrow> failed c
      | PdfPayload (ToolFail err c) \<Rightarrow> failed c
      | WeatherPayload w \<Rightarrow> ''Done.'')"

definition summary_request :: "controller_env \<Rightarrow> string \<Rightarrow> string \<Rightarrow> tool_payload \<Rightarrow> ai_request" where
  "summary_request env userQuery tool res =
     \<lparr>req_messages =
        [\<lparr>role = System,
          content = ''Explain the outcome of a web capture tool (screenshot or PDF) in 1'' @ ndash
            @ ''3 sentences. Be factual and concise. If navigation timed out or required a fallback (e.g., used 'load' instead of 'networkidle0'), or redirected, mention it briefly. Offer one concrete suggestion if helpful (e.g., adjust viewport, increase timeout). The link is already shown; don't repeat it.''\<rparr>,
         \<lparr>role = User,
          content = ''User request:'' @ [CHR 0x0A] @ userQuery @ [CHR 0x0A, CHR 0x0A] @ ''Tool: '' @ tool
            @ [CHR 0x0A, CHR 0x0A] @ ''Result JSON (truncated):'' @ [CHR 0x0A]
            @ take 1800 (stringify_result env res)\<rparr>],
      req_stream = False, req_tools = [], req_temperature = Some (2 / 10),
      req_max_tokens = Some 150\<rparr>"

definition summarizeToolOutcome ::
  "controller_env \<Rightarrow> string option \<Rightarrow> string \<Rightarrow> string \<Rightarrow> tool_payload \<Rightarrow> string" where
  "summarizeToolOutcome env modelId userQuery tool res =
     (let fallback = fallback_summary (URL_new (browser env)) tool res;
          mid = (case modelId of None \<Rightarrow> [] | Some m \<Rightarrow> m)
      in if mid = [] then fallback
         else case AI_run env mid (summary_request env userQuery tool res) of
           Inl e \<Rightarrow> fallback
         | Inr (AiValue (JStr s)) \<Rightarrow> s
         | Inr (AiValue (JObj kvs)) \<Rightarrow>
             (let pick = (\<lambda>k. map_of kvs k);
                  txt = (if truthy (pick ''response'') then pick ''response''
                         else if truthy (pick ''output'') then pick ''output''
                         else if truthy (pick ''text'') then pick ''text''
                         else Some (JStr []))
              in case txt of
                   Some (JStr t) \<Rightarrow> if trim t \<noteq> [] then trim t else fallback
                 | _ \<Rightarrow> fallback)
         | Inr _ \<Rightarrow> fallback)"

subsection \<open>Browser branches\<close>

definition send_steps :: "string \<Rightarrow> string list \<Rightarrow> agent \<Rightarrow> agent" where
  "send_steps tool msgs a = a\<lparr>sent := sent a @ map (\<lambda>m. ToolEvent tool Step (Some m) None) msgs\<rparr>"

definition say :: "controller_env \<Rightarrow> string \<Rightarrow> agent \<Rightarrow> agent" where
  "say env text a = saveAssistant env text (send Done (send (Delta text) a))"

definition screenshot_args :: "string \<Rightarrow> ScreenshotArgs" where
  "screenshot_args target =
     \<lparr>url = (if target \<noteq> [] then target else ''https://example.com''), viewport = None,
      waitUntil = None, timeoutMs = None, fullPage = Some True\<rparr>"

definition screenshot_pre :: "string \<Rightarrow> string" where
  "screenshot_pre target =
     ''Okay '' @ mdash @ '' I'' @ rsquo @ ''ll capture a full-page screenshot of ''
       @ (if target \<noteq> [] then target else ''that page'') @ hellip"

definition screenshot_turn ::
  "controller_env \<Rightarrow> string \<Rightarrow> string \<Rightarrow> agent \<Rightarrow> agent \<times> js_error option" where
  "screenshot_turn env userText target a =
     (let pre = screenshot_pre target;
          a1 = send (ToolEvent ''screenshot'' Started (Some (''Planning capture'' @ hellip)) None)
                 (say env pre a);
          run = captureScreenshot (browser env) (agent_name a) (screenshot_args target);
          a2 = send_steps ''screenshot'' (emitted run) a1
      in case returned run of
           Inl e \<Rightarrow> (a2, Some e)
         | Inr (ToolFail err c) \<Rightarrow>
             (let res = ScreenshotPayload (ToolFail err c);
                  a3 = send (ToolEvent ''screenshot'' Failed (Some err) (Some res)) a2
              in (say env (summarizeToolOutcome env (model (state a3)) userText ''screenshot'' res) a3,
                  None))
         | Inr (ToolOk r) \<Rightarrow>
             (let res = ScreenshotPayload (ToolOk r);
                  a3 = store_tool_row env ''screenshot'' res
                         (send (ToolEvent ''screenshot'' Finished (Some ''Screenshot ready'') (Some res)) a2)
              in (say env (summarizeToolOutcome env (model (state a3)) userText ''screenshot'' res) a3,
                  None)))"

definition pdf_turn_args :: "string \<Rightarrow> PdfArgs" where
  "pdf_turn_args target =
     \<lparr>url = (if target \<noteq> [] then target else ''https://example.com''), viewport = None,
      waitUntil = None, timeoutMs = None,
      pdf = Some \<lparr>format = Some A4, landscape = None, scale = Some 1\<rparr>\<rparr>"

definition pdf_pre :: "string \<Rightarrow> string" where
  "pdf_pre target =
     ''Got it '' @ mdash @ '' I'' @ rsquo @ ''ll render a PDF of ''
       @ (if target \<noteq> [] then target else ''that page'') @ hellip"

definition pdf_turn ::
  "controller_env \<Rightarrow> string \<Rightarrow> string \<Rightarrow> agent \<Rightarrow> agent \<times> js_error option" where
  "pdf_turn env userText target a =
     (let pre = pdf_pre target;
          a1 = send (ToolEvent ''convertToPdf'' Started (Some (''Planning PDF'' @ hellip)) None)
                 (say env pre a);
          run = convertToPdf (browser env) (agent_name a) (pdf_turn_args target);
          a2 = send_steps ''convertToPdf'' (emitted run) a1
      in case returned run of
           Inl e \<Rightarrow> (a2, Some e)
         | Inr (ToolFail err c) \<Rightarrow>
             (let res = PdfPayload (ToolFail err c);
                  a3 = send (ToolEvent ''convertToPdf'' Failed (Some err) (Some res)) a2
              in (say env (summarizeToolOutcome env (model (state a3)) userText ''convertToPdf'' res) a3,
                  None))
         | Inr (ToolOk r) \<Rightarrow>
             (let res = PdfPayload (ToolOk r);
                  a3 = store_tool_row env ''convertToPdf'' res
                         (send (ToolEvent ''convertToPdf'' Finished (Some ''PDF ready'') (Some res)) a2)
              in (say env (summarizeToolOutcome env (model (state a3)) userText ''convertToPdf'' res) a3,
                  None)))"

subsection \<open>Plain chat\<close>

definition streamAssistant :: "controller_env \<Rightarrow> ChatMessage list \<Rightarrow> agent \<Rightarrow> agent" where
  "streamAssistant env history a =
     (case AI_run env (model_or_default (state a))
             \<lparr>req_messages = \<lparr>role = System, content = SYSTEM_BEHAVIOR env\<rparr> # history,
              req_stream = True, req_tools = [], req_temperature = None, req_max_tokens = None\<rparr> of
        Inl e \<Rightarrow> saveAssistant env ''_(stream error)_'' (send Done a)
      | Inr (AiStream chunks err) \<Rightarrow>
          (let deltas = consume (JSON_parse env) chunks [];
               full = concat deltas;
               final = (if err \<noteq> None \<and> full = [] then ''_(stream error)_'' else full)
           in saveAssistant env final
                (send Done (a\<lparr>sent := sent a @ map Delta deltas\<rparr>)))
      | Inr (AiValue (JStr s)) \<Rightarrow> send Done (saveAssistant env s a)
      | Inr (AiValue v) \<Rightarrow> send Done (saveAssistant env ''[no response]'' a))"

subsection \<open>Dispatch\<close>

text \<open>The \<^verbatim>\<open>chat\<close> branch of \<^verbatim>\<open>onMessage\<close> for a text that is not empty after trimming.\<close>

text \<open>The history given to the model: of the last 40 messages, those of the user and the
  assistant, as role and content.\<close>

definition history_of :: "agent \<Rightarrow> ChatMessage list" where
  "history_of a =
     (let recentUA = filter isUserOrAssistant
                       (drop (length (messages (state a)) - 40) (messages (state a)))
      in map (\<lambda>m. \<lparr>role = role m, content = content m\<rparr>) recentUA)"

definition chat_turn :: "controller_env \<Rightarrow> string \<Rightarrow> agent \<Rightarrow> agent \<times> js_error option" where
  "chat_turn env userText a =
     (let a1 = persist env User userText a;
          history = history_of a1
      in case tryPlanTool (AI_run env) (JSON_parse env) (SYSTEM_BEHAVIOR env) (state a1) history userText of
           Some planned \<Rightarrow> weather_turn env planned a1
         | None \<Rightarrow>
             if regex_test screenshot_rx userText
             then screenshot_turn env userText
                    (case regex_match url_rx userText of None \<Rightarrow> [] | Some m \<Rightarrow> m) a1
             else if regex_test pdf_rx userText
             then pdf_turn env userText
                    (case regex_match url_rx userText of None \<Rightarrow> [] | Some m \<Rightarrow> m) a1
             else (streamAssistant env history a1, None))"

definition truthy_text :: "string option \<Rightarrow> bool" where
  "truthy_text s = (case s of None \<Rightarrow> False | Some t \<Rightarrow> t \<noteq> [])"

definition reset :: "controller_env \<Rightarrow> agent \<Rightarrow> agent" where
  "reset env a =
     (let a1 = a\<lparr>rows := []\<rparr> in
      case Date_now env a1 of (t, a2) \<Rightarrow>
        (case Date_now env a2 of (t', a3) \<Rightarrow>
           send Cleared
             (a3\<lparr>state := \<lparr>model = Some (model_or_default (state a3)), messages = [],
                           createdAt = t, expiresAt = t' + DAY\<rparr>\<rparr>)))"

definition onMessage :: "controller_env \<Rightarrow> ws_message \<Rightarrow> agent \<Rightarrow> agent \<times> js_error option" where
  "onMessage env message a =
     (case message of
        Binary \<Rightarrow> (a, None)
      | Text m \<Rightarrow>
          (case decode_frame env m of
             None \<Rightarrow> (a, None)
           | Some data \<Rightarrow>
               if \<not> truthy_text (d_type data) then (a, None)
               else if d_type data = Some ''model'' \<and> truthy_text (d_model data)
               then (case Date_now env a of (t, a1) \<Rightarrow>
                       (a1\<lparr>state := (state a1)\<lparr>model := d_model data, expiresAt := t + DAY\<rparr>\<rparr>,
                        None))
               else if d_type data = Some ''reset'' then (reset env a, None)
               else if d_type data = Some ''chat''
               then (let userText = trim (case d_text data of None \<Rightarrow> [] | Some t \<Rightarrow> t) in
                     if userText = [] then (a, None) else chat_turn env userText a)
               else (a, None)))"

subsection \<open>The wording of the specification, for comparison\<close>

text \<open>
  URL normalization as the specification words it: the trimmed input is accepted when it
  parses with an \<^verbatim>\<open>http\<close> or \<^verbatim>\<open>https\<close> scheme; otherwise the input prefixed with
  \<^verbatim>\<open>https://\<close> is tried and accepted when that parses; otherwise there is no URL.
\<close>

definition spec_normalizeUrl :: "url_parser \<Rightarrow> string \<Rightarrow> URL option" where
  "spec_normalizeUrl newURL input =
     (let raw = trim input in
      case newURL raw of
        Some u \<Rightarrow>
          if protocol u = ''http:'' \<or> protocol u = ''https:'' then Some u
          else newURL (''https://'' @ raw)
      | None \<Rightarrow> newURL (''https://'' @ raw))"

text \<open>
  A navigation ladder as a table of steps: each step names a destination, a wait
  condition and when it is attempted (after a timeout only, or after any failure). The
  first attempt is made in any case; a later step is skipped unless its condition holds
  of the latest outcome.
\<close>

datatype retry_when = AfterTimeout | AfterFailure

fun ladder ::
  "cap_env \<Rightarrow> real \<Rightarrow> (URL \<times> wait \<times> retry_when) list \<Rightarrow> nav_outcome \<times> nav_attempt list \<Rightarrow>
     nav_outcome \<times> nav_attempt list" where
  "ladder env timeout [] (ok, tr) = (ok, tr)"
| "ladder env timeout ((dest, w, c) # steps) (ok, tr) =
     (if (c = AfterTimeout \<and> ok = NavTimeout) \<or> (c = AfterFailure \<and> ok \<noteq> NavOk)
      then ladder env timeout steps (tryGo env timeout tr dest w)
      else ladder env timeout steps (ok, tr))"

text \<open>
  The ladder of the specification: on the www host "the same ladder" as on the first
  host, so \<^verbatim>\<open>load\<close> is tried after a timeout only.
\<close>

definition spec_steps :: "URL \<Rightarrow> URL option \<Rightarrow> wait \<Rightarrow> (URL \<times> wait \<times> retry_when) list" where
  "spec_steps url0 ww wantWait =
     [(url0, Load, AfterTimeout), (url0, DomContentLoaded, AfterFailure)]
     @ (case ww of
          None \<Rightarrow> []
        | Some w \<Rightarrow> [(w, wantWait, AfterFailure), (w, Load, AfterTimeout),
                     (w, DomContentLoaded, AfterFailure)])"

text \<open>The ladder the tools run: on the www host \<^verbatim>\<open>load\<close> is tried after any failure.\<close>

definition tool_steps :: "URL \<Rightarrow> URL option \<Rightarrow> wait \<Rightarrow> (URL \<times> wait \<times> retry_when) list" where
  "tool_steps url0 ww wantWait =
     [(url0, Load, AfterTimeout), (url0, DomContentLoaded, AfterFailure)]
     @ (case ww of
          None \<Rightarrow> []
        | Some w \<Rightarrow> [(w, wantWait, AfterFailure), (w, Load, AfterFailure),
                     (w, DomContentLoaded, AfterFailure)])"

definition run_ladder ::
  "(URL \<Rightarrow> URL option \<Rightarrow> wait \<Rightarrow> (URL \<times> wait \<times> retry_when) list) \<Rightarrow>
     cap_env \<Rightarrow> real \<Rightarrow> URL \<Rightarrow> wait \<Rightarrow> nav_outcome \<times> nav_attempt list" where
  "run_ladder steps env timeout url0 wantWait =
     ladder env timeout
       (steps url0 (withWww (URL_new env) (URL_set_hostname env) url0) wantWait)
       (tryGo env timeout [] url0 wantWait)"

subsection \<open>Sample platform values\<close>

text \<open>
  The values of the platform's URL parser and \<^verbatim>\<open>hostname\<close> setter at the strings of the
  examples below (elsewhere the sample parser rejects); they serve the concrete
  instances of the theorems only.
\<close>

definition sample_URL_new :: url_parser where
  "sample_URL_new s =
     (if s = ''https://example.com'' \<or> s = ''https://example.com/''
      then Some \<lparr>protocol = ''https:'', hostname = ''example.com'', href = ''https://example.com/''\<rparr>
      else if s = ''example.com:8080''
      then Some \<lparr>protocol = ''example.com:'', hostname = [], href = ''example.com:8080''\<rparr>
      else if s = ''https://example.com:8080''
      then Some \<lparr>protocol = ''https:'', hostname = ''example.com'',
                 href = ''https://example.com:8080/''\<rparr>
      else None)"

definition sample_set_hostname :: "URL \<Rightarrow> string \<Rightarrow> URL" where
  "sample_set_hostname u h =
     (if href u = ''https://example.com/'' \<and> h = ''www.example.com''
      then \<lparr>protocol = ''https:'', hostname = ''www.example.com'',
            href = ''https://www.example.com/''\<rparr>
      else u)"

definition sample_png :: string where
  "sample_png = [CHR 0x89, CHR ''P'', CHR ''N'', CHR ''G'']"

text \<open>A call in which every navigation fails with the given error, except those the
  predicate lets through.\<close>

definition sample_env ::
  "js_error option \<Rightarrow> (nat \<Rightarrow> string \<Rightarrow> wait \<Rightarrow> js_error option) \<Rightarrow> cap_env" where
  "sample_env launch goto =
     \<lparr>URL_new = sample_URL_new, URL_set_hostname = sample_set_hostname,
      browser_launch = launch, page_setup = None,
      page_goto = (\<lambda>k dest w t. goto k dest w),
      page_url = (\<lambda>c. Inr ''https://example.com/''),
      page_screenshot = (\<lambda>full. Inr sample_png),
      page_pdf = (\<lambda>opts t. Inr ''%PDF''),
      randomUUID = ''0000'',
      r2_put = (\<lambda>key body ct. None),
      browser_close = None\<rparr>"

definition refused :: js_error where
  "refused = \<lparr>err_name = ''Error'', err_message = ''net::ERR_CONNECTION_REFUSED''\<rparr>"

definition timed_out :: js_error where
  "timed_out = \<lparr>err_name = ''TimeoutError'', err_message = ''Navigation timeout of 20000 ms exceeded''\<rparr>"

definition example_url :: URL where
  "example_url = \<lparr>protocol = ''https:'', hostname = ''example.com'', href = ''https://example.com/''\<rparr>"

definition www_example_url :: URL where
  "www_example_url =
     \<lparr>protocol = ''https:'', hostname = ''www.example.com'', href = ''https://www.example.com/''\<rparr>"

definition example_shot :: ScreenshotArgs where
  "example_shot =
     \<lparr>url = ''example.com'', viewport = None, waitUntil = None, timeoutMs = None,
      fullPage = Some True\<rparr>"

definition example_pdf :: PdfArgs where
  "example_pdf =
     \<lparr>url = ''example.com'', viewport = None, waitUntil = None, timeoutMs = None,
      pdf = Some \<lparr>format = Some A4, landscape = None, scale = Some 1\<rparr>\<rparr>"

text \<open>Three behaviours of \<^verbatim>\<open>page.goto\<close>: it times out except with \<^verbatim>\<open>load\<close>; it times
  out always; it is refused except on the www host with \<^verbatim>\<open>load\<close>.\<close>

definition goto_load_only :: "nat \<Rightarrow> string \<Rightarrow> wait \<Rightarrow> js_error option" where
  "goto_load_only k dest w = (if w = Load then None else Some timed_out)"

definition goto_never :: "nat \<Rightarrow> string \<Rightarrow> wait \<Rightarrow> js_error option" where
  "goto_never k dest w = Some timed_out"

definition goto_www_load :: "nat \<Rightarrow> string \<Rightarrow> wait \<Rightarrow> js_error option" where
  "goto_www_load k dest w =
     (if dest = ''https://www.example.com/'' \<and> w = Load then None else Some refused)"

definition protocol_error :: js_error where
  "protocol_error = \<lparr>err_name = ''ProtocolError'', err_message = ''Target closed''\<rparr>"


definition capture_fails_env :: cap_env where
  "capture_fails_env =
     (sample_env None goto_load_only)\<lparr>page_screenshot := \<lambda>full. Inl protocol_error\<rparr>"

text \<open>A page on which every \<^verbatim>\<open>goto\<close> resolves and \<^verbatim>\<open>page.url()\<close> throws when \<^verbatim>\<open>tryGo\<close>
  reads it.\<close>

definition goto_always :: "nat \<Rightarrow> string \<Rightarrow> wait \<Rightarrow> js_error option" where
  "goto_always k dest w = None"

definition url_throws_env :: cap_env where
  "url_throws_env =
     (sample_env None goto_always)
       \<lparr>page_url := (\<lambda>c. case c of AfterGoto k \<Rightarrow> Inl protocol_error
                             | AfterSettle \<Rightarrow> Inr ''https://example.com/'')\<rparr>"

definition offline_weather :: weather_env where
  "offline_weather =
     \<lparr>fetch_geocode = (\<lambda>q. Inl \<lparr>err_name = ''TypeError'', err_message = ''fetch failed''\<rparr>),
      fetch_forecast = (\<lambda>q. Inl \<lparr>err_name = ''TypeError'', err_message = ''fetch failed''\<rparr>)\<rparr>"

definition paris_args :: WeatherArgs where
  "paris_args =
     \<lparr>location = Some ''Paris'', latitude = None, longitude = None, startDate = None,
      endDate = None, days = None, units = None\<rparr>"


definition int_toString :: "int \<Rightarrow> string" where
  "int_toString i = (if i < 0 then ''-'' @ nat_toString (nat (- i)) else nat_toString (nat i))"

text \<open>Formatting for the examples: decimal numbers, and the en-US long date of the two
  days used.\<close>

definition sample_summary_env :: summary_env where
  "sample_summary_env =
     \<lparr>number_text = int_toString,
      toLocaleDateString = (\<lambda>iso. if iso = ''2025-06-02'' then ''Monday, June 2''
                                   else if iso = ''2025-06-03'' then ''Tuesday, June 3''
                                   else ''Invalid Date'')\<rparr>"

definition paris :: place where
  "paris = \<lparr>lat = Fin 48.85, lon = Fin 2.35, name = ''Paris'', region = None,
            country = Some ''France'', timezone = ''Europe/Paris''\<rparr>"

text \<open>The example of the specification: two days, the second the wetter.\<close>

definition two_days :: weather_ok where
  "two_days =
     \<lparr>w_place = paris, w_units = (Celsius, Millimetres),
      daily = [\<lparr>date = ''2025-06-02'', code = Fin 1, tMax = Fin 30, tMin = Fin 20,
                 precipMm = Fin 0, pop = Fin 10\<rparr>,
               \<lparr>date = ''2025-06-03'', code = Fin 61, tMax = Fin 28, tMin = Fin 18,
                 precipMm = Fin 4, pop = Fin 75\<rparr>],
      w_notes = None\<rparr>"

text \<open>A day whose temperatures are missing (NaN) and whose probability is 75.\<close>

definition no_temps :: weather_ok where
  "no_temps =
     \<lparr>w_place = paris, w_units = (Celsius, Millimetres),
      daily = [\<lparr>date = ''2025-06-02'', code = Fin 61, tMax = NaN, tMin = NaN,
                 precipMm = Fin 4, pop = Fin 75\<rparr>],
      w_notes = None\<rparr>"

text \<open>A controller for the examples: the language model is the parameter; client frames
  are decoded for the four frames used.\<close>

definition dq :: string where "dq = [CHR 0x22]"

definition reset_frame :: string where
  "reset_frame = ''{'' @ dq @ ''type'' @ dq @ '':'' @ dq @ ''reset'' @ dq @ ''}''"

definition blank_chat_frame :: string where
  "blank_chat_frame =
     ''{'' @ dq @ ''type'' @ dq @ '':'' @ dq @ ''chat'' @ dq @ '','' @ dq @ ''text'' @ dq @ '':''
       @ dq @ ''  '' @ [CHR 0x5C] @ ''t '' @ dq @ ''}''"

definition chat_frame :: "string \<Rightarrow> string" where
  "chat_frame text =
     ''{'' @ dq @ ''type'' @ dq @ '':'' @ dq @ ''chat'' @ dq @ '','' @ dq @ ''text'' @ dq @ '':''
       @ dq @ text @ dq @ ''}''"

definition sample_decode :: "string \<Rightarrow> event_data option" where
  "sample_decode m =
     (if m = reset_frame then Some \<lparr>d_type = Some ''reset'', d_text = None, d_model = None\<rparr>
      else if m = blank_chat_frame
      then Some \<lparr>d_type = Some ''chat'', d_text = Some ('' '' @ [CHR 0x09] @ '' ''), d_model = None\<rparr>
      else if m = chat_frame ''take a screenshot''
      then Some \<lparr>d_type = Some ''chat'', d_text = Some ''take a screenshot'', d_model = None\<rparr>
      else if m = chat_frame ''save as pdf please''
      then Some \<lparr>d_type = Some ''chat'', d_text = Some ''save as pdf please'', d_model = None\<rparr>
      else None)"

definition sample_controller :: "ai_binding \<Rightarrow> controller_env" where
  "sample_controller ai =
     \<lparr>now = (\<lambda>k. 1700000000000 + int k), AI_run = ai, JSON_parse = (\<lambda>s. None),
      decode_frame = sample_decode, stringify_result = (\<lambda>p. ''{}''),
      stringify_envelope = (\<lambda>t p. ''{}''),
      SYSTEM_BEHAVIOR = ''You are an AI agent that can optionally call tools.'',
      browser = sample_env None goto_load_only, weather = offline_weather,
      intl = sample_summary_env\<rparr>"

definition hello :: Msg where
  "hello = \<lparr>role = User, content = ''hello'', ts = 1699999999000\<rparr>"

definition agent0 :: agent where
  "agent0 =
     \<lparr>agent_name = ''session-1'',
      state = \<lparr>model = Some ''@hf/nousresearch/hermes-2-pro-mistral-7b'', messages = [hello],
               createdAt = 1699999990000, expiresAt = 1700086399000\<rparr>,
      rows = [hello], sent = [], ticks = 0\<rparr>"

text \<open>Three language models: one that answers without a tool call, one that plans a
  forecast for every turn, and one whose stream goes on after the sentinel.\<close>

definition ai_no_tool :: ai_binding where
  "ai_no_tool m r = Inr (AiValue (JObj [(''response'', JStr ''ok'')]))"

definition ai_plans_weather :: ai_binding where
  "ai_plans_weather m r =
     Inr (AiValue (JObj [(''tool_calls'',
       JArr [JObj [(''function'', JObj [(''name'', JStr ''getWeather''),
                                        (''arguments'', JObj [(''location'', JStr ''Paris'')])])]])]))"

definition done_then_late :: string where
  "done_then_late = ''data: [DONE]'' @ [CHR 0x0A, CHR 0x0A] @ ''data: late'' @ [CHR 0x0A, CHR 0x0A]"

definition ai_late_stream :: ai_binding where
  "ai_late_stream m r = Inr (AiStream [done_then_late] None)"

section \<open>Properties\<close>

lemma whitespace_only_trimStart: "whitespace_only s \<Longrightarrow> trimStart s = []"
  unfolding trimStart_def
proof (induction s rule: whitespace_only.induct)
  case (1 s)
  show ?case
  proof (cases "strip_token js_ws_tokens s")
    case None
    with "1.prems" have "s = []" by (subst (asm) whitespace_only.simps) simp
    with None show ?thesis by (subst trim_front.simps) simp
  next
    case (Some r)
    then have "s \<noteq> []" by (auto dest: strip_token_shorter)
    with "1.prems" Some have "whitespace_only r"
      by (subst (asm) whitespace_only.simps) simp
    with "1.IH" Some \<open>s \<noteq> []\<close> have "trim_front js_ws_tokens r = []" by simp
    with Some show ?thesis by (subst trim_front.simps) simp
  qed
qed

subsection \<open>Forecast summary\<close>

lemma finite_vals_simps [simp]:
  "finite_vals [] = []"
  "finite_vals (Fin x # xs) = x # finite_vals xs"
  "finite_vals (NaN # xs) = finite_vals xs"
  "finite_vals (PosInf # xs) = finite_vals xs"
  "finite_vals (NegInf # xs) = finite_vals xs"
  by (simp_all add: finite_vals_def map_filter_simps)

lemma isFinite_simps [simp]:
  "isFinite (Fin x)" "\<not> isFinite NaN" "\<not> isFinite PosInf" "\<not> isFinite NegInf"
  by (simp_all add: isFinite_def)

lemma fold_max_Max: "fold max xs (x::real) = Max (insert x (set xs))"
  using Max.set_eq_fold [of x xs] by simp

lemma fold_min_Min: "fold min xs (x::real) = Min (insert x (set xs))"
  using Min.set_eq_fold [of x xs] by simp

lemma scan_high_fold:
  "weeklyHigh (scan_days ds i a) =
     fold (\<lambda>x h. if isFinite x \<and> js_gt x h then x else h) (map tMax ds) (weeklyHigh a)"
  by (induction ds arbitrary: i a) simp_all

lemma scan_low_fold:
  "weeklyLow (scan_days ds i a) =
     fold (\<lambda>x l. if isFinite x \<and> js_gt l x then x else l) (map tMin ds) (weeklyLow a)"
  by (induction ds arbitrary: i a) simp_all

lemma fold_high_Fin:
  "fold (\<lambda>x h. if isFinite x \<and> js_gt x h then x else h) xs (Fin h) =
     Fin (fold max (finite_vals xs) h)"
proof (induction xs arbitrary: h)
  case Nil
  then show ?case by simp
next
  case (Cons x xs)
  show ?case
  proof (cases x)
    case (Fin v)
    show ?thesis
    proof (cases "h < v")
      case True
      then have "max v h = v" by simp
      with Fin True show ?thesis by (simp add: Cons.IH)
    next
      case False
      then have "max v h = h" by simp
      with Fin False show ?thesis by (simp add: Cons.IH)
    qed
  qed (simp_all add: Cons.IH)
qed

lemma fold_high_NegInf:
  "fold (\<lambda>x h. if isFinite x \<and> js_gt x h then x else h) xs NegInf =
     (if finite_vals xs = [] then NegInf else Fin (Max (set (finite_vals xs))))"
proof (induction xs)
  case Nil
  then show ?case by simp
next
  case (Cons x xs)
  show ?case
  proof (cases x)
    case (Fin v)
    then show ?thesis by (simp add: fold_high_Fin fold_max_Max)
  qed (simp_all add: Cons.IH)
qed

lemma fold_low_Fin:
  "fold (\<lambda>x l. if isFinite x \<and> js_gt l x then x else l) xs (Fin l) =
     Fin (fold min (finite_vals xs) l)"
proof (induction xs arbitrary: l)
  case Nil
  then show ?case by simp
next
  case (Cons x xs)
  show ?case
  proof (cases x)
    case (Fin v)
    show ?thesis
    proof (cases "v < l")
      case True
      then have "min v l = v" by simp
      with Fin True show ?thesis by (simp add: Cons.IH)
    next
      case False
      then have "min v l = l" by simp
      with Fin False show ?thesis by (simp add: Cons.IH)
    qed
  qed (simp_all add: Cons.IH)
qed

lemma fold_low_PosInf:
  "fold (\<lambda>x l. if isFinite x \<and> js_gt l x then x else l) xs PosInf =
     (if finite_vals xs = [] then PosInf else Fin (Min (set (finite_vals xs))))"
proof (induction xs)
  case Nil
  then show ?case by simp
next
  case (Cons x xs)
  show ?case
  proof (cases x)
    case (Fin v)
    then show ?thesis by (simp add: fold_low_Fin fold_min_Min)
  qed (simp_all add: Cons.IH)
qed

lemma scan_high:
  "weeklyHigh (scan_days ds 0 week_start) =
     (case weekly_high ds of None \<Rightarrow> NegInf | Some m \<Rightarrow> Fin m)"
  by (simp add: scan_high_fold week_start_def fold_high_NegInf weekly_high_def)

lemma scan_low:
  "weeklyLow (scan_days ds 0 week_start) =
     (case weekly_low ds of None \<Rightarrow> PosInf | Some m \<Rightarrow> Fin m)"
  by (simp add: scan_low_fold week_start_def fold_low_PosInf weekly_low_def)

lemma scan_maxPop:
  "maxPop (scan_days ds i a) = fold max (finite_vals (map pop ds)) (maxPop a)"
proof (induction ds arbitrary: i a)
  case Nil
  then show ?case by simp
next
  case (Cons d ds)
  show ?case by (cases "pop d") (simp_all add: Cons.IH max_def)
qed

lemma fold_max_ge: "(m::real) \<le> fold max xs m"
proof (induction xs arbitrary: m)
  case Nil
  then show ?case by simp
next
  case (Cons x xs)
  have "max x m \<le> fold max xs (max x m)" by (rule Cons.IH)
  then show ?case by simp
qed

lemma scan_maxPop_ge: "maxPop a \<le> maxPop (scan_days ds i a)"
  by (simp add: scan_maxPop fold_max_ge)

lemma scan_wetIdx:
  "(maxPop a < maxPop (scan_days ds i a) \<longrightarrow>
      wetIdx (scan_days ds i a) =
        int (i + first_index (\<lambda>d. pop d = Fin (maxPop (scan_days ds i a))) ds)
      \<and> first_index (\<lambda>d. pop d = Fin (maxPop (scan_days ds i a))) ds < length ds)
   \<and> (\<not> maxPop a < maxPop (scan_days ds i a) \<longrightarrow> wetIdx (scan_days ds i a) = wetIdx a)"
proof (induction ds arbitrary: i a)
  case Nil
  then show ?case by simp
next
  case (Cons d ds)
  define a' where "a' =
       \<lparr>weeklyHigh = (if isFinite (tMax d) \<and> js_gt (tMax d) (weeklyHigh a)
                      then tMax d else weeklyHigh a),
        weeklyLow = (if isFinite (tMin d) \<and> js_gt (weeklyLow a) (tMin d)
                     then tMin d else weeklyLow a),
        maxPop = (case pop d of Fin x \<Rightarrow> if maxPop a < x then x else maxPop a
                  | _ \<Rightarrow> maxPop a),
        wetIdx = (case pop d of Fin x \<Rightarrow> if maxPop a < x then int i else wetIdx a
                  | _ \<Rightarrow> wetIdx a)\<rparr>"
  have step: "scan_days (d # ds) i a = scan_days ds (Suc i) a'"
    by (simp add: a'_def)
  define m where "m = maxPop (scan_days ds (Suc i) a')"
  have ge: "maxPop a' \<le> m" unfolding m_def by (rule scan_maxPop_ge)
  note IH = Cons.IH [of a' "Suc i", folded m_def]
  show ?case
  proof (cases "\<exists>x. pop d = Fin x \<and> maxPop a < x")
    case True
    then obtain x where x: "pop d = Fin x" "maxPop a < x" by blast
    then have a': "maxPop a' = x" "wetIdx a' = int i" by (simp_all add: a'_def)
    show ?thesis
    proof (cases "x < m")
      case True
      with IH a' x show ?thesis unfolding step m_def [symmetric] by auto
    next
      case False
      with ge a' have "m = x" by simp
      with IH a' x show ?thesis unfolding step m_def [symmetric] by auto
    qed
  next
    case False
    then have a': "maxPop a' = maxPop a" "wetIdx a' = wetIdx a"
      by (auto simp: a'_def split: jsnum.splits)
    from False have ne: "maxPop a < m \<Longrightarrow> pop d \<noteq> Fin m" by auto
    from IH a' ne show ?thesis unfolding step m_def [symmetric] by auto
  qed
qed

lemma first_index_find:
  "first_index P xs < length xs \<Longrightarrow> List.find P xs = Some (xs ! first_index P xs)"
  by (induction xs) auto

lemma summary_parts_eq:
  "summary_parts env r ds =
     Inr [line_temps env (placeName (w_place r)) (temp_label (fst (w_units r)))
            (summary_high ds) (summary_low ds),
          line_precip env (summary_pop ds) (summary_wet env ds),
          line_packing (summary_high ds) (summary_low ds) (summary_pop ds)]"
proof -
  define a where "a = scan_days ds 0 week_start"
  define P where "P = finite_vals (map pop ds)"
  have hi: "(case weeklyHigh a of Fin x \<Rightarrow> Some (js_round x) | _ \<Rightarrow> None) = summary_high ds"
    using scan_high [of ds] by (simp add: a_def summary_high_def split: option.splits)
  have lo: "(case weeklyLow a of Fin x \<Rightarrow> Some (js_round x) | _ \<Rightarrow> None) = summary_low ds"
    using scan_low [of ds] by (simp add: a_def summary_low_def split: option.splits)
  have mp: "maxPop a = Max (insert (- 1) (set P))"
    by (simp add: a_def scan_maxPop week_start_def P_def fold_max_Max)
  have peak: "peak_pop ds = (if P = [] then None else Some (Max (set P)))"
    by (simp add: peak_pop_def P_def)
  have nonneg: "0 \<le> maxPop a \<longleftrightarrow> P \<noteq> [] \<and> 0 \<le> Max (set P)"
  proof (cases "P = []")
    case True
    then show ?thesis by (simp add: mp)
  next
    case False
    then have "maxPop a = max (- 1) (Max (set P))" by (simp add: mp)
    with False show ?thesis by (auto simp: max_def)
  qed
  have val: "0 \<le> maxPop a \<Longrightarrow> maxPop a = Max (set P)"
  proof -
    assume h: "0 \<le> maxPop a"
    with nonneg have "P \<noteq> []" "0 \<le> Max (set P)" by simp_all
    then show ?thesis by (simp add: mp max_def)
  qed
  have p: "(if 0 \<le> maxPop a then Some (js_round (maxPop a)) else None) = summary_pop ds"
  proof (cases "0 \<le> maxPop a")
    case True
    with nonneg val show ?thesis by (simp add: summary_pop_def peak)
  next
    case False
    with nonneg show ?thesis by (auto simp: summary_pop_def peak)
  qed
  note w = scan_wetIdx [of week_start ds 0, folded a_def]
  have range: "0 \<le> wetIdx a \<Longrightarrow> nat (wetIdx a) < length ds"
    using w by (cases "maxPop week_start < maxPop a") (auto simp: week_start_def)
  have day: "0 \<le> maxPop a \<Longrightarrow>
      0 \<le> wetIdx a \<and> peak_day ds = Some (ds ! nat (wetIdx a))"
  proof -
    assume h: "0 \<le> maxPop a"
    then have lt: "maxPop week_start < maxPop a" by (simp add: week_start_def)
    with w have i: "wetIdx a = int (first_index (\<lambda>d. pop d = Fin (maxPop a)) ds)"
      and b: "first_index (\<lambda>d. pop d = Fin (maxPop a)) ds < length ds" by simp_all
    from h nonneg val have "peak_pop ds = Some (maxPop a)" by (simp add: peak)
    then have "peak_day ds = List.find (\<lambda>d. pop d = Fin (maxPop a)) ds"
      by (simp add: peak_day_def)
    with first_index_find [OF b] i show ?thesis by simp
  qed
  show ?thesis
  proof (cases "0 \<le> maxPop a")
    case True
    from day [OF True] range
    have "nat (wetIdx a) < length ds" "0 \<le> wetIdx a"
      and "summary_wet env ds =
        (if date (ds ! nat (wetIdx a)) \<noteq> []
         then Some (toLocaleDateString env (date (ds ! nat (wetIdx a)))) else None)"
      by (simp_all add: summary_wet_def)
    then show ?thesis
      unfolding summary_parts_def Let_def a_def [symmetric] hi lo p
      by simp
  next
    case False
    with p have n: "summary_pop ds = None" by simp
    have "line_precip env None x = line_precip env None y" for x y
      by (simp add: line_precip_def)
    then show ?thesis
      unfolding summary_parts_def Let_def a_def [symmetric] hi lo p n
      using range by auto
  qed
qed

text \<open>
  C3, as the code has it. The summary is computed over the first seven days at most and
  has exactly three parts. (1) The temperature line uses the weekly high (greatest finite
  daily maximum) and the weekly low (least finite daily minimum), each rounded, falling
  back to the one that exists, or to a generic line. (2) The precipitation line names the
  first day of greatest finite probability when that probability, rounded, is above 0
  (the day is named only when its date text is not empty); otherwise it is the low-risk
  line. (3) The packing line: when both a high and a low exist, umbrella advice if the
  rounded peak is at least 40, else layering advice if rounded high minus rounded low is
  at least 10, else light layers; when the high or the low is missing, a fourth line,
  whatever the probability.
\<close>

theorem forecast_summary:
  "summary_days r = take 7 (daily r)
   \<and> summary_parts env r (summary_days r) =
       Inr [line_temps env (placeName (w_place r)) (temp_label (fst (w_units r)))
              (summary_high (summary_days r)) (summary_low (summary_days r)),
            line_precip env (summary_pop (summary_days r)) (summary_wet env (summary_days r)),
            line_packing (summary_high (summary_days r)) (summary_low (summary_days r))
              (summary_pop (summary_days r))]
   \<and> (hi = Some h \<and> lo = Some l \<longrightarrow>
        line_temps env pn u hi lo =
          ''Next week in '' @ pn @ '', expect highs around '' @ number_text env h @ u
            @ '' and lows near '' @ number_text env l @ u @ ''.'')
   \<and> (hi = Some h \<and> lo = None \<longrightarrow>
        line_temps env pn u hi lo =
          ''Next week in '' @ pn @ '', expect highs around '' @ number_text env h @ u @ ''.'')
   \<and> (hi = None \<and> lo = Some l \<longrightarrow>
        line_temps env pn u hi lo =
          ''Next week in '' @ pn @ '', expect lows near '' @ number_text env l @ u @ ''.'')
   \<and> (hi = None \<and> lo = None \<longrightarrow>
        line_temps env pn u hi lo =
          ''Next week in '' @ pn @ '', temperatures vary through the week.'')
   \<and> (p = Some v \<and> 0 < v \<and> wet = Some w \<longrightarrow>
        line_precip env p wet =
          ''Peak chance of precipitation is about '' @ number_text env v @ ''% on '' @ w @ ''.'')
   \<and> (p = Some v \<and> 0 < v \<and> wet = None \<longrightarrow>
        line_precip env p wet =
          ''Peak chance of precipitation is about '' @ number_text env v @ ''%.'')
   \<and> (p = None \<or> p = Some v \<and> v \<le> 0 \<longrightarrow>
        line_precip env p wet = ''Rain risk looks low overall.'')
   \<and> (hi = Some h \<and> lo = Some l \<and> p = Some v \<and> 40 \<le> v \<longrightarrow>
        line_packing hi lo p = umbrella_advice)
   \<and> (hi = Some h \<and> lo = Some l \<and> (p = None \<or> p = Some v \<and> v < 40) \<and> 10 \<le> h - l \<longrightarrow>
        line_packing hi lo p = layering_advice)
   \<and> (hi = Some h \<and> lo = Some l \<and> (p = None \<or> p = Some v \<and> v < 40) \<and> h - l < 10 \<longrightarrow>
        line_packing hi lo p = light_advice)
   \<and> (hi = None \<or> lo = None \<longrightarrow> line_packing hi lo p = flexible_advice)"
proof (intro conjI impI)
  show "summary_days r = take 7 (daily r)"
    by (simp add: summary_days_def min_def)
next
  show "summary_parts env r (summary_days r) =
       Inr [line_temps env (placeName (w_place r)) (temp_label (fst (w_units r)))
              (summary_high (summary_days r)) (summary_low (summary_days r)),
            line_precip env (summary_pop (summary_days r)) (summary_wet env (summary_days r)),
            line_packing (summary_high (summary_days r)) (summary_low (summary_days r))
              (summary_pop (summary_days r))]"
    by (rule summary_parts_eq)
qed (auto simp: line_temps_def line_precip_def line_packing_def split: option.splits)

lemma two_days_parts:
  "summary_parts sample_summary_env two_days (summary_days two_days) =
     Inr [''Next week in Paris, France, expect highs around 30'' @ temp_label Celsius
            @ '' and lows near 18'' @ temp_label Celsius @ ''.'',
          ''Peak chance of precipitation is about 75% on Tuesday, June 3.'',
          umbrella_advice]"
  by (simp add: summary_parts_def summary_days_def two_days_def week_start_def isFinite_def
      Let_def js_round_def line_temps_def line_precip_def line_packing_def
      sample_summary_env_def int_toString_def nat_toString.simps placeName_def paris_def
      temp_label_def)

theorem forecast_summary_witness:
  "summary_days two_days = take 7 (daily two_days)
   \<and> summary_parts sample_summary_env two_days (summary_days two_days) =
      Inr [''Next week in Paris, France, expect highs around 30'' @ temp_label Celsius
             @ '' and lows near 18'' @ temp_label Celsius @ ''.'',
           ''Peak chance of precipitation is about 75% on Tuesday, June 3.'',
           umbrella_advice]
   \<and> line_packing (Some 30) (Some 18) (Some 75) = umbrella_advice
   \<and> line_packing (Some 30) (Some 18) (Some 10) = layering_advice
   \<and> line_packing (Some 25) (Some 18) None = light_advice
   \<and> line_packing None (Some 18) (Some 75) = flexible_advice
   \<and> line_precip sample_summary_env (Some 0) None = ''Rain risk looks low overall.''"
proof -
  note a = forecast_summary [where r = two_days and env = sample_summary_env
      and hi = "Some 30" and h = 30 and lo = "Some 18" and l = 18 and p = "Some 75" and v = 75]
  note b = forecast_summary [where hi = "Some 30" and h = 30 and lo = "Some 18" and l = 18
      and p = "Some 10" and v = 10]
  note c = forecast_summary [where hi = "Some 25" and h = 25 and lo = "Some 18" and l = 18
      and p = None]
  note d = forecast_summary [where hi = None and lo = "Some 18" and p = "Some 75"]
  note e = forecast_summary [where env = sample_summary_env and p = "Some 0" and v = 0
      and wet = None]
  have "summary_days two_days = take 7 (daily two_days)" using a by simp
  moreover have "line_packing (Some 30) (Some 18) (Some 75) = umbrella_advice" using a by simp
  moreover have "line_packing (Some 30) (Some 18) (Some 10) = layering_advice" using b by simp
  moreover have "line_packing (Some 25) (Some 18) None = light_advice" using c by simp
  moreover have "line_packing None (Some 18) (Some 75) = flexible_advice" using d by simp
  moreover have "line_precip sample_summary_env (Some 0) None = ''Rain risk looks low overall.''"
    using e by simp
  ultimately show ?thesis using two_days_parts by simp
qed

text \<open>
  The claim as stated fails when the temperatures are missing: the peak probability is 75,
  at least 40, and the packing line is not the umbrella advice.
\<close>

theorem forecast_summary_counterexample:
  "summary_pop (summary_days no_temps) = Some 75
   \<and> summary_parts sample_summary_env no_temps (summary_days no_temps) =
      Inr [''Next week in Paris, France, temperatures vary through the week.'',
           ''Peak chance of precipitation is about 75% on Monday, June 2.'',
           ''Pack flexible layers to handle changes through the week.'']
   \<and> umbrella_advice \<noteq> ''Pack flexible layers to handle changes through the week.''"
  by (simp add: summary_parts_def summary_days_def no_temps_def week_start_def isFinite_def
      Let_def js_round_def line_temps_def line_precip_def line_packing_def
      sample_summary_env_def int_toString_def nat_toString.simps placeName_def paris_def
      summary_pop_def peak_pop_def flexible_advice_def umbrella_advice_def)

subsection \<open>URL normalization\<close>

lemma trim_sample_port: "trim ''example.com:8080'' = ''example.com:8080''"
  by (simp add: trim_def trimStart_def trimEnd_def strip_token_def js_ws_tokens_def)

lemma trim_sample_padded: "trim ''  https://example.com '' = ''https://example.com''"
  by (simp add: trim_def trimStart_def trimEnd_def strip_token_def js_ws_tokens_def)

lemma trim_sample_bare: "trim ''example.com'' = ''example.com''"
  by (simp add: trim_def trimStart_def trimEnd_def strip_token_def js_ws_tokens_def)

lemma strip_token_Nil: "strip_token toks [] = None"
  by (cases "strip_token toks []") (auto dest: strip_token_shorter)

lemma trim_empty: "trim [] = []"
  by (simp add: trim_def trimStart_def trimEnd_def strip_token_Nil)

lemma normalizeUrl_empty: "normalizeUrl P [] = None"
  by (simp add: normalizeUrl_def trim_empty)

text \<open>
  C4, as the code has it. The trimmed input is accepted when it parses with scheme
  \<^verbatim>\<open>http:\<close> or \<^verbatim>\<open>https:\<close>. When it parses with another scheme the result is no URL at
  once: the \<^verbatim>\<open>https://\<close> prefix is not tried. The prefix is tried only when the trimmed
  input is not empty and does not parse, and its result is accepted when it parses (with
  scheme \<^verbatim>\<open>https:\<close>). Without a URL both tools return \<^verbatim>\<open>BAD_URL\<close> and nothing else
  happens: no progress message, no browser launched.
\<close>

theorem url_normalization:
  "(trim input = [] \<longrightarrow> normalizeUrl P input = None)
   \<and> (trim input \<noteq> [] \<and> P (trim input) = Some u \<and>
        (protocol u = ''http:'' \<or> protocol u = ''https:'') \<longrightarrow>
          normalizeUrl P input = Some u)
   \<and> (trim input \<noteq> [] \<and> P (trim input) = Some u \<and> protocol u \<noteq> [] \<and>
        protocol u \<noteq> ''http:'' \<and> protocol u \<noteq> ''https:'' \<longrightarrow>
          normalizeUrl P input = None)
   \<and> (trim input \<noteq> [] \<and> P (trim input) = None \<longrightarrow>
          normalizeUrl P input =
            (case P (''https://'' @ trim input) of
               None \<Rightarrow> None
             | Some v \<Rightarrow> if protocol v = ''https:'' then Some v else None))
   \<and> (normalizeUrl (URL_new env) (url sargs) = None \<longrightarrow>
          captureScreenshot env sid sargs = bad_url_run)
   \<and> (normalizeUrl (URL_new env) (url pargs) = None \<longrightarrow>
          convertToPdf env sid pargs = bad_url_run)"
  by (auto simp: normalizeUrl_def Let_def captureScreenshot_def convertToPdf_def bad_url_run_def
      split: option.splits)

theorem url_normalization_witness:
  "normalizeUrl sample_URL_new ''  https://example.com '' =
     Some \<lparr>protocol = ''https:'', hostname = ''example.com'', href = ''https://example.com/''\<rparr>
   \<and> normalizeUrl sample_URL_new ''example.com:8080'' = None
   \<and> normalizeUrl sample_URL_new ''example.com'' =
       Some \<lparr>protocol = ''https:'', hostname = ''example.com'', href = ''https://example.com/''\<rparr>
   \<and> captureScreenshot (sample_env None (\<lambda>k d w. None)) ''sid''
         \<lparr>url = [], viewport = None, waitUntil = None, timeoutMs = None, fullPage = Some True\<rparr>
       = bad_url_run
   \<and> convertToPdf (sample_env None (\<lambda>k d w. None)) ''sid''
         \<lparr>url = ''example.com:8080'', viewport = None, waitUntil = None, timeoutMs = None,
          pdf = None\<rparr>
       = bad_url_run"
  using
    url_normalization [where P = sample_URL_new and input = "''  https://example.com ''"
      and u = "\<lparr>protocol = ''https:'', hostname = ''example.com'', href = ''https://example.com/''\<rparr>"
      and env = "sample_env None (\<lambda>k d w. None)" and sid = "''sid''"
      and sargs = "\<lparr>url = [], viewport = None, waitUntil = None, timeoutMs = None,
                    fullPage = Some True\<rparr>"
      and pargs = "\<lparr>url = ''example.com:8080'', viewport = None, waitUntil = None,
                    timeoutMs = None, pdf = None\<rparr>"]
    url_normalization [where P = sample_URL_new and input = "''example.com:8080''"
      and u = "\<lparr>protocol = ''example.com:'', hostname = [], href = ''example.com:8080''\<rparr>"]
    url_normalization [where P = sample_URL_new and input = "''example.com''"]
  by (simp add: trim_sample_port trim_sample_padded trim_sample_bare normalizeUrl_empty
      sample_URL_new_def sample_env_def)

text \<open>
  The claim as the specification words it fails at \<^verbatim>\<open>example.com:8080\<close>: the platform
  parses it as a URL with scheme \<^verbatim>\<open>example.com:\<close>, so the code rejects it, where the
  wording has the prefixed \<^verbatim>\<open>https://example.com:8080\<close> accepted.
\<close>

theorem url_normalization_counterexample:
  "normalizeUrl sample_URL_new ''example.com:8080'' = None
   \<and> spec_normalizeUrl sample_URL_new ''example.com:8080'' =
       Some \<lparr>protocol = ''https:'', hostname = ''example.com'',
             href = ''https://example.com:8080/''\<rparr>
   \<and> returned (captureScreenshot (sample_env None goto_load_only) ''sid''
         \<lparr>url = ''example.com:8080'', viewport = None, waitUntil = None, timeoutMs = None,
          fullPage = Some True\<rparr>)
       = Inr (ToolFail ''Invalid URL'' BAD_URL)"
  by (simp add: normalizeUrl_def spec_normalizeUrl_def trim_sample_port sample_URL_new_def
      captureScreenshot_def sample_env_def)

subsection \<open>Navigation ladder\<close>

lemma navigate_ladder:
  "navigate env t u w = (ok, tr, www) \<Longrightarrow> run_ladder tool_steps env t u w = (ok, tr)"
  unfolding navigate_def run_ladder_def tool_steps_def
  by (auto simp: Let_def split: prod.splits option.splits if_splits)

lemma tryGo_snoc:
  assumes "\<forall>k. \<exists>s. page_url env (AfterGoto k) = Inr s"
    and "tryGo env t tr d w = (ok, tr')"
  shows "tr' = tr @ [\<lparr>na_dest = href d, na_waitUntil = w, na_outcome = ok\<rparr>]"
proof -
  from assms(1) obtain s where "page_url env (AfterGoto (length tr)) = Inr s" by blast
  with assms(2) show ?thesis
    by (auto simp: tryGo_def tryGo_catch_def Let_def split: option.splits)
qed

lemma tryGo_first:
  assumes "\<forall>k. \<exists>s. page_url env (AfterGoto k) = Inr s"
  shows "attempts_ok (tryGo env t [] d w)"
  by (cases "tryGo env t [] d w") (auto simp: attempts_ok_def dest: tryGo_snoc [OF assms])

lemma set_last_butlast: "xs \<noteq> [] \<Longrightarrow> set xs = insert (last xs) (set (butlast xs))"
  by (induction xs) auto

lemma tryGo_next:
  assumes "\<forall>k. \<exists>s. page_url env (AfterGoto k) = Inr s"
    and "attempts_ok (ok, tr)" and "ok \<noteq> NavOk"
  shows "attempts_ok (tryGo env t tr d w)"
proof (cases "tryGo env t tr d w")
  case (Pair ok' tr')
  then have tr': "tr' = tr @ [\<lparr>na_dest = href d, na_waitUntil = w, na_outcome = ok'\<rparr>]"
    by (rule tryGo_snoc [OF assms(1)])
  from assms(2,3) have "tr \<noteq> []" and "na_outcome (last tr) \<noteq> NavOk"
    and "\<forall>a \<in> set (butlast tr). na_outcome a \<noteq> NavOk"
    by (auto simp: attempts_ok_def)
  then have "\<forall>a \<in> set tr. na_outcome a \<noteq> NavOk"
    using set_last_butlast [of tr] by auto
  with Pair tr' show ?thesis by (simp add: attempts_ok_def butlast_append)
qed

lemma ladder_attempts_ok:
  "(\<forall>k. \<exists>s. page_url env (AfterGoto k) = Inr s) \<Longrightarrow> attempts_ok p \<Longrightarrow>
     attempts_ok (ladder env t steps p)"
proof (induction env t steps p rule: ladder.induct)
  case (1 env timeout ok tr)
  then show ?case by simp
next
  case (2 env timeout dest w c steps ok tr)
  show ?case
  proof (cases "(c = AfterTimeout \<and> ok = NavTimeout) \<or> (c = AfterFailure \<and> ok \<noteq> NavOk)")
    case True
    then have "ok \<noteq> NavOk" by auto
    with "2.prems" have "attempts_ok (tryGo env timeout tr dest w)"
      by (intro tryGo_next [where ok = ok]) simp_all
    with True "2.IH"(1) "2.prems"(1) show ?thesis by simp
  next
    case False
    with "2.prems" "2.IH"(2) show ?thesis by auto
  qed
qed

lemma navigate_attempts_ok:
  assumes "\<forall>k. \<exists>s. page_url env (AfterGoto k) = Inr s"
    and "navigate env t u w = (ok, tr, www)"
  shows "attempts_ok (ok, tr)"
proof -
  from assms(2) have "run_ladder tool_steps env t u w = (ok, tr)" by (rule navigate_ladder)
  moreover have "attempts_ok (run_ladder tool_steps env t u w)"
    unfolding run_ladder_def
    by (rule ladder_attempts_ok [OF assms(1)]) (rule tryGo_first [OF assms(1)])
  ultimately show ?thesis by simp
qed

lemma withWww_cases:
  "startsWith (hostname u) ''www.'' \<or> P (href u) = None \<Longrightarrow> withWww P S u = None"
  "\<not> startsWith (hostname u) ''www.'' \<Longrightarrow> P (href u) = Some c \<Longrightarrow>
     withWww P S u = Some (S c (''www.'' @ hostname u))"
  by (auto simp: withWww_def)

lemma navigate_one_host:
  assumes "withWww (URL_new env) (URL_set_hostname env) u = None"
    and "navigate env t u w = (ok, tr, www)"
  shows "\<not> www"
    and "(ok, tr) = ladder env t [(u, Load, AfterTimeout), (u, DomContentLoaded, AfterFailure)]
                      (tryGo env t [] u w)"
proof -
  from assms show "\<not> www"
    by (auto simp: navigate_def Let_def split: prod.splits if_splits)
  from assms(2) have "run_ladder tool_steps env t u w = (ok, tr)" by (rule navigate_ladder)
  with assms(1)
  show "(ok, tr) = ladder env t [(u, Load, AfterTimeout), (u, DomContentLoaded, AfterFailure)]
                      (tryGo env t [] u w)"
    by (simp add: run_ladder_def tool_steps_def)
qed

lemma navigate_two_hosts:
  assumes "withWww (URL_new env) (URL_set_hostname env) u = Some ww"
    and "navigate env t u w = (ok, tr, www)"
  shows "(ok, tr) = ladder env t
                      [(u, Load, AfterTimeout), (u, DomContentLoaded, AfterFailure),
                       (ww, w, AfterFailure), (ww, Load, AfterFailure),
                       (ww, DomContentLoaded, AfterFailure)]
                      (tryGo env t [] u w)"
proof -
  from assms(2) have "run_ladder tool_steps env t u w = (ok, tr)" by (rule navigate_ladder)
  with assms(1) show ?thesis by (simp add: run_ladder_def tool_steps_def)
qed

lemma capture_catch_codes:
  "capture_catch e \<noteq> ToolFail msg NAV_TIMEOUT" "capture_catch e \<noteq> ToolFail msg BAD_URL"
  by (simp_all add: capture_catch_def Let_def)

lemma nav_failure_not_bad_url: "nav_failure ok \<noteq> ToolFail msg BAD_URL"
  by (simp add: nav_failure_def nav_code_def)

lemma screenshot_capture_codes:
  "fst (screenshot_capture env sid vp full) \<noteq> Inr (ToolFail msg NAV_TIMEOUT)"
  "fst (screenshot_capture env sid vp full) \<noteq> Inr (ToolFail msg BAD_URL)"
  by (simp_all add: screenshot_capture_def Let_def split: sum.split option.split)

lemma pdf_capture_codes:
  "fst (pdf_capture env sid opts t) \<noteq> Inr (ToolFail msg NAV_TIMEOUT)"
  "fst (pdf_capture env sid opts t) \<noteq> Inr (ToolFail msg BAD_URL)"
  by (simp_all add: pdf_capture_def Let_def split: sum.split option.split)

lemma captureScreenshot_launched:
  assumes "normalizeUrl (URL_new env) (url args) = Some u" "browser_launch env = None"
    and "screenshot_try env sid u args = (r, em, tr, up)"
  shows "captureScreenshot env sid args =
     \<lparr>returned = Inr (case r of Inr res \<Rightarrow> res | Inl e \<Rightarrow> capture_catch e),
      emitted = (''Launching browser'' @ hellip) # em, navAttempts = tr,
      launched = True, closed = True, uploaded = up\<rparr>"
  using assms by (simp add: captureScreenshot_def)

lemma convertToPdf_launched:
  assumes "normalizeUrl (URL_new env) (url args) = Some u" "browser_launch env = None"
    and "pdf_try env sid u args = (r, em, tr, up)"
  shows "convertToPdf env sid args =
     \<lparr>returned = Inr (case r of Inr res \<Rightarrow> res | Inl e \<Rightarrow> capture_catch e),
      emitted = (''Launching browser'' @ hellip) # em, navAttempts = tr,
      launched = True, closed = True, uploaded = up\<rparr>"
  using assms by (simp add: convertToPdf_def)

lemma screenshot_try_nav:
  assumes "page_setup env = None"
    and "navigate env (clamp_timeout (timeoutMs args)) u (wantWait_of args) = (ok, tr, www)"
  shows "ok \<noteq> NavOk \<Longrightarrow>
           screenshot_try env sid u args =
             (Inr (nav_failure ok),
              nav_emits (wantWait_of args) www
                @ [''Navigation failed ('' @ code_name (nav_code ok) @ '')''], tr, [])"
    and "ok = NavOk \<Longrightarrow>
           \<exists>r em up. screenshot_try env sid u args =
               (r, nav_emits (wantWait_of args) www @ [''Settling'' @ hellip] @ em, tr, up)
             \<and> r \<noteq> Inr (ToolFail msg NAV_TIMEOUT)"
proof -
  show "ok \<noteq> NavOk \<Longrightarrow>
           screenshot_try env sid u args =
             (Inr (nav_failure ok),
              nav_emits (wantWait_of args) www
                @ [''Navigation failed ('' @ code_name (nav_code ok) @ '')''], tr, [])"
    using assms by (simp add: screenshot_try_def Let_def wantWait_of_def)
next
  assume ok: "ok = NavOk"
  define vp where "vp = (case viewport args of None \<Rightarrow> default_viewport | Some v \<Rightarrow> v)"
  define full where "full = (case fullPage args of None \<Rightarrow> True | Some b \<Rightarrow> b)"
  obtain r em up where c: "screenshot_capture env sid vp full = (r, em, up)"
    by (cases "screenshot_capture env sid vp full") auto
  with screenshot_capture_codes(1) [of env sid vp full msg]
  have "r \<noteq> Inr (ToolFail msg NAV_TIMEOUT)" by simp
  moreover have "screenshot_try env sid u args =
      (r, nav_emits (wantWait_of args) www @ [''Settling'' @ hellip] @ em, tr, up)"
    using assms ok c
    by (simp add: screenshot_try_def Let_def wantWait_of_def vp_def full_def)
  ultimately show "\<exists>r em up. screenshot_try env sid u args =
               (r, nav_emits (wantWait_of args) www @ [''Settling'' @ hellip] @ em, tr, up)
             \<and> r \<noteq> Inr (ToolFail msg NAV_TIMEOUT)"
    by blast
qed

lemma pdf_try_nav:
  assumes "page_setup env = None"
    and "navigate env (clamp_timeout (timeoutMs args)) u (wantWait_of args) = (ok, tr, www)"
  shows "ok \<noteq> NavOk \<Longrightarrow>
           pdf_try env sid u args =
             (Inr (nav_failure ok),
              nav_emits (wantWait_of args) www
                @ [''Navigation failed ('' @ code_name (nav_code ok) @ '')''], tr, [])"
    and "ok = NavOk \<Longrightarrow>
           \<exists>r em up. pdf_try env sid u args =
               (r, nav_emits (wantWait_of args) www @ [''Settling'' @ hellip] @ em, tr, up)
             \<and> r \<noteq> Inr (ToolFail msg NAV_TIMEOUT)"
proof -
  show "ok \<noteq> NavOk \<Longrightarrow>
           pdf_try env sid u args =
             (Inr (nav_failure ok),
              nav_emits (wantWait_of args) www
                @ [''Navigation failed ('' @ code_name (nav_code ok) @ '')''], tr, [])"
    using assms by (simp add: pdf_try_def Let_def wantWait_of_def)
next
  assume ok: "ok = NavOk"
  obtain r em up
    where c: "pdf_capture env sid (pdfOpts args) (clamp_timeout (timeoutMs args)) = (r, em, up)"
    by (cases "pdf_capture env sid (pdfOpts args) (clamp_timeout (timeoutMs args))") auto
  with pdf_capture_codes(1) [of env sid "pdfOpts args" "clamp_timeout (timeoutMs args)" msg]
  have "r \<noteq> Inr (ToolFail msg NAV_TIMEOUT)" by simp
  moreover have "pdf_try env sid u args =
      (r, nav_emits (wantWait_of args) www @ [''Settling'' @ hellip] @ em, tr, up)"
    using assms ok c by (simp add: pdf_try_def Let_def wantWait_of_def)
  ultimately show "\<exists>r em up. pdf_try env sid u args =
               (r, nav_emits (wantWait_of args) www @ [''Settling'' @ hellip] @ em, tr, up)
             \<and> r \<noteq> Inr (ToolFail msg NAV_TIMEOUT)"
    by blast
qed

lemma screenshot_nav:
  assumes "normalizeUrl (URL_new env) (url args) = Some u" "browser_launch env = None"
    and "page_setup env = None"
    and "navigate env (clamp_timeout (timeoutMs args)) u (wantWait_of args) = (ok, tr, www)"
  shows "navAttempts (captureScreenshot env sid args) = tr"
    and "ok \<noteq> NavOk \<Longrightarrow> returned (captureScreenshot env sid args) = Inr (nav_failure ok)"
    and "ok = NavOk \<Longrightarrow> (''Settling'' @ hellip) \<in> set (emitted (captureScreenshot env sid args))"
    and "ok = NavOk \<Longrightarrow> returned (captureScreenshot env sid args) \<noteq> Inr (ToolFail msg NAV_TIMEOUT)"
proof -
  note t1 = screenshot_try_nav(1) [OF assms(3,4), where sid = sid]
  note t2 = screenshot_try_nav(2) [OF assms(3,4), where sid = sid and msg = msg]
  note l = captureScreenshot_launched [OF assms(1,2)]
  show "navAttempts (captureScreenshot env sid args) = tr"
  proof (cases "ok = NavOk")
    case True
    with t2 obtain r em up where "screenshot_try env sid u args =
        (r, nav_emits (wantWait_of args) www @ [''Settling'' @ hellip] @ em, tr, up)" by blast
    then show ?thesis by (simp add: l)
  next
    case False
    with t1 show ?thesis by (simp add: l)
  qed
  show "ok \<noteq> NavOk \<Longrightarrow> returned (captureScreenshot env sid args) = Inr (nav_failure ok)"
    using t1 by (simp add: l)
  show "ok = NavOk \<Longrightarrow> (''Settling'' @ hellip) \<in> set (emitted (captureScreenshot env sid args))"
  proof -
    assume "ok = NavOk"
    with t2 obtain r em up where "screenshot_try env sid u args =
        (r, nav_emits (wantWait_of args) www @ [''Settling'' @ hellip] @ em, tr, up)" by blast
    then have "emitted (captureScreenshot env sid args) =
        (''Launching browser'' @ hellip)
          # (nav_emits (wantWait_of args) www @ [''Settling'' @ hellip] @ em)"
      by (simp add: l)
    then show ?thesis by simp
  qed
  show "ok = NavOk \<Longrightarrow> returned (captureScreenshot env sid args) \<noteq> Inr (ToolFail msg NAV_TIMEOUT)"
  proof -
    assume "ok = NavOk"
    with t2 obtain r em up where "screenshot_try env sid u args =
        (r, nav_emits (wantWait_of args) www @ [''Settling'' @ hellip] @ em, tr, up)"
      and "r \<noteq> Inr (ToolFail msg NAV_TIMEOUT)" by blast
    then show ?thesis by (cases r) (simp_all add: l capture_catch_codes)
  qed
qed

lemma pdf_nav:
  assumes "normalizeUrl (URL_new env) (url args) = Some u" "browser_launch env = None"
    and "page_setup env = None"
    and "navigate env (clamp_timeout (timeoutMs args)) u (wantWait_of args) = (ok, tr, www)"
  shows "navAttempts (convertToPdf env sid args) = tr"
    and "ok \<noteq> NavOk \<Longrightarrow> returned (convertToPdf env sid args) = Inr (nav_failure ok)"
    and "ok = NavOk \<Longrightarrow> (''Settling'' @ hellip) \<in> set (emitted (convertToPdf env sid args))"
    and "ok = NavOk \<Longrightarrow> returned (convertToPdf env sid args) \<noteq> Inr (ToolFail msg NAV_TIMEOUT)"
proof -
  note t1 = pdf_try_nav(1) [OF assms(3,4), where sid = sid]
  note t2 = pdf_try_nav(2) [OF assms(3,4), where sid = sid and msg = msg]
  note l = convertToPdf_launched [OF assms(1,2)]
  show "navAttempts (convertToPdf env sid args) = tr"
  proof (cases "ok = NavOk")
    case True
    with t2 obtain r em up where "pdf_try env sid u args =
        (r, nav_emits (wantWait_of args) www @ [''Settling'' @ hellip] @ em, tr, up)" by blast
    then show ?thesis by (simp add: l)
  next
    case False
    with t1 show ?thesis by (simp add: l)
  qed
  show "ok \<noteq> NavOk \<Longrightarrow> returned (convertToPdf env sid args) = Inr (nav_failure ok)"
    using t1 by (simp add: l)
  show "ok = NavOk \<Longrightarrow> (''Settling'' @ hellip) \<in> set (emitted (convertToPdf env sid args))"
  proof -
    assume "ok = NavOk"
    with t2 obtain r em up where "pdf_try env sid u args =
        (r, nav_emits (wantWait_of args) www @ [''Settling'' @ hellip] @ em, tr, up)" by blast
    then have "emitted (convertToPdf env sid args) =
        (''Launching browser'' @ hellip)
          # (nav_emits (wantWait_of args) www @ [''Settling'' @ hellip] @ em)"
      by (simp add: l)
    then show ?thesis by simp
  qed
  show "ok = NavOk \<Longrightarrow> returned (convertToPdf env sid args) \<noteq> Inr (ToolFail msg NAV_TIMEOUT)"
  proof -
    assume "ok = NavOk"
    with t2 obtain r em up where "pdf_try env sid u args =
        (r, nav_emits (wantWait_of args) www @ [''Settling'' @ hellip] @ em, tr, up)"
      and "r \<noteq> Inr (ToolFail msg NAV_TIMEOUT)" by blast
    then show ?thesis by (cases r) (simp_all add: l capture_catch_codes)
  qed
qed

lemma refused_not_timeout [simp]:
  "err_message refused \<noteq> []"
  "js_includes (toLowerCase (err_message refused)) ''timeout'' = False"
  by (simp_all add: refused_def toLowerCase_def lower_char_def)

lemma timed_out_timeout [simp]:
  "err_message timed_out \<noteq> []"
  "js_includes (toLowerCase (err_message timed_out)) ''timeout'' = True"
  by (simp_all add: timed_out_def toLowerCase_def lower_char_def)

lemma example_withWww:
  "withWww sample_URL_new sample_set_hostname example_url =
     Some \<lparr>protocol = ''https:'', hostname = ''www.example.com'',
           href = ''https://www.example.com/''\<rparr>"
  by (simp add: withWww_def startsWith_def example_url_def sample_URL_new_def
      sample_set_hostname_def)

lemma example_normalizeUrl: "normalizeUrl sample_URL_new ''example.com'' = Some example_url"
  by (simp add: normalizeUrl_def trim_sample_bare sample_URL_new_def example_url_def)

lemma navigate_load_only:
  "navigate (sample_env None goto_load_only) 20000 example_url NetworkIdle0 =
     (NavOk,
      [\<lparr>na_dest = ''https://example.com/'', na_waitUntil = NetworkIdle0, na_outcome = NavTimeout\<rparr>,
       \<lparr>na_dest = ''https://example.com/'', na_waitUntil = Load, na_outcome = NavOk\<rparr>],
      False)"
  by (simp add: navigate_def tryGo_def tryGo_catch_def sample_env_def goto_load_only_def
      example_url_def)

lemma navigate_never:
  "navigate (sample_env None goto_never) 20000 example_url NetworkIdle0 =
     (NavTimeout,
      [\<lparr>na_dest = ''https://example.com/'', na_waitUntil = NetworkIdle0, na_outcome = NavTimeout\<rparr>,
       \<lparr>na_dest = ''https://example.com/'', na_waitUntil = Load, na_outcome = NavTimeout\<rparr>,
       \<lparr>na_dest = ''https://example.com/'', na_waitUntil = DomContentLoaded,
        na_outcome = NavTimeout\<rparr>,
       \<lparr>na_dest = ''https://www.example.com/'', na_waitUntil = NetworkIdle0,
        na_outcome = NavTimeout\<rparr>,
       \<lparr>na_dest = ''https://www.example.com/'', na_waitUntil = Load, na_outcome = NavTimeout\<rparr>,
       \<lparr>na_dest = ''https://www.example.com/'', na_waitUntil = DomContentLoaded,
        na_outcome = NavTimeout\<rparr>],
      True)"
proof -
  have w: "withWww (URL_new (sample_env None goto_never))
             (URL_set_hostname (sample_env None goto_never)) example_url =
           Some \<lparr>protocol = ''https:'', hostname = ''www.example.com'',
                 href = ''https://www.example.com/''\<rparr>"
    using example_withWww by (simp add: sample_env_def)
  show ?thesis
    unfolding navigate_def w
    by (simp add: tryGo_def tryGo_catch_def sample_env_def goto_never_def example_url_def)
qed

lemma navigate_www_load:
  "navigate (sample_env None goto_www_load) 20000 example_url NetworkIdle0 =
     (NavOk,
      [\<lparr>na_dest = ''https://example.com/'', na_waitUntil = NetworkIdle0, na_outcome = NavFail\<rparr>,
       \<lparr>na_dest = ''https://example.com/'', na_waitUntil = DomContentLoaded,
        na_outcome = NavFail\<rparr>,
       \<lparr>na_dest = ''https://www.example.com/'', na_waitUntil = NetworkIdle0,
        na_outcome = NavFail\<rparr>,
       \<lparr>na_dest = ''https://www.example.com/'', na_waitUntil = Load, na_outcome = NavOk\<rparr>],
      True)"
proof -
  have w: "withWww (URL_new (sample_env None goto_www_load))
             (URL_set_hostname (sample_env None goto_www_load)) example_url =
           Some \<lparr>protocol = ''https:'', hostname = ''www.example.com'',
                 href = ''https://www.example.com/''\<rparr>"
    using example_withWww by (simp add: sample_env_def)
  show ?thesis
    unfolding navigate_def w
    by (simp add: tryGo_def tryGo_catch_def sample_env_def goto_www_load_def example_url_def)
qed

lemma spec_ladder_www_load:
  "run_ladder spec_steps (sample_env None goto_www_load) 20000 example_url NetworkIdle0 =
     (NavFail,
      [\<lparr>na_dest = ''https://example.com/'', na_waitUntil = NetworkIdle0, na_outcome = NavFail\<rparr>,
       \<lparr>na_dest = ''https://example.com/'', na_waitUntil = DomContentLoaded,
        na_outcome = NavFail\<rparr>,
       \<lparr>na_dest = ''https://www.example.com/'', na_waitUntil = NetworkIdle0,
        na_outcome = NavFail\<rparr>,
       \<lparr>na_dest = ''https://www.example.com/'', na_waitUntil = DomContentLoaded,
        na_outcome = NavFail\<rparr>])"
proof -
  have w: "withWww (URL_new (sample_env None goto_www_load))
             (URL_set_hostname (sample_env None goto_www_load)) example_url =
           Some \<lparr>protocol = ''https:'', hostname = ''www.example.com'',
                 href = ''https://www.example.com/''\<rparr>"
    using example_withWww by (simp add: sample_env_def)
  show ?thesis
    unfolding run_ladder_def w spec_steps_def
    by (simp add: tryGo_def tryGo_catch_def sample_env_def goto_www_load_def example_url_def)
qed

lemma sample_env_sel [simp]:
  "URL_new (sample_env l g) = sample_URL_new"
  "URL_set_hostname (sample_env l g) = sample_set_hostname"
  "browser_launch (sample_env l g) = l"
  "page_setup (sample_env l g) = None"
  "page_url (sample_env l g) c = Inr ''https://example.com/''"
  by (simp_all add: sample_env_def)

lemma example_args [simp]:
  "url example_shot = ''example.com''" "url example_pdf = ''example.com''"
  "clamp_timeout (timeoutMs example_shot) = 20000" "clamp_timeout (timeoutMs example_pdf) = 20000"
  "wantWait_of example_shot = NetworkIdle0" "wantWait_of example_pdf = NetworkIdle0"
  by (simp_all add: example_shot_def example_pdf_def clamp_timeout_def wantWait_of_def)

lemma www_example_host: "startsWith (hostname www_example_url) ''www.''"
  by (simp add: www_example_url_def startsWith_def)

lemma navigate_www_host:
  "navigate (sample_env None goto_never) 20000 www_example_url NetworkIdle0 =
     (NavTimeout,
      [\<lparr>na_dest = ''https://www.example.com/'', na_waitUntil = NetworkIdle0,
        na_outcome = NavTimeout\<rparr>,
       \<lparr>na_dest = ''https://www.example.com/'', na_waitUntil = Load, na_outcome = NavTimeout\<rparr>,
       \<lparr>na_dest = ''https://www.example.com/'', na_waitUntil = DomContentLoaded,
        na_outcome = NavTimeout\<rparr>],
      False)"
proof -
  have w: "withWww (URL_new (sample_env None goto_never))
             (URL_set_hostname (sample_env None goto_never)) www_example_url = None"
    using www_example_host by (simp add: withWww_cases(1))
  show ?thesis
    unfolding navigate_def w
    by (simp add: tryGo_def tryGo_catch_def sample_env_def goto_never_def www_example_url_def)
qed

text \<open>
  When \<^verbatim>\<open>page.url()\<close> throws after a \<^verbatim>\<open>page.goto\<close> that resolved, \<^verbatim>\<open>tryGo\<close> has recorded
  \<^verbatim>\<open>ok\<close>, records the failure after it and returns the failure.
\<close>

lemma tryGo_url_throws:
  assumes "page_goto env (length tr0) (href d) w t = None"
    and "page_url env (AfterGoto (length tr0)) = Inl e"
  shows "tryGo env t tr0 d w =
           tryGo_catch e (tr0 @ [\<lparr>na_dest = href d, na_waitUntil = w, na_outcome = NavOk\<rparr>]) d w"
  using assms by (simp add: tryGo_def)

lemma protocol_error_fail [simp]:
  "err_message protocol_error \<noteq> []"
  "js_includes (toLowerCase (err_message protocol_error)) ''timeout'' = False"
  by (simp_all add: protocol_error_def toLowerCase_def lower_char_def)

lemma url_throws_navigate:
  "fst (navigate url_throws_env 20000 example_url NetworkIdle0) = NavFail
   \<and> map na_outcome (fst (snd (navigate url_throws_env 20000 example_url NetworkIdle0))) =
       [NavOk, NavFail, NavOk, NavFail, NavOk, NavFail, NavOk, NavFail, NavOk, NavFail]"
proof -
  have w: "withWww (URL_new url_throws_env) (URL_set_hostname url_throws_env) example_url =
           Some \<lparr>protocol = ''https:'', hostname = ''www.example.com'',
                 href = ''https://www.example.com/''\<rparr>"
    using example_withWww by (simp add: url_throws_env_def sample_env_def)
  show ?thesis
    unfolding navigate_def w
    by (simp add: tryGo_def tryGo_catch_def url_throws_env_def sample_env_def goto_always_def
        example_url_def)
qed

text \<open>
  C2, as the code has it. For a call whose URL normalizes, whose browser launches and
  whose page is set up, the attempts are: the requested wait condition; \<^verbatim>\<open>load\<close> if that
  timed out; \<^verbatim>\<open>domcontentloaded\<close> if there is still no success; then, if there is still no
  success and the host does not start with \<^verbatim>\<open>www.\<close> (and the copy of the URL parses), on
  the host prefixed with \<^verbatim>\<open>www.\<close> the requested wait condition, \<^verbatim>\<open>load\<close> after any failure
  and \<^verbatim>\<open>domcontentloaded\<close> after a further one. When the host starts with \<^verbatim>\<open>www.\<close> only the
  first three are made and no retry on another host is announced. The outcome is that of
  the last entry recorded. Where \<^verbatim>\<open>page.url()\<close> does not throw after a \<^verbatim>\<open>page.goto\<close> that
  resolved, each attempt records one entry and no attempt follows a success. After a
  success the tool goes on to settle and capture and cannot return \<^verbatim>\<open>NAV_TIMEOUT\<close>; when
  the last attempt failed it returns \<^verbatim>\<open>NAV_TIMEOUT\<close> if that failure was a timeout and
  \<^verbatim>\<open>NAV_FAIL\<close> otherwise. An attempt counts as a timeout when the lower-cased message of
  its error contains \<^verbatim>\<open>timeout\<close>.
\<close>

theorem navigation_ladder:
  "(navigate env t u w = (ok, tr, www) \<longrightarrow>
      run_ladder tool_steps env t u w = (ok, tr)
      \<and> (startsWith (hostname u) ''www.'' \<or> URL_new env (href u) = None \<longrightarrow>
           \<not> www
           \<and> (ok, tr) =
               ladder env t [(u, Load, AfterTimeout), (u, DomContentLoaded, AfterFailure)]
                 (tryGo env t [] u w))
      \<and> (\<not> startsWith (hostname u) ''www.'' \<and> URL_new env (href u) = Some c \<longrightarrow>
           (ok, tr) =
             ladder env t
               [(u, Load, AfterTimeout), (u, DomContentLoaded, AfterFailure),
                (URL_set_hostname env c (''www.'' @ hostname u), w, AfterFailure),
                (URL_set_hostname env c (''www.'' @ hostname u), Load, AfterFailure),
                (URL_set_hostname env c (''www.'' @ hostname u), DomContentLoaded, AfterFailure)]
               (tryGo env t [] u w))
      \<and> ((\<forall>k. \<exists>s. page_url env (AfterGoto k) = Inr s) \<longrightarrow> attempts_ok (ok, tr)))
   \<and> (page_goto env (length tr0) (href d) w t = None \<and>
        page_url env (AfterGoto (length tr0)) = Inr s \<longrightarrow>
        tryGo env t tr0 d w =
          (NavOk, tr0 @ [\<lparr>na_dest = href d, na_waitUntil = w, na_outcome = NavOk\<rparr>]))
   \<and> (page_goto env (length tr0) (href d) w t = Some e \<longrightarrow>
        tryGo env t tr0 d w =
          (if js_includes
                (toLowerCase (if err_message e \<noteq> [] then err_message e else error_toString e))
                ''timeout''
           then (NavTimeout,
                 tr0 @ [\<lparr>na_dest = href d, na_waitUntil = w, na_outcome = NavTimeout\<rparr>])
           else (NavFail,
                 tr0 @ [\<lparr>na_dest = href d, na_waitUntil = w, na_outcome = NavFail\<rparr>])))
   \<and> (normalizeUrl (URL_new env) (url sargs) = Some u \<and> browser_launch env = None \<and>
        page_setup env = None \<and>
        navigate env (clamp_timeout (timeoutMs sargs)) u (wantWait_of sargs) = (ok, tr, www) \<longrightarrow>
          navAttempts (captureScreenshot env sid sargs) = tr
          \<and> (ok \<noteq> NavOk \<longrightarrow>
               returned (captureScreenshot env sid sargs) =
                 Inr (ToolFail
                       (if ok = NavTimeout then ''Navigation timed out'' else ''Navigation failed'')
                       (if ok = NavTimeout then NAV_TIMEOUT else NAV_FAIL)))
          \<and> (ok = NavOk \<longrightarrow>
               (''Settling'' @ hellip) \<in> set (emitted (captureScreenshot env sid sargs))
               \<and> (\<forall>msg. returned (captureScreenshot env sid sargs)
                           \<noteq> Inr (ToolFail msg NAV_TIMEOUT))))
   \<and> (normalizeUrl (URL_new env) (url pargs) = Some u \<and> browser_launch env = None \<and>
        page_setup env = None \<and>
        navigate env (clamp_timeout (timeoutMs pargs)) u (wantWait_of pargs) = (ok, tr, www) \<longrightarrow>
          navAttempts (convertToPdf env sid pargs) = tr
          \<and> (ok \<noteq> NavOk \<longrightarrow>
               returned (convertToPdf env sid pargs) =
                 Inr (ToolFail
                       (if ok = NavTimeout then ''Navigation timed out'' else ''Navigation failed'')
                       (if ok = NavTimeout then NAV_TIMEOUT else NAV_FAIL)))
          \<and> (ok = NavOk \<longrightarrow>
               (''Settling'' @ hellip) \<in> set (emitted (convertToPdf env sid pargs))
               \<and> (\<forall>msg. returned (convertToPdf env sid pargs)
                           \<noteq> Inr (ToolFail msg NAV_TIMEOUT))))"
proof (intro conjI impI allI)
  assume n: "navigate env t u w = (ok, tr, www)"
  then show "run_ladder tool_steps env t u w = (ok, tr)" by (rule navigate_ladder)
  {
    assume "startsWith (hostname u) ''www.'' \<or> URL_new env (href u) = None"
    then have none: "withWww (URL_new env) (URL_set_hostname env) u = None"
      by (rule withWww_cases(1))
    from none n show "\<not> www" by (rule navigate_one_host(1))
    from none n
    show "(ok, tr) =
               ladder env t [(u, Load, AfterTimeout), (u, DomContentLoaded, AfterFailure)]
                 (tryGo env t [] u w)"
      by (rule navigate_one_host(2))
  }
  {
    assume "\<not> startsWith (hostname u) ''www.'' \<and> URL_new env (href u) = Some c"
    then have "withWww (URL_new env) (URL_set_hostname env) u =
        Some (URL_set_hostname env c (''www.'' @ hostname u))"
      by (simp add: withWww_cases(2))
    from this n
    show "(ok, tr) =
             ladder env t
               [(u, Load, AfterTimeout), (u, DomContentLoaded, AfterFailure),
                (URL_set_hostname env c (''www.'' @ hostname u), w, AfterFailure),
                (URL_set_hostname env c (''www.'' @ hostname u), Load, AfterFailure),
                (URL_set_hostname env c (''www.'' @ hostname u), DomContentLoaded, AfterFailure)]
               (tryGo env t [] u w)"
      by (rule navigate_two_hosts)
  }
  {
    assume "\<forall>k. \<exists>s. page_url env (AfterGoto k) = Inr s"
    from this n show "attempts_ok (ok, tr)" by (rule navigate_attempts_ok)
  }
next
  assume "page_goto env (length tr0) (href d) w t = None \<and>
        page_url env (AfterGoto (length tr0)) = Inr s"
  then show "tryGo env t tr0 d w =
          (NavOk, tr0 @ [\<lparr>na_dest = href d, na_waitUntil = w, na_outcome = NavOk\<rparr>])"
    by (simp add: tryGo_def)
next
  assume "page_goto env (length tr0) (href d) w t = Some e"
  then show "tryGo env t tr0 d w =
          (if js_includes
                (toLowerCase (if err_message e \<noteq> [] then err_message e else error_toString e))
                ''timeout''
           then (NavTimeout,
                 tr0 @ [\<lparr>na_dest = href d, na_waitUntil = w, na_outcome = NavTimeout\<rparr>])
           else (NavFail,
                 tr0 @ [\<lparr>na_dest = href d, na_waitUntil = w, na_outcome = NavFail\<rparr>]))"
    by (simp add: tryGo_def tryGo_catch_def Let_def)
next
  assume a: "normalizeUrl (URL_new env) (url sargs) = Some u \<and> browser_launch env = None \<and>
        page_setup env = None \<and>
        navigate env (clamp_timeout (timeoutMs sargs)) u (wantWait_of sargs) = (ok, tr, www)"
  then show "navAttempts (captureScreenshot env sid sargs) = tr"
    by (simp add: screenshot_nav(1))
  {
    assume "ok \<noteq> NavOk"
    with a show "returned (captureScreenshot env sid sargs) =
                 Inr (ToolFail
                       (if ok = NavTimeout then ''Navigation timed out'' else ''Navigation failed'')
                       (if ok = NavTimeout then NAV_TIMEOUT else NAV_FAIL))"
      by (simp add: screenshot_nav(2) nav_failure_def nav_code_def)
  }
  {
    assume "ok = NavOk"
    with a show "(''Settling'' @ hellip) \<in> set (emitted (captureScreenshot env sid sargs))"
      by (intro screenshot_nav(3) [where u = u and tr = tr and www = www]) simp_all
    fix msg
    from a \<open>ok = NavOk\<close>
    show "returned (captureScreenshot env sid sargs) \<noteq> Inr (ToolFail msg NAV_TIMEOUT)"
      by (simp add: screenshot_nav(4))
  }
next
  assume a: "normalizeUrl (URL_new env) (url pargs) = Some u \<and> browser_launch env = None \<and>
        page_setup env = None \<and>
        navigate env (clamp_timeout (timeoutMs pargs)) u (wantWait_of pargs) = (ok, tr, www)"
  then show "navAttempts (convertToPdf env sid pargs) = tr"
    by (simp add: pdf_nav(1))
  {
    assume "ok \<noteq> NavOk"
    with a show "returned (convertToPdf env sid pargs) =
                 Inr (ToolFail
                       (if ok = NavTimeout then ''Navigation timed out'' else ''Navigation failed'')
                       (if ok = NavTimeout then NAV_TIMEOUT else NAV_FAIL))"
      by (simp add: pdf_nav(2) nav_failure_def nav_code_def)
  }
  {
    assume "ok = NavOk"
    with a show "(''Settling'' @ hellip) \<in> set (emitted (convertToPdf env sid pargs))"
      by (intro pdf_nav(3) [where u = u and tr = tr and www = www]) simp_all
    fix msg
    from a \<open>ok = NavOk\<close>
    show "returned (convertToPdf env sid pargs) \<noteq> Inr (ToolFail msg NAV_TIMEOUT)"
      by (simp add: pdf_nav(4))
  }
qed

theorem navigation_ladder_witness:
  "run_ladder tool_steps (sample_env None goto_load_only) 20000 example_url NetworkIdle0 =
     (NavOk,
      [\<lparr>na_dest = ''https://example.com/'', na_waitUntil = NetworkIdle0, na_outcome = NavTimeout\<rparr>,
       \<lparr>na_dest = ''https://example.com/'', na_waitUntil = Load, na_outcome = NavOk\<rparr>])
   \<and> attempts_ok
        (NavOk,
         [\<lparr>na_dest = ''https://example.com/'', na_waitUntil = NetworkIdle0,
           na_outcome = NavTimeout\<rparr>,
          \<lparr>na_dest = ''https://example.com/'', na_waitUntil = Load, na_outcome = NavOk\<rparr>])
   \<and> navAttempts (captureScreenshot (sample_env None goto_load_only) ''sid'' example_shot) =
      [\<lparr>na_dest = ''https://example.com/'', na_waitUntil = NetworkIdle0, na_outcome = NavTimeout\<rparr>,
       \<lparr>na_dest = ''https://example.com/'', na_waitUntil = Load, na_outcome = NavOk\<rparr>]
   \<and> (''Settling'' @ hellip)
        \<in> set (emitted (captureScreenshot (sample_env None goto_load_only) ''sid'' example_shot))
   \<and> returned (convertToPdf (sample_env None goto_never) ''sid'' example_pdf) =
       Inr (ToolFail ''Navigation timed out'' NAV_TIMEOUT)
   \<and> ladder (sample_env None goto_never) 20000
        [(www_example_url, Load, AfterTimeout), (www_example_url, DomContentLoaded, AfterFailure)]
        (tryGo (sample_env None goto_never) 20000 [] www_example_url NetworkIdle0) =
       (NavTimeout,
        [\<lparr>na_dest = ''https://www.example.com/'', na_waitUntil = NetworkIdle0,
          na_outcome = NavTimeout\<rparr>,
         \<lparr>na_dest = ''https://www.example.com/'', na_waitUntil = Load, na_outcome = NavTimeout\<rparr>,
         \<lparr>na_dest = ''https://www.example.com/'', na_waitUntil = DomContentLoaded,
          na_outcome = NavTimeout\<rparr>])"
proof -
  note a = navigation_ladder [where env = "sample_env None goto_load_only" and t = 20000
      and u = example_url and w = NetworkIdle0 and ok = NavOk and www = False
      and tr = "[\<lparr>na_dest = ''https://example.com/'', na_waitUntil = NetworkIdle0,
                  na_outcome = NavTimeout\<rparr>,
                 \<lparr>na_dest = ''https://example.com/'', na_waitUntil = Load, na_outcome = NavOk\<rparr>]"
      and sargs = example_shot and pargs = example_pdf and sid = "''sid''"]
  note b = navigation_ladder [where env = "sample_env None goto_never" and t = 20000
      and u = example_url and w = NetworkIdle0 and ok = NavTimeout and www = True
      and tr = "[\<lparr>na_dest = ''https://example.com/'', na_waitUntil = NetworkIdle0,
                  na_outcome = NavTimeout\<rparr>,
                 \<lparr>na_dest = ''https://example.com/'', na_waitUntil = Load,
                  na_outcome = NavTimeout\<rparr>,
                 \<lparr>na_dest = ''https://example.com/'', na_waitUntil = DomContentLoaded,
                  na_outcome = NavTimeout\<rparr>,
                 \<lparr>na_dest = ''https://www.example.com/'', na_waitUntil = NetworkIdle0,
                  na_outcome = NavTimeout\<rparr>,
                 \<lparr>na_dest = ''https://www.example.com/'', na_waitUntil = Load,
                  na_outcome = NavTimeout\<rparr>,
                 \<lparr>na_dest = ''https://www.example.com/'', na_waitUntil = DomContentLoaded,
                  na_outcome = NavTimeout\<rparr>]"
      and sargs = example_shot and pargs = example_pdf and sid = "''sid''"]
  note c = navigation_ladder [where env = "sample_env None goto_never" and t = 20000
      and u = www_example_url and w = NetworkIdle0 and ok = NavTimeout and www = False
      and tr = "[\<lparr>na_dest = ''https://www.example.com/'', na_waitUntil = NetworkIdle0,
                  na_outcome = NavTimeout\<rparr>,
                 \<lparr>na_dest = ''https://www.example.com/'', na_waitUntil = Load,
                  na_outcome = NavTimeout\<rparr>,
                 \<lparr>na_dest = ''https://www.example.com/'', na_waitUntil = DomContentLoaded,
                  na_outcome = NavTimeout\<rparr>]"]
  have "run_ladder tool_steps (sample_env None goto_load_only) 20000 example_url NetworkIdle0 =
     (NavOk,
      [\<lparr>na_dest = ''https://example.com/'', na_waitUntil = NetworkIdle0, na_outcome = NavTimeout\<rparr>,
       \<lparr>na_dest = ''https://example.com/'', na_waitUntil = Load, na_outcome = NavOk\<rparr>])
   \<and> attempts_ok
        (NavOk,
         [\<lparr>na_dest = ''https://example.com/'', na_waitUntil = NetworkIdle0,
           na_outcome = NavTimeout\<rparr>,
          \<lparr>na_dest = ''https://example.com/'', na_waitUntil = Load, na_outcome = NavOk\<rparr>])
   \<and> navAttempts (captureScreenshot (sample_env None goto_load_only) ''sid'' example_shot) =
      [\<lparr>na_dest = ''https://example.com/'', na_waitUntil = NetworkIdle0, na_outcome = NavTimeout\<rparr>,
       \<lparr>na_dest = ''https://example.com/'', na_waitUntil = Load, na_outcome = NavOk\<rparr>]
   \<and> (''Settling'' @ hellip)
        \<in> set (emitted (captureScreenshot (sample_env None goto_load_only) ''sid'' example_shot))"
    using a by (simp add: navigate_load_only example_normalizeUrl)
  moreover
  have "returned (convertToPdf (sample_env None goto_never) ''sid'' example_pdf) =
       Inr (ToolFail ''Navigation timed out'' NAV_TIMEOUT)"
    using b by (simp add: navigate_never example_normalizeUrl)
  moreover
  have "ladder (sample_env None goto_never) 20000
        [(www_example_url, Load, AfterTimeout), (www_example_url, DomContentLoaded, AfterFailure)]
        (tryGo (sample_env None goto_never) 20000 [] www_example_url NetworkIdle0) =
       (NavTimeout,
        [\<lparr>na_dest = ''https://www.example.com/'', na_waitUntil = NetworkIdle0,
          na_outcome = NavTimeout\<rparr>,
         \<lparr>na_dest = ''https://www.example.com/'', na_waitUntil = Load, na_outcome = NavTimeout\<rparr>,
         \<lparr>na_dest = ''https://www.example.com/'', na_waitUntil = DomContentLoaded,
          na_outcome = NavTimeout\<rparr>])"
    using c www_example_host by (simp add: navigate_www_host)
  ultimately show ?thesis by simp
qed

text \<open>
  The claim as the specification words it ("the same ladder" on the www host) fails
  where the first attempt on the www host fails without a timeout and \<^verbatim>\<open>load\<close> would
  succeed there: the code tries \<^verbatim>\<open>load\<close> and navigates, the worded ladder goes on to
  \<^verbatim>\<open>domcontentloaded\<close> and fails.
\<close>

theorem navigation_ladder_counterexample:
  "fst (navigate (sample_env None goto_www_load) 20000 example_url NetworkIdle0) = NavOk
   \<and> map na_waitUntil
        (navAttempts (captureScreenshot (sample_env None goto_www_load) ''sid'' example_shot)) =
      [NetworkIdle0, DomContentLoaded, NetworkIdle0, Load]
   \<and> fst (run_ladder spec_steps (sample_env None goto_www_load) 20000 example_url NetworkIdle0)
      = NavFail
   \<and> map na_waitUntil
        (snd (run_ladder spec_steps (sample_env None goto_www_load) 20000 example_url
               NetworkIdle0)) =
      [NetworkIdle0, DomContentLoaded, NetworkIdle0, DomContentLoaded]"
  using screenshot_nav(1) [where env = "sample_env None goto_www_load" and args = example_shot
      and u = example_url and sid = "''sid''", OF _ _ _ _]
  by (simp add: navigate_www_load spec_ladder_www_load example_normalizeUrl)

subsection \<open>Results of the tools\<close>





lemma offline_weather_try:
  "getWeather_try offline_weather paris_args =
     Inl \<lparr>err_name = ''TypeError'', err_message = ''fetch failed''\<rparr>"
  by (simp add: getWeather_try_def geocodeIfNeeded_def offline_weather_def paris_args_def
      trim_def trimStart_def trimEnd_def strip_token_def js_ws_tokens_def)

lemma capture_fails_env_sel [simp]:
  "URL_new capture_fails_env = sample_URL_new"
  "browser_launch capture_fails_env = None"
  by (simp_all add: capture_fails_env_def sample_env_def)





subsection \<open>Planner\<close>

lemma tryPlanTool_Some_iff:
  "tryPlanTool AI parse sb st h u = Some args \<longleftrightarrow>
     (\<exists>kvs call rest.
        AI (model_or_default st) (plannerInput sb h u) = Inr (AiValue (JObj kvs)) \<and>
        map_of kvs ''tool_calls'' = Some (JArr (call # rest)) \<and>
        get_prop (get_prop (Some call) ''function'') ''name'' = Some (JStr ''getWeather'') \<and>
        args = parseToolArgs parse (get_prop (get_prop (Some call) ''function'') ''arguments''))"
  unfolding tryPlanTool_def isRecord_def Let_def
  by (auto split: sum.splits option.splits json.splits list.splits ai_output.splits if_splits)

text \<open>
  C5. The planner returns a \<^verbatim>\<open>getWeather\<close> call exactly when the binding resolved to an
  object whose \<^verbatim>\<open>tool_calls\<close> is a non-empty array with a first call named
  \<^verbatim>\<open>getWeather\<close>; every other response, and every rejected call, gives \<^verbatim>\<open>null\<close>. The
  arguments are taken as they are when they are a keyed object, parsed when they are a
  string of JSON that decodes to a keyed object, and the empty object otherwise. The
  function is total: a SyntaxError of the parser is the value \<^const>\<open>None\<close> and ends in the
  empty object.
\<close>

theorem planner_contract:
  "(tryPlanTool AI parse sb st h u = Some args \<longleftrightarrow>
      (\<exists>kvs call rest.
         AI (model_or_default st) (plannerInput sb h u) = Inr (AiValue (JObj kvs)) \<and>
         map_of kvs ''tool_calls'' = Some (JArr (call # rest)) \<and>
         get_prop (get_prop (Some call) ''function'') ''name'' = Some (JStr ''getWeather'') \<and>
         args = parseToolArgs parse (get_prop (get_prop (Some call) ''function'') ''arguments'')))
   \<and> (AI (model_or_default st) (plannerInput sb h u) = Inl e \<longrightarrow>
        tryPlanTool AI parse sb st h u = None)
   \<and> parseToolArgs parse (Some (JObj kvs')) = JObj kvs'
   \<and> (parse s = Some (JObj kvs') \<longrightarrow> parseToolArgs parse (Some (JStr s)) = JObj kvs')
   \<and> (\<not> isRecord raw \<and> (\<forall>t. raw = Some (JStr t) \<longrightarrow> \<not> isRecord (parse t)) \<longrightarrow>
        parseToolArgs parse raw = JObj [])"
proof (intro conjI impI)
  show "tryPlanTool AI parse sb st h u = Some args \<longleftrightarrow>
      (\<exists>kvs call rest.
         AI (model_or_default st) (plannerInput sb h u) = Inr (AiValue (JObj kvs)) \<and>
         map_of kvs ''tool_calls'' = Some (JArr (call # rest)) \<and>
         get_prop (get_prop (Some call) ''function'') ''name'' = Some (JStr ''getWeather'') \<and>
         args = parseToolArgs parse (get_prop (get_prop (Some call) ''function'') ''arguments''))"
    by (rule tryPlanTool_Some_iff)
next
  assume "AI (model_or_default st) (plannerInput sb h u) = Inl e"
  then show "tryPlanTool AI parse sb st h u = None"
    by (simp add: tryPlanTool_def)
next
  show "parseToolArgs parse (Some (JObj kvs')) = JObj kvs'"
    by (simp add: parseToolArgs_def isRecord_def)
next
  assume "parse s = Some (JObj kvs')"
  then show "parseToolArgs parse (Some (JStr s)) = JObj kvs'"
    by (simp add: parseToolArgs_def isRecord_def)
next
  assume "\<not> isRecord raw \<and> (\<forall>t. raw = Some (JStr t) \<longrightarrow> \<not> isRecord (parse t))"
  then show "parseToolArgs parse raw = JObj []"
    by (auto simp: parseToolArgs_def isRecord_def split: option.splits json.splits)
qed

theorem planner_contract_witness:
  "tryPlanTool
     (\<lambda>m r. Inr (AiValue (JObj [(''tool_calls'',
        JArr [JObj [(''function'', JObj [(''name'', JStr ''getWeather''),
                                         (''arguments'', JStr ''{ARGS}'')])]])])))
     (\<lambda>t. if t = ''{ARGS}'' then Some (JObj [(''location'', JStr ''Paris'')]) else None)
     ''system'' \<lparr>model = None, messages = [], createdAt = 0, expiresAt = 0\<rparr> []
     ''weather in Paris?''
     = Some (JObj [(''location'', JStr ''Paris'')])
   \<and> tryPlanTool (\<lambda>m r. Inl \<lparr>err_name = ''Error'', err_message = ''network''\<rparr>)
       (\<lambda>t. None) ''system'' \<lparr>model = None, messages = [], createdAt = 0, expiresAt = 0\<rparr> []
       ''weather in Paris?'' = None
   \<and> parseToolArgs (\<lambda>t. None) (Some (JStr ''not json'')) = JObj []"
  using planner_contract [where AI = "\<lambda>m r. Inl \<lparr>err_name = ''Error'', err_message = ''network''\<rparr>"
      and parse = "\<lambda>t. None" and sb = "''system''"
      and st = "\<lparr>model = None, messages = [], createdAt = 0, expiresAt = 0\<rparr>"
      and h = "[]" and u = "''weather in Paris?''"
      and e = "\<lparr>err_name = ''Error'', err_message = ''network''\<rparr>"
      and raw = "Some (JStr ''not json'')"]
    planner_contract [where AI = "\<lambda>m r. Inr (AiValue (JObj [(''tool_calls'',
        JArr [JObj [(''function'', JObj [(''name'', JStr ''getWeather''),
                                         (''arguments'', JStr ''{ARGS}'')])]])]))"
      and parse = "\<lambda>t. if t = ''{ARGS}'' then Some (JObj [(''location'', JStr ''Paris'')]) else None"
      and sb = "''system''"
      and st = "\<lparr>model = None, messages = [], createdAt = 0, expiresAt = 0\<rparr>"
      and h = "[]" and u = "''weather in Paris?''"
      and args = "JObj [(''location'', JStr ''Paris'')]"
      and s = "''{ARGS}''" and kvs' = "[(''location'', JStr ''Paris'')]"]
  by (simp add: isRecord_def)

subsection \<open>Session controller: reset and blank chat\<close>

lemma trimEnd_Nil: "trimEnd [] = []"
  by (simp add: trimEnd_def strip_token_Nil)

lemma whitespace_only_trim: "whitespace_only t \<Longrightarrow> trim t = []"
  by (simp add: trim_def whitespace_only_trimStart trimEnd_Nil)

lemma ws_sample: "whitespace_only ('' '' @ [CHR 0x09] @ '' '')"
  by (simp add: strip_token_def js_ws_tokens_def)

lemma sample_decode_frames:
  "sample_decode reset_frame = Some \<lparr>d_type = Some ''reset'', d_text = None, d_model = None\<rparr>"
  "sample_decode blank_chat_frame =
     Some \<lparr>d_type = Some ''chat'', d_text = Some ('' '' @ [CHR 0x09] @ '' ''), d_model = None\<rparr>"
  "sample_decode (chat_frame ''take a screenshot'') =
     Some \<lparr>d_type = Some ''chat'', d_text = Some ''take a screenshot'', d_model = None\<rparr>"
  "sample_decode (chat_frame ''save as pdf please'') =
     Some \<lparr>d_type = Some ''chat'', d_text = Some ''save as pdf please'', d_model = None\<rparr>"
  by (simp_all add: sample_decode_def reset_frame_def blank_chat_frame_def chat_frame_def dq_def)

lemma sample_controller_sel [simp]:
  "decode_frame (sample_controller ai) = sample_decode"
  "now (sample_controller ai) = (\<lambda>k. 1700000000000 + int k)"
  "AI_run (sample_controller ai) = ai"
  "JSON_parse (sample_controller ai) = (\<lambda>s. None)"
  "browser (sample_controller ai) = sample_env None goto_load_only"
  "weather (sample_controller ai) = offline_weather"
  by (simp_all add: sample_controller_def)

lemma agent0_sel [simp]:
  "model (state agent0) = Some ''@hf/nousresearch/hermes-2-pro-mistral-7b''"
  "ticks agent0 = 0" "sent agent0 = []" "agent_name agent0 = ''session-1''"
  "map content (rows agent0) = [''hello'']"
  by (simp_all add: agent0_def hello_def)

text \<open>
  C8. A \<^verbatim>\<open>chat\<close> frame whose text is absent, empty or made of white space only leaves the
  agent as it was: no row is inserted, the mirrored state is the same, no event is sent,
  the clock is not read, and no exception leaves \<^verbatim>\<open>onMessage\<close>.
\<close>

theorem blank_chat_noop:
  "decode_frame env m = Some data \<and> d_type data = Some ''chat'' \<and>
   (d_text data = None \<or> (\<exists>t. d_text data = Some t \<and> whitespace_only t)) \<longrightarrow>
     onMessage env (Text m) a = (a, None)"
  by (auto simp: onMessage_def truthy_text_def trim_empty whitespace_only_trim)

theorem blank_chat_noop_witness:
  "onMessage (sample_controller ai_no_tool) (Text blank_chat_frame) agent0 = (agent0, None)"
  using blank_chat_noop [where env = "sample_controller ai_no_tool" and m = blank_chat_frame
      and a = agent0
      and data = "\<lparr>d_type = Some ''chat'', d_text = Some ('' '' @ [CHR 0x09] @ '' ''), d_model = None\<rparr>"]
    ws_sample
  by (simp add: sample_decode_frames)

text \<open>
  C10. A \<^verbatim>\<open>reset\<close> frame keeps the selected model: the model after the reset is the one
  before it, or the default model when none was set (an empty id counts as none). The
  messages are cleared, in the table and in the mirrored state, \<^verbatim>\<open>createdAt\<close> is the
  clock's next reading and \<^verbatim>\<open>expiresAt\<close> the reading after that plus one day, and
  \<^verbatim>\<open>cleared\<close> is the one event sent.
\<close>

theorem reset_keeps_model:
  "model (state (reset env a)) = Some (model_or_default (state a))
   \<and> (model (state a) = Some m \<and> m \<noteq> [] \<longrightarrow> model (state (reset env a)) = model (state a))
   \<and> (model (state a) = None \<or> model (state a) = Some [] \<longrightarrow>
        model (state (reset env a)) = Some DEFAULT_MODEL)
   \<and> messages (state (reset env a)) = []
   \<and> rows (reset env a) = []
   \<and> createdAt (state (reset env a)) = now env (ticks a)
   \<and> expiresAt (state (reset env a)) = now env (Suc (ticks a)) + DAY
   \<and> sent (reset env a) = sent a @ [Cleared]
   \<and> (decode_frame env f = Some data \<and> d_type data = Some ''reset'' \<longrightarrow>
        onMessage env (Text f) a = (reset env a, None))"
  by (auto simp: reset_def Date_now_def send_def model_or_default_def onMessage_def truthy_text_def
      split: option.splits)

theorem reset_keeps_model_witness:
  "model (state (fst (onMessage (sample_controller ai_no_tool) (Text reset_frame) agent0)))
     = Some ''@hf/nousresearch/hermes-2-pro-mistral-7b''
   \<and> messages (state (fst (onMessage (sample_controller ai_no_tool) (Text reset_frame) agent0))) = []
   \<and> createdAt (state (fst (onMessage (sample_controller ai_no_tool) (Text reset_frame) agent0)))
       = 1700000000000
   \<and> expiresAt (state (fst (onMessage (sample_controller ai_no_tool) (Text reset_frame) agent0)))
       = 1700086400001
   \<and> model (state (reset (sample_controller ai_no_tool)
        (agent0\<lparr>state := (state agent0)\<lparr>model := None\<rparr>\<rparr>)))
       = Some ''@cf/meta/llama-4-scout-17b-16e-instruct''"
  using reset_keeps_model [where env = "sample_controller ai_no_tool" and a = agent0
      and m = "''@hf/nousresearch/hermes-2-pro-mistral-7b''" and f = reset_frame
      and data = "\<lparr>d_type = Some ''reset'', d_text = None, d_model = None\<rparr>"]
    reset_keeps_model [where env = "sample_controller ai_no_tool"
      and a = "agent0\<lparr>state := (state agent0)\<lparr>model := None\<rparr>\<rparr>"]
  by (simp add: sample_decode_frames DAY_def DEFAULT_MODEL_def model_or_default_def)

text \<open>
  C7. After a \<^verbatim>\<open>reset\<close> frame the table of messages is empty and so is the mirrored list;
  the agent keeps its name. An \<^verbatim>\<open>onConnect\<close> of the same agent after it sends one
  \<^verbatim>\<open>ready\<close> event, whose state has the empty list of messages.
\<close>

theorem reset_then_connect:
  "rows (reset env a) = []
   \<and> messages (state (reset env a)) = []
   \<and> agent_name (reset env a) = agent_name a
   \<and> sent (onConnect env (reset env a)) =
       sent a @ [Cleared, Ready (state (onConnect env (reset env a)))]
   \<and> messages (state (onConnect env (reset env a))) = []
   \<and> (decode_frame env f = Some data \<and> d_type data = Some ''reset'' \<longrightarrow>
        fst (onMessage env (Text f) a) = reset env a)"
  by (auto simp: reset_def Date_now_def send_def onConnect_def onMessage_def truthy_text_def
      Let_def split: option.splits)

theorem reset_then_connect_witness:
  "rows (fst (onMessage (sample_controller ai_no_tool) (Text reset_frame) agent0)) = []
   \<and> (\<exists>st. sent (onConnect (sample_controller ai_no_tool)
               (fst (onMessage (sample_controller ai_no_tool) (Text reset_frame) agent0)))
             = [Cleared, Ready st] \<and> messages st = [])"
  using reset_then_connect [where env = "sample_controller ai_no_tool" and a = agent0
      and f = reset_frame
      and data = "\<lparr>d_type = Some ''reset'', d_text = None, d_model = None\<rparr>"]
  by (simp add: sample_decode_frames)

subsection \<open>Streaming relay\<close>

lemma relay_late: "consume (\<lambda>s. None) [done_then_late] [] = [''late'']"
  by code_simp

text \<open>
  C6. The relay of \<^verbatim>\<open>streamAssistant\<close> skips the payload \<^verbatim>\<open>[DONE]\<close> and reads on: for a
  stream whose one chunk holds the frame \<^verbatim>\<open>data: [DONE]\<close> followed by the frame
  \<^verbatim>\<open>data: late\<close>, the delta \<^verbatim>\<open>late\<close> is sent to the client and is the text persisted as
  the assistant's message.
\<close>

theorem relay_after_sentinel:
  "consume (JSON_parse (sample_controller ai_late_stream)) [done_then_late] [] = [''late'']
   \<and> sent (streamAssistant (sample_controller ai_late_stream) [] agent0) = [Delta ''late'', Done]
   \<and> map content (rows (streamAssistant (sample_controller ai_late_stream) [] agent0))
       = [''hello'', ''late'']"
  by (simp add: relay_late streamAssistant_def ai_late_stream_def saveAssistant_def persist_def
      Date_now_def send_def Let_def del: consume.simps)


subsection \<open>Default target of the browser branches\<close>

lemma persist_frame [simp]:
  "sent (persist env r t a) = sent a" "agent_name (persist env r t a) = agent_name a"
  "model (state (persist env r t a)) = model (state a)"
  by (simp_all add: persist_def Date_now_def Let_def)

lemma send_frame [simp]:
  "sent (send ev a) = sent a @ [ev]" "agent_name (send ev a) = agent_name a"
  by (simp_all add: send_def)

lemma say_frame [simp]:
  "sent (say env t a) = sent a @ [Delta t, Done]" "agent_name (say env t a) = agent_name a"
  by (simp_all add: say_def saveAssistant_def)

lemma send_steps_frame [simp]:
  "sent (send_steps tool msgs a) = sent a @ map (\<lambda>m. ToolEvent tool Step (Some m) None) msgs"
  by (simp add: send_steps_def)

lemma store_tool_row_frame [simp]:
  "sent (store_tool_row env tool res a) = sent a"
  by (simp add: store_tool_row_def)

lemma screenshot_turn_sent:
  "\<exists>rest. sent (fst (screenshot_turn env userText target a)) =
     sent a @ [Delta (screenshot_pre target), Done,
               ToolEvent ''screenshot'' Started (Some (''Planning capture'' @ hellip)) None]
     @ map (\<lambda>m. ToolEvent ''screenshot'' Step (Some m) None)
         (emitted (captureScreenshot (browser env) (agent_name a) (screenshot_args target)))
     @ rest"
  by (auto simp: screenshot_turn_def Let_def split: sum.splits tool_result.splits)

lemma pdf_turn_sent:
  "\<exists>rest. sent (fst (pdf_turn env userText target a)) =
     sent a @ [Delta (pdf_pre target), Done,
               ToolEvent ''convertToPdf'' Started (Some (''Planning PDF'' @ hellip)) None]
     @ map (\<lambda>m. ToolEvent ''convertToPdf'' Step (Some m) None)
         (emitted (convertToPdf (browser env) (agent_name a) (pdf_turn_args target)))
     @ rest"
  by (auto simp: pdf_turn_def Let_def split: sum.splits tool_result.splits)

lemma trim_default_url: "trim ''https://example.com'' = ''https://example.com''"
  by (simp add: trim_def trimStart_def trimEnd_def strip_token_def js_ws_tokens_def)

lemma default_url_accepted:
  assumes "P ''https://example.com'' = Some u" "protocol u = ''https:''"
  shows "normalizeUrl P ''https://example.com'' = Some u"
  using assms by (simp add: normalizeUrl_def trim_default_url)

lemma screenshot_try_not_bad_url:
  "fst (screenshot_try env sid u args) \<noteq> Inr (ToolFail msg BAD_URL)"
proof (cases "page_setup env")
  case (Some e)
  then show ?thesis by (simp add: screenshot_try_def Let_def)
next
  case None
  obtain ok tr www
    where n: "navigate env (clamp_timeout (timeoutMs args)) u (wantWait_of args) = (ok, tr, www)"
    by (cases "navigate env (clamp_timeout (timeoutMs args)) u (wantWait_of args)") auto
  show ?thesis
  proof (cases "ok = NavOk")
    case False
    with screenshot_try_nav(1) [OF None n] show ?thesis
      by (simp add: nav_failure_not_bad_url)
  next
    case True
    define vp where "vp = (case viewport args of None \<Rightarrow> default_viewport | Some v \<Rightarrow> v)"
    define full where "full = (case fullPage args of None \<Rightarrow> True | Some b \<Rightarrow> b)"
    obtain r em up where c: "screenshot_capture env sid vp full = (r, em, up)"
      by (cases "screenshot_capture env sid vp full") auto
    with screenshot_capture_codes(2) [of env sid vp full msg]
    have "r \<noteq> Inr (ToolFail msg BAD_URL)" by simp
    with None n True c show ?thesis
      by (simp add: screenshot_try_def Let_def wantWait_of_def vp_def full_def)
  qed
qed

lemma pdf_try_not_bad_url:
  "fst (pdf_try env sid u args) \<noteq> Inr (ToolFail msg BAD_URL)"
proof (cases "page_setup env")
  case (Some e)
  then show ?thesis by (simp add: pdf_try_def Let_def)
next
  case None
  obtain ok tr www
    where n: "navigate env (clamp_timeout (timeoutMs args)) u (wantWait_of args) = (ok, tr, www)"
    by (cases "navigate env (clamp_timeout (timeoutMs args)) u (wantWait_of args)") auto
  show ?thesis
  proof (cases "ok = NavOk")
    case False
    with pdf_try_nav(1) [OF None n] show ?thesis
      by (simp add: nav_failure_not_bad_url)
  next
    case True
    obtain r em up
      where c: "pdf_capture env sid (pdfOpts args) (clamp_timeout (timeoutMs args)) = (r, em, up)"
      by (cases "pdf_capture env sid (pdfOpts args) (clamp_timeout (timeoutMs args))") auto
    with pdf_capture_codes(2) [of env sid "pdfOpts args" "clamp_timeout (timeoutMs args)" msg]
    have "r \<noteq> Inr (ToolFail msg BAD_URL)" by simp
    with None n True c show ?thesis
      by (simp add: pdf_try_def Let_def wantWait_of_def)
  qed
qed

lemma screenshot_not_bad_url:
  assumes "normalizeUrl (URL_new env) (url args) = Some u"
  shows "returned (captureScreenshot env sid args) \<noteq> Inr (ToolFail msg BAD_URL)"
proof (cases "browser_launch env")
  case (Some e)
  with assms show ?thesis by (simp add: captureScreenshot_def)
next
  case None
  obtain r em tr up where t: "screenshot_try env sid u args = (r, em, tr, up)"
    by (cases "screenshot_try env sid u args") auto
  with screenshot_try_not_bad_url [of env sid u args msg]
  have "r \<noteq> Inr (ToolFail msg BAD_URL)" by simp
  then show ?thesis
    unfolding captureScreenshot_launched [OF assms None t]
    by (cases r) (simp_all add: capture_catch_codes)
qed

lemma pdf_not_bad_url:
  assumes "normalizeUrl (URL_new env) (url args) = Some u"
  shows "returned (convertToPdf env sid args) \<noteq> Inr (ToolFail msg BAD_URL)"
proof (cases "browser_launch env")
  case (Some e)
  with assms show ?thesis by (simp add: convertToPdf_def)
next
  case None
  obtain r em tr up where t: "pdf_try env sid u args = (r, em, tr, up)"
    by (cases "pdf_try env sid u args") auto
  with pdf_try_not_bad_url [of env sid u args msg]
  have "r \<noteq> Inr (ToolFail msg BAD_URL)" by simp
  then show ?thesis
    unfolding convertToPdf_launched [OF assms None t]
    by (cases r) (simp_all add: capture_catch_codes)
qed

lemma shot_text_matches: "regex_test screenshot_rx ''take a screenshot''"
  by code_simp

lemma shot_text_no_url: "regex_match url_rx ''take a screenshot'' = None"
  by code_simp

lemma pdf_text_matches:
  "regex_test pdf_rx ''save as pdf please''" "\<not> regex_test screenshot_rx ''save as pdf please''"
  by code_simp+

lemma pdf_text_no_url: "regex_match url_rx ''save as pdf please'' = None"
  by code_simp

lemma trim_shot_text: "trim ''take a screenshot'' = ''take a screenshot''"
  by (simp add: trim_def trimStart_def trimEnd_def strip_token_def js_ws_tokens_def)

lemma trim_pdf_text: "trim ''save as pdf please'' = ''save as pdf please''"
  by (simp add: trim_def trimStart_def trimEnd_def strip_token_def js_ws_tokens_def)

lemma ai_no_tool_plans_nothing: "tryPlanTool ai_no_tool parse sb st h u = None"
  by (simp add: tryPlanTool_def ai_no_tool_def isRecord_def)

lemma ai_plans_weather_plans:
  "tryPlanTool ai_plans_weather parse sb st h u = Some (JObj [(''location'', JStr ''Paris'')])"
  by (simp add: tryPlanTool_def ai_plans_weather_def isRecord_def parseToolArgs_def)

text \<open>The planner comes first in the chat branch: a planned forecast call is the turn,
  whatever the text matches.\<close>

lemma planner_first:
  assumes "tryPlanTool (AI_run env) (JSON_parse env) (SYSTEM_BEHAVIOR env)
             (state (persist env User userText a)) (history_of (persist env User userText a))
             userText = Some planned"
  shows "chat_turn env userText a = weather_turn env planned (persist env User userText a)"
  using assms by (simp add: chat_turn_def Let_def)

lemma onMessage_chat:
  assumes "decode_frame env f = Some data" "d_type data = Some ''chat''" "d_text data = Some t"
    and "trim t = userText" "userText \<noteq> []"
  shows "onMessage env (Text f) a = chat_turn env userText a"
  using assms by (simp add: onMessage_def truthy_text_def)

text \<open>
  C9, as the code has it. For a \<^verbatim>\<open>chat\<close> frame whose trimmed text is not empty, for which
  the planner returns no forecast call, and in which the URL pattern finds nothing: when
  the text matches the screenshot pattern the turn is the screenshot's with no target,
  and when it matches the PDF pattern and not the screenshot pattern the turn is the
  PDF's with no target. The tool is then called with the URL \<^verbatim>\<open>https://example.com\<close>:
  the events sent are the announcement, \<^verbatim>\<open>done\<close>, the tool's start and the progress
  messages of that call. Where the platform's parser accepts that URL with scheme
  \<^verbatim>\<open>https:\<close>, the call does not return \<^verbatim>\<open>BAD_URL\<close>.
\<close>

theorem default_capture_target:
  assumes "decode_frame env f = Some data" "d_type data = Some ''chat''" "d_text data = Some t"
    and "trim t = userText" "userText \<noteq> []"
    and "tryPlanTool (AI_run env) (JSON_parse env) (SYSTEM_BEHAVIOR env)
           (state (persist env User userText a)) (history_of (persist env User userText a))
           userText = None"
    and "regex_match url_rx userText = None"
  shows
    "(regex_test screenshot_rx userText \<longrightarrow>
        onMessage env (Text f) a =
          screenshot_turn env userText [] (persist env User userText a)
        \<and> (\<exists>rest. sent (fst (onMessage env (Text f) a)) =
              sent a @ [Delta (screenshot_pre []), Done,
                        ToolEvent ''screenshot'' Started (Some (''Planning capture'' @ hellip)) None]
              @ map (\<lambda>m. ToolEvent ''screenshot'' Step (Some m) None)
                  (emitted (captureScreenshot (browser env) (agent_name a) (screenshot_args [])))
              @ rest))
     \<and> (\<not> regex_test screenshot_rx userText \<and> regex_test pdf_rx userText \<longrightarrow>
        onMessage env (Text f) a = pdf_turn env userText [] (persist env User userText a)
        \<and> (\<exists>rest. sent (fst (onMessage env (Text f) a)) =
              sent a @ [Delta (pdf_pre []), Done,
                        ToolEvent ''convertToPdf'' Started (Some (''Planning PDF'' @ hellip)) None]
              @ map (\<lambda>m. ToolEvent ''convertToPdf'' Step (Some m) None)
                  (emitted (convertToPdf (browser env) (agent_name a) (pdf_turn_args [])))
              @ rest))
     \<and> url (screenshot_args []) = ''https://example.com''
     \<and> url (pdf_turn_args []) = ''https://example.com''
     \<and> (URL_new (browser env) ''https://example.com'' = Some u \<and> protocol u = ''https:'' \<longrightarrow>
          returned (captureScreenshot (browser env) (agent_name a) (screenshot_args []))
            \<noteq> Inr (ToolFail msg BAD_URL)
          \<and> returned (convertToPdf (browser env) (agent_name a) (pdf_turn_args []))
            \<noteq> Inr (ToolFail msg BAD_URL))"
proof (intro conjI impI)
  note chat = onMessage_chat [OF assms(1-5)]
  {
    assume s: "regex_test screenshot_rx userText"
    with assms(6,7) show
      t: "onMessage env (Text f) a = screenshot_turn env userText [] (persist env User userText a)"
      unfolding chat by (simp add: chat_turn_def Let_def)
    from screenshot_turn_sent [of env userText "[]" "persist env User userText a"]
    show "\<exists>rest. sent (fst (onMessage env (Text f) a)) =
              sent a @ [Delta (screenshot_pre []), Done,
                        ToolEvent ''screenshot'' Started (Some (''Planning capture'' @ hellip)) None]
              @ map (\<lambda>m. ToolEvent ''screenshot'' Step (Some m) None)
                  (emitted (captureScreenshot (browser env) (agent_name a) (screenshot_args [])))
              @ rest"
      unfolding t by simp
  }
  {
    assume s: "\<not> regex_test screenshot_rx userText \<and> regex_test pdf_rx userText"
    with assms(6,7) show
      t: "onMessage env (Text f) a = pdf_turn env userText [] (persist env User userText a)"
      unfolding chat by (simp add: chat_turn_def Let_def)
    from pdf_turn_sent [of env userText "[]" "persist env User userText a"]
    show "\<exists>rest. sent (fst (onMessage env (Text f) a)) =
              sent a @ [Delta (pdf_pre []), Done,
                        ToolEvent ''convertToPdf'' Started (Some (''Planning PDF'' @ hellip)) None]
              @ map (\<lambda>m. ToolEvent ''convertToPdf'' Step (Some m) None)
                  (emitted (convertToPdf (browser env) (agent_name a) (pdf_turn_args [])))
              @ rest"
      unfolding t by simp
  }
  show "url (screenshot_args []) = ''https://example.com''"
    by (simp add: screenshot_args_def)
  show "url (pdf_turn_args []) = ''https://example.com''"
    by (simp add: pdf_turn_args_def)
  {
    assume p: "URL_new (browser env) ''https://example.com'' = Some u \<and> protocol u = ''https:''"
    then have n: "normalizeUrl (URL_new (browser env)) ''https://example.com'' = Some u"
      by (simp add: default_url_accepted)
    from n show "returned (captureScreenshot (browser env) (agent_name a) (screenshot_args []))
            \<noteq> Inr (ToolFail msg BAD_URL)"
      by (intro screenshot_not_bad_url [where u = u]) (simp add: screenshot_args_def)
    from n show "returned (convertToPdf (browser env) (agent_name a) (pdf_turn_args []))
            \<noteq> Inr (ToolFail msg BAD_URL)"
      by (intro pdf_not_bad_url [where u = u]) (simp add: pdf_turn_args_def)
  }
qed

theorem default_capture_target_witness:
  "onMessage (sample_controller ai_no_tool) (Text (chat_frame ''take a screenshot'')) agent0 =
     screenshot_turn (sample_controller ai_no_tool) ''take a screenshot'' []
       (persist (sample_controller ai_no_tool) User ''take a screenshot'' agent0)
   \<and> returned (captureScreenshot (sample_env None goto_load_only) ''session-1'' (screenshot_args []))
       \<noteq> Inr (ToolFail ''Invalid URL'' BAD_URL)
   \<and> onMessage (sample_controller ai_no_tool) (Text (chat_frame ''save as pdf please'')) agent0 =
       pdf_turn (sample_controller ai_no_tool) ''save as pdf please'' []
         (persist (sample_controller ai_no_tool) User ''save as pdf please'' agent0)
   \<and> returned (convertToPdf (sample_env None goto_load_only) ''session-1'' (pdf_turn_args []))
       \<noteq> Inr (ToolFail ''Invalid URL'' BAD_URL)"
proof -
  have u: "URL_new (sample_env None goto_load_only) ''https://example.com'' = Some example_url"
    "protocol example_url = ''https:''"
    by (simp_all add: sample_URL_new_def example_url_def)
  note a = default_capture_target [where env = "sample_controller ai_no_tool"
      and f = "chat_frame ''take a screenshot''" and a = agent0
      and data = "\<lparr>d_type = Some ''chat'', d_text = Some ''take a screenshot'', d_model = None\<rparr>"
      and t = "''take a screenshot''" and userText = "''take a screenshot''"
      and u = example_url and msg = "''Invalid URL''"]
  note b = default_capture_target [where env = "sample_controller ai_no_tool"
      and f = "chat_frame ''save as pdf please''" and a = agent0
      and data = "\<lparr>d_type = Some ''chat'', d_text = Some ''save as pdf please'', d_model = None\<rparr>"
      and t = "''save as pdf please''" and userText = "''save as pdf please''"
      and u = example_url and msg = "''Invalid URL''"]
  have "onMessage (sample_controller ai_no_tool) (Text (chat_frame ''take a screenshot'')) agent0 =
     screenshot_turn (sample_controller ai_no_tool) ''take a screenshot'' []
       (persist (sample_controller ai_no_tool) User ''take a screenshot'' agent0)
   \<and> returned (captureScreenshot (sample_env None goto_load_only) ''session-1'' (screenshot_args []))
       \<noteq> Inr (ToolFail ''Invalid URL'' BAD_URL)"
    using a u shot_text_matches shot_text_no_url
    by (simp add: sample_decode_frames trim_shot_text ai_no_tool_plans_nothing)
  moreover
  have "onMessage (sample_controller ai_no_tool) (Text (chat_frame ''save as pdf please'')) agent0 =
       pdf_turn (sample_controller ai_no_tool) ''save as pdf please'' []
         (persist (sample_controller ai_no_tool) User ''save as pdf please'' agent0)
   \<and> returned (convertToPdf (sample_env None goto_load_only) ''session-1'' (pdf_turn_args []))
       \<noteq> Inr (ToolFail ''Invalid URL'' BAD_URL)"
    using b u pdf_text_matches pdf_text_no_url
    by (simp add: sample_decode_frames trim_pdf_text ai_no_tool_plans_nothing)
  ultimately show ?thesis by simp
qed

lemma paris_planned: "as_WeatherArgs (JObj [(''location'', JStr ''Paris'')]) = paris_args"
  by (simp add: as_WeatherArgs_def paris_args_def Let_def)

lemma paris_location: "location paris_args = Some ''Paris''"
  by (simp add: paris_args_def)

lemma offline_paris: "getWeather offline_weather paris_args = Inr (WeatherFail ''fetch failed'')"
  by (simp add: getWeather_def offline_weather_try)

text \<open>
  The claim as stated fails when the planner returns a forecast call: the text matches the
  screenshot pattern and holds no URL, and the turn is the forecast's; no capture runs.
\<close>

theorem default_capture_target_counterexample:
  "regex_test screenshot_rx ''take a screenshot''
   \<and> regex_match url_rx ''take a screenshot'' = None
   \<and> sent (fst (onMessage (sample_controller ai_plans_weather)
                   (Text (chat_frame ''take a screenshot'')) agent0)) =
       [Delta (''Sure '' @ mdash @ '' I'' @ rsquo
                 @ ''ll check the forecast for Paris using getWeather'' @ hellip),
        Done,
        ToolEvent ''getWeather'' Started (Some (''Planning weather lookup'' @ hellip)) None,
        ToolEvent ''getWeather'' Step (Some (''Fetching forecast from Open-Meteo'' @ hellip)) None,
        ToolEvent ''getWeather'' Failed (Some ''fetch failed'') None]"
proof -
  have "onMessage (sample_controller ai_plans_weather)
          (Text (chat_frame ''take a screenshot'')) agent0 =
        chat_turn (sample_controller ai_plans_weather) ''take a screenshot'' agent0"
    by (rule onMessage_chat [where t = "''take a screenshot''"
          and data = "\<lparr>d_type = Some ''chat'', d_text = Some ''take a screenshot'', d_model = None\<rparr>"])
       (simp_all add: sample_decode_frames trim_shot_text)
  moreover
  have "chat_turn (sample_controller ai_plans_weather) ''take a screenshot'' agent0 =
        weather_turn (sample_controller ai_plans_weather) (JObj [(''location'', JStr ''Paris'')])
          (persist (sample_controller ai_plans_weather) User ''take a screenshot'' agent0)"
    by (rule planner_first) (simp add: ai_plans_weather_plans)
  moreover
  have "sent (fst (weather_turn (sample_controller ai_plans_weather)
                     (JObj [(''location'', JStr ''Paris'')])
                     (persist (sample_controller ai_plans_weather) User ''take a screenshot'' agent0))) =
       [Delta (''Sure '' @ mdash @ '' I'' @ rsquo
                 @ ''ll check the forecast for Paris using getWeather'' @ hellip),
        Done,
        ToolEvent ''getWeather'' Started (Some (''Planning weather lookup'' @ hellip)) None,
        ToolEvent ''getWeather'' Step (Some (''Fetching forecast from Open-Meteo'' @ hellip)) None,
        ToolEvent ''getWeather'' Failed (Some ''fetch failed'') None]"
    by (simp add: weather_turn_def Let_def paris_planned offline_paris paris_location
        saveAssistant_def)
  ultimately show ?thesis
    using shot_text_matches shot_text_no_url by simp
qed

end
